theory Spec2Isabelle
  imports Complex_Main "HOL-Library.Word" "HOL-Library.Char_ord" "HOL-Library.List_Lexorder"
    "HOL-Library.Product_Lexorder" "HOL-Library.Multiset"
begin

unbundle bit_operations_syntax

section \<open>Data model of GenericTrajectory\<close>

text \<open>
  The numeric scalar \<open>dReal\<close> is modelled by the reals: comparisons and arithmetic are
  exact, rounding is not modelled.  \<open>size_t\<close> is a 64-bit unsigned integer; products of a
  caller-supplied index with the row width wrap modulo \<open>2 ^ 64\<close> and are written with
  \<open>mul_size_t\<close>.  Indices computed inside the sampler are kept as mathematical integers and
  every buffer access is checked: an access outside the buffer is a failure value.
\<close>

type_synonym dReal = real

record Group =
  name :: string
  offset :: int
  dof :: int
  interpolation :: string

record ConfigurationSpecification =
  vgroups :: "Group list"

datatype OpenRAVEErrorCode =
  ORE_InvalidArguments | ORE_InvalidState | ORE_NotImplemented

datatype fmtarg = ArgReal real | ArgInt int | ArgStr string

text \<open>
  Every way a member function can leave other than by returning:
  an \<open>openrave_exception\<close> with its format string, format arguments and error code;
  the exception of an \<open>OPENRAVE_ASSERT_OP\<close> (no error code is given at the call site);
  a failed \<open>BOOST_ASSERT\<close>; \<open>std::out_of_range\<close> from \<open>vector::at\<close>;
  \<open>std::length_error\<close> and \<open>std::bad_alloc\<close> from \<open>vector::resize\<close> and \<open>vector::reserve\<close>;
  and an unchecked access outside a buffer.
\<close>

datatype failure =
    openrave_exception string "fmtarg list" OpenRAVEErrorCode
  | openrave_assert_op string
  | boost_assert string
  | std_out_of_range
  | std_length_error
  | std_bad_alloc
  | undefined_behaviour

datatype Interpolator =
    InterpolatePrevious | InterpolateNext | InterpolateLinear | InterpolateLinearIk int
  | InterpolateQuadratic | InterpolateQuadraticIk int | InterpolateCubic | InterpolateCubicIk int
  | InterpolateQuartic | InterpolateQuintic | InterpolateSextic | InterpolateMax

datatype Validator =
    ValidateLinear | ValidateQuadratic | ValidateCubic | ValidateQuartic | ValidateQuintic
  | ValidateSextic

text \<open>
  The members of \<open>GenericTrajectory\<close>, with the description and the readable interfaces it
  inherits.  A bound interpolator or validator is stored as its kernel tag; the group it is
  bound to is the group at the same position of \<open>spec\<close>.  The readable interfaces are a
  \<open>std::map\<close>, kept as the list of its entries in iteration order; a null pointer is \<open>None\<close>.
\<close>

record 'r Traj =
  spec :: ConfigurationSpecification
  vgroupinterpolators :: "Interpolator option list"
  vgroupvalidators :: "Validator option list"
  vderivoffsets :: "int list"
  vddoffsets :: "int list"
  vdddoffsets :: "int list"
  vintegraloffsets :: "int list"
  viioffsets :: "int list"
  timeoffset :: int
  vtrajdata :: "dReal list"
  vaccumtime :: "dReal list"
  vdeltainvtime :: "dReal list"
  bInit :: bool
  bChanged :: bool
  bSamplingVerified :: bool
  description :: string
  mapReadableInterfaces :: "(string \<times> 'r option) list"

text \<open>A \<open>Vector\<close> has the components \<open>x, y, z, w\<close>; \<open>v[0]\<close> is \<open>x\<close>.\<close>

type_synonym Vector = "dReal \<times> dReal \<times> dReal \<times> dReal"

text \<open>The geometry helpers and the inverse-kinematics type tags the rotation-aware
  interpolators use; none is defined under \<open>src/\<close>.\<close>

record Geometry =
  IKP_Rotation3D :: int
  IKP_Transform6D :: int
  IKP_TranslationDirection5D :: int
  quatSlerp :: "Vector \<Rightarrow> Vector \<Rightarrow> dReal \<Rightarrow> Vector"
  quatMultiply :: "Vector \<Rightarrow> Vector \<Rightarrow> Vector"
  quatInverse :: "Vector \<Rightarrow> Vector"
  quatFromAxisAngle :: "Vector \<Rightarrow> Vector"
  quatRotate :: "Vector \<Rightarrow> Vector \<Rightarrow> Vector"
  vec_cross :: "Vector \<Rightarrow> Vector \<Rightarrow> Vector"
  vec_lengthsqr3 :: "Vector \<Rightarrow> dReal"
  vec_scale :: "Vector \<Rightarrow> dReal \<Rightarrow> Vector"
  vec_add :: "Vector \<Rightarrow> Vector \<Rightarrow> Vector"
  vec_sub :: "Vector \<Rightarrow> Vector \<Rightarrow> Vector"
  RaveSqrt :: "dReal \<Rightarrow> dReal"
  RaveAsin :: "dReal \<Rightarrow> dReal"
  RaveFabs :: "dReal \<Rightarrow> dReal"
  RavePow :: "dReal \<Rightarrow> dReal \<Rightarrow> dReal"
  PI :: dReal

text \<open>
  What the trajectory uses and \<open>src/\<close> does not define: the constant \<open>g_fEpsilon\<close>, the
  members of \<open>ConfigurationSpecification\<close>, the debug level, the geometry helpers, the
  option bit \<open>TIO_ReserveTimeBasedVectors\<close>, whether the allocator grants the storage that
  \<open>reserve(n)\<close> asks for, and whether the handler \<open>boost::assertion_failed\<close> that a failed
  \<open>BOOST_ASSERT\<close> calls throws an \<open>openrave_exception\<close>.  They are parameters; every theorem
  below holds for each choice of them.
\<close>

record 'r Env =
  g_fEpsilon :: dReal
  GetDOF :: "ConfigurationSpecification \<Rightarrow> int"
  spec_equal :: "ConfigurationSpecification \<Rightarrow> ConfigurationSpecification \<Rightarrow> bool"
  FindCompatibleGroup :: "ConfigurationSpecification \<Rightarrow> Group \<Rightarrow> Group option"
  FindTimeDerivativeGroup :: "ConfigurationSpecification \<Rightarrow> Group \<Rightarrow> Group option"
  FindTimeIntegralGroup :: "ConfigurationSpecification \<Rightarrow> Group \<Rightarrow> Group option"
  GetInterpolationDerivative :: "string \<Rightarrow> string"
  GetInterpolationIntegral :: "string \<Rightarrow> string"
  ConvertGroupData :: "Group \<Rightarrow> Group \<Rightarrow> bool \<Rightarrow> dReal list \<Rightarrow> dReal list \<Rightarrow> dReal list"
  RaveGetAffineDOF :: "int \<Rightarrow> int"
  AffineDOFValuesOfIdentity :: "int \<Rightarrow> dReal list"
  level_verbose_or_verifyplans :: bool
  level_debug_or_verifyplans :: bool
  geometry :: Geometry
  TIO_ReserveTimeBasedVectors :: int
  reserve_granted :: "nat \<Rightarrow> bool"
  assertion_failed_throws :: bool

definition size_t_max :: nat where
  "size_t_max = 2 ^ 64"

definition to_size_t :: "int \<Rightarrow> nat" where
  "to_size_t i = nat (i mod int size_t_max)"

definition mul_size_t :: "nat \<Rightarrow> nat \<Rightarrow> nat" where
  "mul_size_t a b = (a * b) mod size_t_max"

definition sub_size_t :: "nat \<Rightarrow> nat \<Rightarrow> nat" where
  "sub_size_t a b = nat ((int a - int b) mod int size_t_max)"

definition add_size_t :: "nat \<Rightarrow> nat \<Rightarrow> nat" where
  "add_size_t a b = (a + b) mod size_t_max"

text \<open>
  The product of two \<open>int\<close> values as the target computes it, wrapping into the 32-bit
  two's complement range.
\<close>

definition mul_int :: "int \<Rightarrow> int \<Rightarrow> int" where
  "mul_int a b = (a * b + 2 ^ 31) mod 2 ^ 32 - 2 ^ 31"

text \<open>
  \<open>v.reserve(n)\<close> on a vector of \<open>dReal\<close>: a request beyond \<open>max_size()\<close> throws
  \<open>std::length_error\<close>, and one the allocator does not grant throws \<open>std::bad_alloc\<close>.  No
  value of the vector changes.  \<open>max_size()\<close> is \<open>PTRDIFF_MAX\<close> divided by the size of a
  \<open>dReal\<close>, here of 8 bytes; for the requests made by \<open>Init\<close> only its being below \<open>2 ^ 63\<close>
  and above \<open>2 ^ 31\<close> matters.
\<close>

definition vector_max_size :: nat where
  "vector_max_size = 2 ^ 60 - 1"

definition reserve :: "('r, 'e) Env_scheme \<Rightarrow> nat \<Rightarrow> failure + unit" where
  "reserve E n =
     (if n > vector_max_size then Inl std_length_error
      else if \<not> reserve_granted E n then Inl std_bad_alloc
      else Inr ())"

definition DOF :: "('r, 'e) Env_scheme \<Rightarrow> ('r, 't) Traj_scheme \<Rightarrow> int" where
  "DOF E t = GetDOF E (spec t)"

section \<open>Waypoint buffer\<close>

definition ClearWaypoints :: "'r Traj \<Rightarrow> 'r Traj" where
  "ClearWaypoints t =
     (if bInit t then
        (if length (vtrajdata t) > 0
         then t\<lparr> bSamplingVerified := False, bChanged := True, vtrajdata := [] \<rparr>
         else t)
      else t)"

text \<open>\<open>Insert(index, pdata, nDataElements, bOverwrite)\<close>; \<open>pdata\<close> is the list of the
  \<open>nDataElements\<close> values.\<close>

definition Insert :: "'r Env \<Rightarrow> nat \<Rightarrow> dReal list \<Rightarrow> bool \<Rightarrow> 'r Traj \<Rightarrow> failure + 'r Traj" where
  "Insert E index pdata bOverwrite t =
     (let nDataElements = length pdata; d = to_size_t (DOF E t); pos = mul_size_t index d;
          sz = length (vtrajdata t)
      in
      if \<not> bInit t then Inl (boost_assert ''_bInit'')
      else if nDataElements = 0 then Inr t
      else if \<not> (DOF E t > 0) then Inl (boost_assert ''_spec.GetDOF()>0'')
      else if nDataElements mod d \<noteq> 0
        then Inl (openrave_exception ''%d does not divide dof %d''
                    [ArgInt (int (nDataElements mod d))] ORE_InvalidArguments)
      else if \<not> (pos \<le> sz)
        then Inl (openrave_assert_op ''index*_spec.GetDOF() <= _vtrajdata.size()'')
      else if bOverwrite \<and> pos < sz then
        (let copysize = min nDataElements (sz - pos);
             copied = take pos (vtrajdata t) @ take copysize pdata
                        @ drop (pos + copysize) (vtrajdata t)
         in Inr (t\<lparr> vtrajdata :=
                      (if copysize < nDataElements then copied @ drop copysize pdata else copied),
                    bChanged := True \<rparr>))
      else
        Inr (t\<lparr> vtrajdata := take pos (vtrajdata t) @ pdata @ drop pos (vtrajdata t),
                 bChanged := True \<rparr>))"

text \<open>\<open>Remove(startindex, endindex)\<close>.  \<open>vector::erase\<close> on a range whose end lies before
  its start is undefined.\<close>

definition Remove :: "'r Env \<Rightarrow> nat \<Rightarrow> nat \<Rightarrow> 'r Traj \<Rightarrow> failure + 'r Traj" where
  "Remove E startindex endindex t =
     (let d = to_size_t (DOF E t); s = mul_size_t startindex d; e = mul_size_t endindex d;
          sz = length (vtrajdata t)
      in
      if \<not> bInit t then Inl (boost_assert ''_bInit'')
      else if startindex = endindex then Inr t
      else if \<not> (s \<le> sz \<and> e \<le> sz)
        then Inl (boost_assert
          ''startindex*_spec.GetDOF() <= _vtrajdata.size() && endindex*_spec.GetDOF() <= _vtrajdata.size()'')
      else if \<not> (startindex < endindex) then Inl (openrave_assert_op ''startindex < endindex'')
      else if e < s then Inl undefined_behaviour
      else Inr (t\<lparr> vtrajdata := take s (vtrajdata t) @ drop e (vtrajdata t),
                   bChanged := True \<rparr>))"

subsection \<open>Checked buffer access and loops\<close>

text \<open>\<open>v[i]\<close> and \<open>*(it + i)\<close>: outside the buffer the behaviour is undefined.\<close>

definition rd :: "'a list \<Rightarrow> int \<Rightarrow> failure + 'a" where
  "rd xs i = (if 0 \<le> i \<and> i < int (length xs) then Inr (xs ! nat i) else Inl undefined_behaviour)"

text \<open>\<open>v.at(i)\<close> throws \<open>std::out_of_range\<close>.\<close>

definition rd_at :: "'a list \<Rightarrow> int \<Rightarrow> failure + 'a" where
  "rd_at xs i = (if 0 \<le> i \<and> i < int (length xs) then Inr (xs ! nat i) else Inl std_out_of_range)"

definition wr :: "'a list \<Rightarrow> int \<Rightarrow> 'a \<Rightarrow> failure + 'a list" where
  "wr xs i v =
     (if 0 \<le> i \<and> i < int (length xs) then Inr (xs[nat i := v]) else Inl undefined_behaviour)"

definition bindF :: "failure + 'a \<Rightarrow> ('a \<Rightarrow> failure + 'b) \<Rightarrow> failure + 'b" where
  "bindF m f = (case m of Inl e \<Rightarrow> Inl e | Inr x \<Rightarrow> f x)"

text \<open>A \<open>for\<close> loop over the values \<open>xs\<close> of its counter; a failure leaves the loop.\<close>

fun forM :: "'i list \<Rightarrow> ('i \<Rightarrow> 's \<Rightarrow> failure + 's) \<Rightarrow> 's \<Rightarrow> failure + 's" where
  "forM [] f s = Inr s"
| "forM (x # xs) f s = (case f x s of Inl e \<Rightarrow> Inl e | Inr s' \<Rightarrow> forM xs f s')"

text \<open>The counter values of \<open>for(int j = 0; j < n; ++j)\<close>.\<close>

definition upto_int :: "int \<Rightarrow> int list" where
  "upto_int n = map int [0..<nat n]"

text \<open>\<open>std::copy(src.begin()+from, src.begin()+from+n, dst+to)\<close>; a negative count is
  undefined.\<close>

definition copy_range :: "dReal list \<Rightarrow> int \<Rightarrow> int \<Rightarrow> dReal list \<Rightarrow> int \<Rightarrow> failure + dReal list" where
  "copy_range src from n dst to =
     (if n < 0 then Inl undefined_behaviour
      else forM (upto_int n) (\<lambda>j d. bindF (rd src (from + j)) (\<lambda>v. wr d (to + j) v)) dst)"

subsection \<open>Formatted extraction from a string stream\<close>

definition isspace :: "char \<Rightarrow> bool" where
  "isspace c = (c \<in> set [CHR '' '', CHR 0x09, CHR 0x0A, CHR 0x0B, CHR 0x0C, CHR 0x0D])"

definition isdigit :: "char \<Rightarrow> bool" where
  "isdigit c = (CHR ''0'' \<le> c \<and> c \<le> CHR ''9'')"

definition digit_value :: "char \<Rightarrow> int" where
  "digit_value c = int (of_char c) - 48"

text \<open>\<open>ss >> token\<close> on the rest \<open>s\<close> of the stream: the token and the new rest, or
  \<open>None\<close> when the extraction fails.\<close>

definition extract_token :: "string \<Rightarrow> (string \<times> string) option" where
  "extract_token s =
     (let s1 = dropWhile isspace s; tok = takeWhile (\<lambda>c. \<not> isspace c) s1
      in if tok = [] then None else Some (tok, dropWhile (\<lambda>c. \<not> isspace c) s1))"

text \<open>\<open>ss >> n\<close> for an \<open>int\<close>: the value stored and whether the extraction succeeded.
  A missing number stores 0; a number outside the 32-bit range stores the nearest bound;
  both fail.\<close>

definition extract_int :: "string \<Rightarrow> int \<times> bool" where
  "extract_int s =
     (let s1 = dropWhile isspace s;
          neg = (s1 \<noteq> [] \<and> hd s1 = CHR ''-'');
          s2 = (if s1 \<noteq> [] \<and> (hd s1 = CHR ''-'' \<or> hd s1 = CHR ''+'') then tl s1 else s1);
          ds = takeWhile isdigit s2;
          m = foldl (\<lambda>a c. 10 * a + digit_value c) 0 ds;
          v = (if neg then - m else m)
      in if ds = [] then (0, False)
         else if v > 2147483647 then (2147483647, False)
         else if v < - 2147483648 then (- 2147483648, False)
         else (v, True))"

subsection \<open>Conversion into the trajectory's specification\<close>

text \<open>
  \<open>ConvertGroupData\<close> is called once per group with strides; it is taken to convert row by
  row: the new values of the target group's slots of a row are given by the parameter
  \<open>ConvertGroupData\<close> from the two groups, the fill flag, the source group's slots of that
  row and the old values of the target slots.  \<open>tgt\<close> is the vector \<open>ittargetdata\<close> points
  into and \<open>base\<close> the position it points at.
\<close>

definition slice :: "dReal list \<Rightarrow> int \<Rightarrow> int \<Rightarrow> failure + dReal list" where
  "slice xs from n =
     (if n < 0 \<or> from < 0 \<or> from + n > int (length xs) then Inl undefined_behaviour
      else Inr (take (nat n) (drop (nat from) xs)))"

definition put_slice :: "dReal list \<Rightarrow> int \<Rightarrow> int \<Rightarrow> dReal list \<Rightarrow> failure + dReal list" where
  "put_slice xs from n vs =
     (if n < 0 \<or> from < 0 \<or> from + n > int (length xs) then Inl undefined_behaviour
      else Inr (take (nat from) xs @ take (nat n) (vs @ take (nat n) (drop (nat from) xs))
                 @ drop (nat from + nat n) xs))"

definition ConvertGroupRows ::
  "'r Env \<Rightarrow> int \<Rightarrow> Group \<Rightarrow> dReal list \<Rightarrow> int \<Rightarrow> Group \<Rightarrow> nat \<Rightarrow> bool \<Rightarrow> dReal list \<Rightarrow> int
     \<Rightarrow> failure + dReal list" where
  "ConvertGroupRows E tstride g psourcedata sstride sg numelements fill tgt base =
     forM [0..<numelements]
       (\<lambda>e d.
          bindF (slice psourcedata (offset sg + int e * sstride) (dof sg)) (\<lambda>src.
          bindF (slice d (base + offset g + int e * tstride) (dof g)) (\<lambda>old.
            put_slice d (base + offset g + int e * tstride) (dof g)
              (ConvertGroupData E g sg fill src old))))
       tgt"

definition default_values :: "'r Env \<Rightarrow> Group \<Rightarrow> failure + dReal list" where
  "default_values E g =
     (if dof g < 0 then Inl std_length_error
      else
        let zeros = replicate (nat (dof g)) (0::dReal); groupname = name g in
        if length groupname \<ge> 16 \<and> take 16 groupname = ''affine_transform'' then
          (case extract_token (drop 16 groupname) of
             None \<Rightarrow> Inr zeros
           | Some (robotname, rest) \<Rightarrow>
               (case extract_int rest of
                  (affinedofs, ok) \<Rightarrow>
                    if \<not> ok then Inr zeros
                    else if dof g \<noteq> RaveGetAffineDOF E affinedofs
                      then Inl (boost_assert ''(int)vdefaultvalues.size()==RaveGetAffineDOF(affinedofs)'')
                    else Inr (take (nat (dof g)) (AffineDOFValuesOfIdentity E affinedofs @ zeros))))
        else if length groupname \<ge> 13 \<and> take 13 groupname = ''outputSignals''
          then Inr (replicate (nat (dof g)) (- 1))
        else Inr zeros)"

definition ConvertData ::
  "'r Env \<Rightarrow> 'r Traj \<Rightarrow> dReal list \<Rightarrow> int \<Rightarrow> dReal list \<Rightarrow> Group option list
     \<Rightarrow> ConfigurationSpecification \<Rightarrow> nat \<Rightarrow> bool \<Rightarrow> failure + dReal list" where
  "ConvertData E t tgt base psourcedata vconvertgroups sp numelements filluninitialized =
     forM [0..<length vconvertgroups]
       (\<lambda>igroup d.
          if igroup \<ge> length (vgroups (spec t)) then Inl undefined_behaviour
          else
            let g = vgroups (spec t) ! igroup in
            (case vconvertgroups ! igroup of
               Some sg \<Rightarrow>
                 ConvertGroupRows E (DOF E t) g psourcedata (GetDOF E sp) sg numelements
                   filluninitialized d base
             | None \<Rightarrow>
                 if filluninitialized then
                   bindF (default_values E g) (\<lambda>vdefaultvalues.
                     forM [0..<numelements]
                       (\<lambda>ielement d1.
                          forM (upto_int (dof g))
                            (\<lambda>j d2. wr d2 (base + offset g + int ielement * DOF E t + j)
                                         (vdefaultvalues ! nat j))
                            d1)
                       d)
                 else Inr d))
       tgt"

text \<open>
  \<open>Insert(index, pdata, nDataElements, spec, bOverwrite)\<close>.  Its conversion branch has two
  parts.  The first overwrites existing rows in place and yields the buffer, \<open>sourceindex\<close>
  and the advanced \<open>index\<close>; the second converts the remaining rows into \<open>vtemp\<close> and
  inserts them.
\<close>

definition Insert_spec_overwrite ::
  "'r Env \<Rightarrow> nat \<Rightarrow> dReal list \<Rightarrow> ConfigurationSpecification \<Rightarrow> bool \<Rightarrow> Group option list
     \<Rightarrow> 'r Traj \<Rightarrow> failure + (dReal list \<times> nat \<times> nat)" where
  "Insert_spec_overwrite E index pdata sp bOverwrite vconvertgroups t =
     (let d = to_size_t (DOF E t); sd = to_size_t (GetDOF E sp);
          pos = mul_size_t index d; sz = length (vtrajdata t);
          numpoints = length pdata div sd
      in
      if bOverwrite \<and> pos < sz then
        (if d = 0 then Inl undefined_behaviour
         else
           let copyelements = min numpoints (sub_size_t (sz div d) index) in
           bindF (ConvertData E t (vtrajdata t) (int pos) pdata vconvertgroups sp
                    copyelements False)
             (\<lambda>data1. Inr (data1, mul_size_t copyelements sd, add_size_t index copyelements)))
      else Inr (vtrajdata t, 0, index))"

definition Insert_spec_rest ::
  "'r Env \<Rightarrow> dReal list \<Rightarrow> ConfigurationSpecification \<Rightarrow> Group option list \<Rightarrow> 'r Traj
     \<Rightarrow> dReal list \<times> nat \<times> nat \<Rightarrow> failure + dReal list" where
  "Insert_spec_rest E pdata sp vconvertgroups t st =
     (case st of (data1, sourceindex, index1) \<Rightarrow>
        let d = to_size_t (DOF E t); sd = to_size_t (GetDOF E sp) in
        if sourceindex < length pdata then
          let numelements = (length pdata - sourceindex) div sd;
              pos1 = mul_size_t index1 d
          in
          bindF (ConvertData E t (replicate (mul_size_t numelements d) 0) 0
                   (drop sourceindex pdata) vconvertgroups sp numelements True)
            (\<lambda>vtemp. if pos1 \<le> length data1
                      then Inr (take pos1 data1 @ vtemp @ drop pos1 data1)
                      else Inl undefined_behaviour)
        else Inr data1)"

definition Insert_spec ::
  "'r Env \<Rightarrow> nat \<Rightarrow> dReal list \<Rightarrow> ConfigurationSpecification \<Rightarrow> bool \<Rightarrow> 'r Traj
     \<Rightarrow> failure + 'r Traj" where
  "Insert_spec E index pdata sp bOverwrite t =
     (let nDataElements = length pdata; d = to_size_t (DOF E t); sd = to_size_t (GetDOF E sp);
          pos = mul_size_t index d; sz = length (vtrajdata t)
      in
      if \<not> bInit t then Inl (boost_assert ''_bInit'')
      else if nDataElements = 0 then Inr t
      else if \<not> (GetDOF E sp > 0) then Inl (boost_assert ''spec.GetDOF()>0'')
      else if nDataElements mod sd \<noteq> 0
        then Inl (openrave_exception ''%d does not divide dof %d''
                    [ArgInt (int (nDataElements mod sd))] ORE_InvalidArguments)
      else if \<not> (pos \<le> sz)
        then Inl (openrave_assert_op ''index*_spec.GetDOF() <= _vtrajdata.size()'')
      else if spec_equal E (spec t) sp then Insert E index pdata bOverwrite t
      else
        let vconvertgroups = map (FindCompatibleGroup E sp) (vgroups (spec t)) in
        bindF (Insert_spec_overwrite E index pdata sp bOverwrite vconvertgroups t) (\<lambda>st.
        bindF (Insert_spec_rest E pdata sp vconvertgroups t st) (\<lambda>data2.
          Inr (t\<lparr> vtrajdata := data2, bChanged := True \<rparr>))))"

text \<open>\<open>GetNumWaypoints()\<close>: \<open>_vtrajdata.size()/_spec.GetDOF()\<close> in \<open>size_t\<close>.\<close>

definition GetNumWaypoints :: "'r Env \<Rightarrow> 'r Traj \<Rightarrow> failure + nat" where
  "GetNumWaypoints E t =
     (if \<not> bInit t then Inl (boost_assert ''_bInit'')
      else if to_size_t (DOF E t) = 0 then Inl undefined_behaviour
      else Inr (length (vtrajdata t) div to_size_t (DOF E t)))"

text \<open>
  The failures that are exceptions of the library's own exception class.  A failed
  \<open>BOOST_ASSERT\<close> is one exactly when the handler it calls throws one.
\<close>

fun is_structured_error :: "('r, 'e) Env_scheme \<Rightarrow> failure \<Rightarrow> bool" where
  "is_structured_error E (openrave_exception m args c) = True"
| "is_structured_error E (openrave_assert_op m) = True"
| "is_structured_error E (boost_assert m) = assertion_failed_throws E"
| "is_structured_error E e = False"

subsection \<open>Sequences of mutations\<close>

datatype mutation =
    MInsert nat "dReal list" bool
  | MInsertSpec nat "dReal list" ConfigurationSpecification bool
  | MRemove nat nat
  | MClear

fun apply_mutation :: "'r Env \<Rightarrow> mutation \<Rightarrow> 'r Traj \<Rightarrow> failure + 'r Traj" where
  "apply_mutation E (MInsert index pdata bOverwrite) t = Insert E index pdata bOverwrite t"
| "apply_mutation E (MInsertSpec index pdata sp bOverwrite) t =
     Insert_spec E index pdata sp bOverwrite t"
| "apply_mutation E (MRemove startindex endindex) t = Remove E startindex endindex t"
| "apply_mutation E MClear t = Inr (ClearWaypoints t)"

text \<open>The documented preconditions of a mutation on a trajectory of row width \<open>d\<close> with
  \<open>N\<close> waypoints: the data is a whole number of rows and \<open>index \<le> N\<close>, respectively
  \<open>start \<le> end \<le> N\<close>; the buffer, and the rows converted from a foreign specification,
  have a length that fits \<open>size_t\<close>.\<close>

fun mutation_pre :: "'r Env \<Rightarrow> mutation \<Rightarrow> 'r Traj \<Rightarrow> bool" where
  "mutation_pre E (MInsert index pdata bOverwrite) t =
     (length (vtrajdata t) < size_t_max \<and> length pdata mod nat (DOF E t) = 0
      \<and> index \<le> length (vtrajdata t) div nat (DOF E t))"
| "mutation_pre E (MInsertSpec index pdata sp bOverwrite) t =
     (length (vtrajdata t) < size_t_max \<and> length pdata mod nat (GetDOF E sp) = 0
      \<and> length pdata * nat (DOF E t) < size_t_max
      \<and> index \<le> length (vtrajdata t) div nat (DOF E t))"
| "mutation_pre E (MRemove startindex endindex) t =
     (length (vtrajdata t) < size_t_max \<and> startindex \<le> endindex
      \<and> endindex \<le> length (vtrajdata t) div nat (DOF E t))"
| "mutation_pre E MClear t = True"

text \<open>Running a sequence of mutations, and the sequences each of whose mutations meets its
  precondition in the state it is applied to.\<close>

fun run_mutations :: "'r Env \<Rightarrow> mutation list \<Rightarrow> 'r Traj \<Rightarrow> failure + 'r Traj" where
  "run_mutations E [] t = Inr t"
| "run_mutations E (m # ms) t =
     (case apply_mutation E m t of Inl e \<Rightarrow> Inl e | Inr t' \<Rightarrow> run_mutations E ms t')"

fun preconditions_hold :: "'r Env \<Rightarrow> mutation list \<Rightarrow> 'r Traj \<Rightarrow> bool" where
  "preconditions_hold E [] t = True"
| "preconditions_hold E (m # ms) t =
     (mutation_pre E m t \<and>
      (case apply_mutation E m t of Inl e \<Rightarrow> True | Inr t' \<Rightarrow> preconditions_hold E ms t'))"

definition buffer_invariant :: "'r Env \<Rightarrow> 'r Traj \<Rightarrow> bool" where
  "buffer_invariant E t = (length (vtrajdata t) mod nat (DOF E t) = 0)"

section \<open>Initialization\<close>

text \<open>The constructor.  It leaves \<open>_bChanged\<close> unset; \<open>b\<close> is the value it happens to have.\<close>

definition GenericTrajectory :: "bool \<Rightarrow> 'r Traj" where
  "GenericTrajectory b =
     \<lparr> spec = \<lparr> vgroups = [] \<rparr>, vgroupinterpolators = [], vgroupvalidators = [],
       vderivoffsets = [], vddoffsets = [], vdddoffsets = [], vintegraloffsets = [],
       viioffsets = [], timeoffset = - 1, vtrajdata = [], vaccumtime = [], vdeltainvtime = [],
       bInit = False, bChanged = b, bSamplingVerified = False, description = [],
       mapReadableInterfaces = [] \<rparr>"

text \<open>\<open>_maporder\<close>, filled by the constructor.\<close>

definition maporder :: "string \<Rightarrow> int option" where
  "maporder = map_of
     [(''deltatime'', 0), (''joint_snaps'', 1), (''affine_snaps'', 2), (''joint_jerks'', 3),
      (''affine_jerks'', 4), (''joint_accelerations'', 5), (''affine_accelerations'', 6),
      (''joint_velocities'', 7), (''affine_velocities'', 8), (''joint_values'', 9),
      (''affine_transform'', 10), (''joint_torques'', 11)]"

text \<open>The part of a group name before its first space.\<close>

definition name_prefix :: "Group \<Rightarrow> string" where
  "name_prefix g = takeWhile (\<lambda>c. c \<noteq> CHR '' '') (name g)"

definition SortGroups :: "Group \<Rightarrow> Group \<Rightarrow> bool" where
  "SortGroups g1 g2 =
     (let g1prefix = name_prefix g1; g2prefix = name_prefix g2;
          it1 = maporder g1prefix; it2 = maporder g2prefix
      in
      if it1 = None \<and> it2 = None then g1prefix < g2prefix
      else if it1 = None then False
      else if it2 = None then True
      else the it1 < the it2)"

text \<open>\<open>std::stable_sort\<close> with a comparator: elements go in ascending order and elements
  that the comparator does not separate keep their relative order.  Insertion from the right
  computes it.\<close>

fun stable_insert :: "('a \<Rightarrow> 'a \<Rightarrow> bool) \<Rightarrow> 'a \<Rightarrow> 'a list \<Rightarrow> 'a list" where
  "stable_insert lt x [] = [x]"
| "stable_insert lt x (y # ys) = (if lt y x then y # stable_insert lt x ys else x # y # ys)"

definition stable_sort :: "('a \<Rightarrow> 'a \<Rightarrow> bool) \<Rightarrow> 'a list \<Rightarrow> 'a list" where
  "stable_sort lt xs = foldr (stable_insert lt) xs []"

text \<open>The interpolator, the validator and \<open>nNeedNeighboringInfo\<close> chosen for a group.\<close>

definition group_functions :: "Group \<Rightarrow> Interpolator option \<times> Validator option \<times> int" where
  "group_functions g =
     (let interp = interpolation g; nm = name g;
          niktype = fst (extract_int (drop 14 nm));
          first =
            (if interp = ''previous'' then (Some InterpolatePrevious, None, 0)
             else if interp = ''next'' then (Some InterpolateNext, None, 0)
             else if interp = ''linear'' then
               (if (length nm \<ge> 14 \<and> take 14 nm = ''ikparam_values'')
                   \<or> (length nm \<ge> 18 \<and> take 14 nm = ''ikparam_velocities'')
                   \<or> (length nm \<ge> 21 \<and> take 21 nm = ''ikparam_accelerations'')
                then (Some (InterpolateLinearIk niktype), None, 2)
                else (Some InterpolateLinear, Some ValidateLinear, 2))
             else if interp = ''quadratic'' then
               (if (length nm \<ge> 14 \<and> take 14 nm = ''ikparam_values'')
                   \<or> (length nm \<ge> 18 \<and> take 18 nm = ''ikparam_velocities'')
                then (Some (InterpolateQuadraticIk niktype), None, 3)
                else (Some InterpolateQuadratic, Some ValidateQuadratic, 3))
             else if interp = ''cubic'' then
               (if length nm \<ge> 14 \<and> take 14 nm = ''ikparam_values''
                then (Some (InterpolateCubicIk niktype), None, 3)
                else (Some InterpolateCubic, Some ValidateCubic, 3))
             else if interp = ''quartic'' then (Some InterpolateQuartic, Some ValidateQuartic, 3)
             else if interp = ''quintic'' then (Some InterpolateQuintic, Some ValidateQuintic, 3)
             else if interp = ''sextic'' then (Some InterpolateSextic, Some ValidateSextic, 3)
             else (None, None, 0))
      in
      case first of (f, v, nNeedNeighboringInfo) \<Rightarrow>
        if interp = ''max'' then (Some InterpolateMax, v, nNeedNeighboringInfo)
        else if interp = [] then (Some InterpolateNext, v, nNeedNeighboringInfo)
        else (f, v, nNeedNeighboringInfo))"

text \<open>A related group counts only when its interpolation is the expected one.\<close>

definition derivative_group :: "'r Env \<Rightarrow> ConfigurationSpecification \<Rightarrow> Group \<Rightarrow> Group option" where
  "derivative_group E sp g =
     (case FindTimeDerivativeGroup E sp g of
        None \<Rightarrow> None
      | Some itderiv \<Rightarrow>
          if length (interpolation itderiv) = 0
             \<or> interpolation itderiv \<noteq> GetInterpolationDerivative E (interpolation g)
          then None else Some itderiv)"

definition integral_group :: "'r Env \<Rightarrow> ConfigurationSpecification \<Rightarrow> Group \<Rightarrow> Group option" where
  "integral_group E sp g =
     (case FindTimeIntegralGroup E sp g of
        None \<Rightarrow> None
      | Some itintegral \<Rightarrow>
          if length (interpolation itintegral) = 0
             \<or> interpolation itintegral \<noteq> GetInterpolationIntegral E (interpolation g)
          then None else Some itintegral)"

text \<open>\<open>for(int j = 0; j < g.dof; ++j) v[g.offset+j] = f j\<close> on an offset vector.\<close>

definition set_offsets :: "Group \<Rightarrow> (int \<Rightarrow> int) \<Rightarrow> int list \<Rightarrow> failure + int list" where
  "set_offsets g f v = forM (upto_int (dof g)) (\<lambda>j v1. wr v1 (offset g + j) (f j)) v"

text \<open>The resolution of the derivative chain and of the integral chain of group \<open>g\<close>.\<close>

definition resolve_derivatives :: "'r Env \<Rightarrow> Group \<Rightarrow> int \<Rightarrow> 'r Traj \<Rightarrow> failure + 'r Traj" where
  "resolve_derivatives E g nNeed t =
     (case derivative_group E (spec t) g of
        None \<Rightarrow>
          bindF (set_offsets g (\<lambda>j. - nNeed) (vderivoffsets t)) (\<lambda>v. Inr (t\<lparr> vderivoffsets := v \<rparr>))
      | Some itderiv \<Rightarrow>
          bindF (set_offsets g (\<lambda>j. offset itderiv + j) (vderivoffsets t)) (\<lambda>v.
            let t1 = t\<lparr> vderivoffsets := v \<rparr> in
            (case derivative_group E (spec t1) itderiv of
               None \<Rightarrow>
                 bindF (set_offsets g (\<lambda>j. - nNeed) (vddoffsets t1))
                   (\<lambda>v. Inr (t1\<lparr> vddoffsets := v \<rparr>))
             | Some itdd \<Rightarrow>
                 bindF (set_offsets g (\<lambda>j. offset itdd + j) (vddoffsets t1)) (\<lambda>v.
                   let t2 = t1\<lparr> vddoffsets := v \<rparr> in
                   (case derivative_group E (spec t2) itdd of
                      None \<Rightarrow>
                        bindF (set_offsets g (\<lambda>j. - nNeed) (vdddoffsets t2))
                          (\<lambda>v. Inr (t2\<lparr> vdddoffsets := v \<rparr>))
                    | Some itddd \<Rightarrow>
                        bindF (set_offsets g (\<lambda>j. offset itddd + j) (vdddoffsets t2))
                          (\<lambda>v. Inr (t2\<lparr> vdddoffsets := v \<rparr>)))))))"

definition resolve_integrals :: "'r Env \<Rightarrow> Group \<Rightarrow> int \<Rightarrow> 'r Traj \<Rightarrow> failure + 'r Traj" where
  "resolve_integrals E g nNeed t =
     (case integral_group E (spec t) g of
        None \<Rightarrow>
          bindF (set_offsets g (\<lambda>j. - nNeed) (vintegraloffsets t))
            (\<lambda>v. Inr (t\<lparr> vintegraloffsets := v \<rparr>))
      | Some itintegral \<Rightarrow>
          bindF (set_offsets g (\<lambda>j. offset itintegral + j) (vintegraloffsets t)) (\<lambda>v.
            let t1 = t\<lparr> vintegraloffsets := v \<rparr> in
            (case integral_group E (spec t1) itintegral of
               None \<Rightarrow>
                 bindF (set_offsets g (\<lambda>j. - nNeed) (viioffsets t1))
                   (\<lambda>v. Inr (t1\<lparr> viioffsets := v \<rparr>))
             | Some itii \<Rightarrow>
                 bindF (set_offsets g (\<lambda>j. offset itii + j) (viioffsets t1))
                   (\<lambda>v. Inr (t1\<lparr> viioffsets := v \<rparr>)))))"

text \<open>
  \<open>_InitializeGroupFunctions()\<close>: the vectors are sized (a negative size given to
  \<open>resize\<close> is a \<open>std::length_error\<close>), then the loop body \<open>initialize_group\<close> runs for
  each group position \<open>i\<close>.
\<close>

definition initialize_group :: "'r Env \<Rightarrow> nat \<Rightarrow> 'r Traj \<Rightarrow> failure + 'r Traj" where
  "initialize_group E i t =
     (let g = vgroups (spec t) ! i in
      case group_functions g of (f, v, nNeedNeighboringInfo) \<Rightarrow>
        let t1 = t\<lparr> vgroupinterpolators := (vgroupinterpolators t)[i := f],
                     vgroupvalidators := (vgroupvalidators t)[i := v] \<rparr>
        in
        if nNeedNeighboringInfo \<noteq> 0
        then bindF (resolve_derivatives E g nNeedNeighboringInfo t1)
               (resolve_integrals E g nNeedNeighboringInfo)
        else Inr t1)"

definition sized_group_vectors :: "'r Env \<Rightarrow> 'r Traj \<Rightarrow> 'r Traj" where
  "sized_group_vectors E t =
     (let n = length (vgroups (spec t)); w = nat (DOF E t) in
      t\<lparr> vgroupinterpolators := replicate n None, vgroupvalidators := replicate n None,
         vderivoffsets := replicate w (- 1), vddoffsets := replicate w (- 1),
         vdddoffsets := replicate w (- 1), vintegraloffsets := replicate w (- 1),
         viioffsets := replicate w (- 1) \<rparr>)"

definition InitializeGroupFunctions :: "'r Env \<Rightarrow> 'r Traj \<Rightarrow> failure + 'r Traj" where
  "InitializeGroupFunctions E t =
     (if DOF E t < 0 then Inl std_length_error
      else forM [0..<length (vgroups (spec t))] (initialize_group E) (sized_group_vectors E t))"

text \<open>The last group named \<open>deltatime\<close> gives \<open>_timeoffset\<close>.\<close>

definition find_timeoffset :: "Group list \<Rightarrow> int" where
  "find_timeoffset gs =
     foldl (\<lambda>toff g. if name g = ''deltatime'' then offset g else toff) (- 1) gs"

text \<open>
  The reserve calls at the end of \<open>Init\<close>.  The request for the buffer is the \<open>int\<close>
  product \<open>nWayPointsToReserve*_spec.GetDOF()\<close> converted to \<open>size_t\<close>; the time vectors are
  reserved only under the option bit.
\<close>

definition reserve_waypoints :: "'r Env \<Rightarrow> int \<Rightarrow> int \<Rightarrow> 'r Traj \<Rightarrow> failure + unit" where
  "reserve_waypoints E nWayPointsToReserve options t =
     (if nWayPointsToReserve > 0 then
        bindF (reserve E (to_size_t (mul_int nWayPointsToReserve (DOF E t)))) (\<lambda>u.
          if options AND TIO_ReserveTimeBasedVectors E \<noteq> 0 then
            bindF (reserve E (to_size_t nWayPointsToReserve)) (\<lambda>u1.
              reserve E (to_size_t nWayPointsToReserve))
          else Inr ())
      else Inr ())"

text \<open>\<open>Init(spec, nWayPointsToReserve, options)\<close>.  The flag \<open>_bInit\<close> is set last, after
  the reserve calls.\<close>

definition Init ::
  "'r Env \<Rightarrow> ConfigurationSpecification \<Rightarrow> int \<Rightarrow> int \<Rightarrow> 'r Traj \<Rightarrow> failure + 'r Traj" where
  "Init E sp nWayPointsToReserve options t =
     bindF
       (if bInit t \<and> spec_equal E (spec t) sp then Inr t
        else
          let sorted_spec = sp\<lparr> vgroups := stable_sort SortGroups (vgroups sp) \<rparr> in
          InitializeGroupFunctions E
            (t\<lparr> bInit := False, vgroupinterpolators := [], vgroupvalidators := [],
                vderivoffsets := [], vddoffsets := [], vdddoffsets := [],
                vintegraloffsets := [], viioffsets := [],
                spec := sorted_spec,
                timeoffset := find_timeoffset (vgroups sorted_spec) \<rparr>))
       (\<lambda>t1.
          let t2 = t1\<lparr> vtrajdata := [], vaccumtime := [], vdeltainvtime := [],
                       bChanged := True, bSamplingVerified := False \<rparr>
          in
          bindF (reserve_waypoints E nWayPointsToReserve options t2) (\<lambda>u.
            Inr (t2\<lparr> bInit := True \<rparr>)))"

subsection \<open>The canonical group order, as the specification words it\<close>

text \<open>The precedence of the known categories: \<open>deltatime\<close>, then snaps, jerks,
  accelerations, velocities, values and transform, torques.\<close>

definition category_precedence :: "string \<Rightarrow> nat option" where
  "category_precedence c =
     (if c = ''deltatime'' then Some 0
      else if c = ''joint_snaps'' \<or> c = ''affine_snaps'' then Some 1
      else if c = ''joint_jerks'' \<or> c = ''affine_jerks'' then Some 2
      else if c = ''joint_accelerations'' \<or> c = ''affine_accelerations'' then Some 3
      else if c = ''joint_velocities'' \<or> c = ''affine_velocities'' then Some 4
      else if c = ''joint_values'' \<or> c = ''affine_transform'' then Some 5
      else if c = ''joint_torques'' then Some 6
      else None)"

text \<open>Known categories come first, by precedence; unknown ones follow, by their name.
  Keys are compared lexicographically.\<close>

definition canonical_key :: "Group \<Rightarrow> nat \<times> nat \<times> string" where
  "canonical_key g =
     (case category_precedence (name_prefix g) of
        Some p \<Rightarrow> (0, p, [])
      | None \<Rightarrow> (1, 0, name_prefix g))"

definition canonically_ordered :: "Group list \<Rightarrow> bool" where
  "canonically_ordered gs = sorted (map canonical_key gs)"

section \<open>Time index\<close>

text \<open>\<open>v.resize(n)\<close> for a vector of scalars: old values are kept, new ones are zero.\<close>

definition resize :: "nat \<Rightarrow> dReal list \<Rightarrow> dReal list" where
  "resize n v = take n v @ replicate (n - length v) 0"

text \<open>
  The body of the loop of \<open>_ComputeInternal()\<close> for waypoint \<open>i \<ge> 1\<close>.  The program's
  \<open>1/deltatime\<close> is infinite for \<open>deltatime = 0\<close>; the model then holds HOL's \<open>1 / 0 = 0\<close>,
  and no theorem below uses that entry.
\<close>

definition ComputeInternal_step :: "'r Env \<Rightarrow> nat \<Rightarrow> 'r Traj \<Rightarrow> failure + 'r Traj" where
  "ComputeInternal_step E i t =
     bindF (rd (vtrajdata t) (DOF E t * int i + timeoffset t)) (\<lambda>deltatime.
       if deltatime < 0
       then Inl (openrave_exception ''deltatime (%.15e) is < 0 at point %d/%d''
                   [ArgReal deltatime, ArgInt (int i), ArgInt (int (length (vaccumtime t)))]
                   ORE_InvalidState)
       else Inr (t\<lparr> vdeltainvtime := (vdeltainvtime t)[i := 1 / deltatime],
                     vaccumtime := (vaccumtime t)[i := vaccumtime t ! (i - 1) + deltatime] \<rparr>))"

text \<open>\<open>_ComputeInternal()\<close>.  With no waypoint it returns before the flags are reset.\<close>

definition ComputeInternal :: "'r Env \<Rightarrow> 'r Traj \<Rightarrow> failure + 'r Traj" where
  "ComputeInternal E t =
     (if \<not> bChanged t then Inr t
      else if timeoffset t < 0
        then Inr (t\<lparr> vaccumtime := [], vdeltainvtime := [],
                      bChanged := False, bSamplingVerified := False \<rparr>)
      else
        bindF (GetNumWaypoints E t) (\<lambda>n.
          let t1 = t\<lparr> vaccumtime := resize n (vaccumtime t),
                       vdeltainvtime := resize n (vdeltainvtime t) \<rparr>
          in
          if n = 0 then Inr t1
          else
            bindF (rd_at (vtrajdata t1) (timeoffset t1)) (\<lambda>d0.
              let t2 = t1\<lparr> vaccumtime := (vaccumtime t1)[0 := d0],
                            vdeltainvtime := (vdeltainvtime t1)[0 := 1 / d0] \<rparr>
              in
              bindF (forM [1..<n] (ComputeInternal_step E) t2) (\<lambda>t3.
                Inr (t3\<lparr> bChanged := False, bSamplingVerified := False \<rparr>)))))"

text \<open>\<open>GetDuration()\<close>: the duration and the trajectory with its time index rebuilt.\<close>

definition GetDuration :: "'r Env \<Rightarrow> 'r Traj \<Rightarrow> failure + (dReal \<times> 'r Traj)" where
  "GetDuration E t =
     (if \<not> bInit t then Inl (boost_assert ''_bInit'')
      else bindF (ComputeInternal E t) (\<lambda>t1.
             Inr (if length (vaccumtime t1) > 0 then last (vaccumtime t1) else 0, t1)))"

section \<open>Interpolators\<close>

text \<open>
  An interpolator gets the group \<open>g\<close> it is bound to, the segment \<open>ipoint\<close>, the time
  \<open>deltatime\<close> into the segment and the output row \<open>itdata\<close>, and returns the row with the
  slots of \<open>g\<close> written.  \<open>cell t k\<close> is the unchecked read \<open>_vtrajdata[k]\<close>, \<open>cell_at\<close> the
  checked \<open>_vtrajdata.at(k)\<close>.
\<close>

definition cell :: "'r Traj \<Rightarrow> int \<Rightarrow> failure + dReal" where
  "cell t k = rd (vtrajdata t) k"

definition cell_at :: "'r Traj \<Rightarrow> int \<Rightarrow> failure + dReal" where
  "cell_at t k = rd_at (vtrajdata t) k"

text \<open>\<open>for(int i = 0; i < g.dof; ++i) *(itdata + g.offset+i) = value i\<close>.\<close>

definition each_dof :: "Group \<Rightarrow> (int \<Rightarrow> failure + dReal) \<Rightarrow> dReal list \<Rightarrow> failure + dReal list" where
  "each_dof g val itdata =
     forM (upto_int (dof g)) (\<lambda>i d. bindF (val i) (\<lambda>v. wr d (offset g + i) v)) itdata"

text \<open>The test \<open>(ipoint+1)*_spec.GetDOF() < _vtrajdata.size()\<close>, in \<open>size_t\<close>.\<close>

definition has_next_row :: "'r Env \<Rightarrow> 'r Traj \<Rightarrow> nat \<Rightarrow> bool" where
  "has_next_row E t ipoint =
     (mul_size_t (ipoint + 1) (to_size_t (DOF E t)) < length (vtrajdata t))"

definition InterpolatePrevious_impl ::
  "'r Env \<Rightarrow> 'r Traj \<Rightarrow> Group \<Rightarrow> nat \<Rightarrow> dReal \<Rightarrow> dReal list \<Rightarrow> failure + dReal list" where
  "InterpolatePrevious_impl E t g ipoint deltatime itdata =
     bindF
       (if has_next_row E t ipoint then
          bindF (rd_at (vdeltainvtime t) (int ipoint + 1)) (\<lambda>inv.
            let f = inv * deltatime in
            Inr (if f > 1 - g_fEpsilon E then int ipoint * DOF E t + offset g + DOF E t
                 else int ipoint * DOF E t + offset g))
        else Inr (int ipoint * DOF E t + offset g))
       (\<lambda>off. copy_range (vtrajdata t) off (dof g) itdata (offset g))"

definition InterpolateNext_impl ::
  "'r Env \<Rightarrow> 'r Traj \<Rightarrow> Group \<Rightarrow> nat \<Rightarrow> dReal \<Rightarrow> dReal list \<Rightarrow> failure + dReal list" where
  "InterpolateNext_impl E t g ipoint deltatime itdata =
     (let ipoint1 = (if has_next_row E t ipoint then ipoint + 1 else ipoint);
          off = int ipoint1 * DOF E t + offset g;
          off1 = (if deltatime \<le> g_fEpsilon E \<and> ipoint1 > 0 then off - DOF E t else off)
      in copy_range (vtrajdata t) off1 (dof g) itdata (offset g))"

definition InterpolateLinear_impl ::
  "'r Env \<Rightarrow> 'r Traj \<Rightarrow> Group \<Rightarrow> nat \<Rightarrow> dReal \<Rightarrow> dReal list \<Rightarrow> failure + dReal list" where
  "InterpolateLinear_impl E t g ipoint deltatime itdata =
     (let off = int ipoint * DOF E t; w = DOF E t in
      bindF (rd (vderivoffsets t) (offset g)) (\<lambda>derivoffset.
        if derivoffset < 0 then
          bindF (rd_at (vdeltainvtime t) (int ipoint + 1)) (\<lambda>inv.
            let f = inv * deltatime in
            each_dof g (\<lambda>i.
              bindF (cell t (off + offset g + i)) (\<lambda>x0.
              bindF (cell t (w + off + offset g + i)) (\<lambda>x1.
                Inr (x0 * (1 - f) + f * x1)))) itdata)
        else
          each_dof g (\<lambda>i.
            bindF (cell t (w + off + derivoffset + i)) (\<lambda>deriv0.
            bindF (cell t (off + offset g + i)) (\<lambda>x0.
              Inr (x0 + deltatime * deriv0)))) itdata))"

text \<open>The branch taken for \<open>deltatime \<le> g_fEpsilon\<close> by the polynomial kernels: the values
  of waypoint \<open>ipoint\<close>.\<close>

definition copy_start :: "'r Env \<Rightarrow> 'r Traj \<Rightarrow> Group \<Rightarrow> nat \<Rightarrow> dReal list \<Rightarrow> failure + dReal list" where
  "copy_start E t g ipoint itdata =
     each_dof g (\<lambda>i. cell t (int ipoint * DOF E t + offset g + i)) itdata"

definition InterpolateQuadratic_impl ::
  "'r Env \<Rightarrow> 'r Traj \<Rightarrow> Group \<Rightarrow> nat \<Rightarrow> dReal \<Rightarrow> dReal list \<Rightarrow> failure + dReal list" where
  "InterpolateQuadratic_impl E t g ipoint deltatime itdata =
     (let off = int ipoint * DOF E t; w = DOF E t in
      if deltatime > g_fEpsilon E then
        bindF (rd (vderivoffsets t) (offset g)) (\<lambda>derivoffset.
          if derivoffset \<ge> 0 then
            each_dof g (\<lambda>i.
              bindF (cell t (off + derivoffset + i)) (\<lambda>deriv0.
              bindF (cell t (w + off + derivoffset + i)) (\<lambda>deriv1.
              bindF (rd_at (vdeltainvtime t) (int ipoint + 1)) (\<lambda>inv.
              bindF (cell t (off + offset g + i)) (\<lambda>x0.
                let coeff = 0.5 * inv * (deriv1 - deriv0) in
                Inr (x0 + deltatime * (deriv0 + deltatime * coeff))))))) itdata
          else
            bindF (rd_at (vdeltainvtime t) (int ipoint + 1)) (\<lambda>ideltatime.
            bindF (rd (vintegraloffsets t) (offset g)) (\<lambda>integraloffset.
              let ideltatime2 = ideltatime * ideltatime in
              each_dof g (\<lambda>i.
                bindF (cell t (off + integraloffset + i)) (\<lambda>integral0.
                bindF (cell t (w + off + integraloffset + i)) (\<lambda>integral1.
                bindF (cell t (off + offset g + i)) (\<lambda>value0.
                bindF (cell t (w + off + offset g + i)) (\<lambda>value1.
                  let c1TimesDelta = 6 * (integral1 - integral0) * ideltatime
                                       - 4 * value0 - 2 * value1;
                      c1 = c1TimesDelta * ideltatime;
                      c2 = (value1 - value0 - c1TimesDelta) * ideltatime2
                  in Inr (value0 + deltatime * (c1 + deltatime * c2))))))) itdata)))
      else copy_start E t g ipoint itdata)"

text \<open>The exception the cubic and higher kernels throw when a needed related group is
  missing (the text is the same in all of them).\<close>

definition not_all_data :: failure where
  "not_all_data = openrave_exception ''cubic interpolation does not have all data'' []
                    ORE_InvalidArguments"

definition InterpolateCubic_impl ::
  "'r Env \<Rightarrow> 'r Traj \<Rightarrow> Group \<Rightarrow> nat \<Rightarrow> dReal \<Rightarrow> dReal list \<Rightarrow> failure + dReal list" where
  "InterpolateCubic_impl E t g ipoint deltatime itdata =
     (let off = int ipoint * DOF E t; w = DOF E t in
      if deltatime > g_fEpsilon E then
        bindF (rd (vderivoffsets t) (offset g)) (\<lambda>derivoffset.
        bindF (rd (vintegraloffsets t) (offset g)) (\<lambda>integoffset.
        bindF (rd (viioffsets t) (offset g)) (\<lambda>iioffset.
          if derivoffset \<ge> 0 then
            bindF (rd_at (vdeltainvtime t) (int ipoint + 1)) (\<lambda>ideltatime.
              let ideltatime2 = ideltatime * ideltatime; ideltatime3 = ideltatime2 * ideltatime in
              each_dof g (\<lambda>i.
                bindF (cell t (off + derivoffset + i)) (\<lambda>deriv0.
                bindF (cell t (w + off + derivoffset + i)) (\<lambda>deriv1.
                bindF (cell_at t (w + off + offset g + i)) (\<lambda>x1.
                bindF (cell t (off + offset g + i)) (\<lambda>x0.
                  let px = x1 - x0;
                      c3 = (deriv1 + deriv0) * ideltatime2 - 2 * px * ideltatime3;
                      c2 = 3 * px * ideltatime2 - (2 * deriv0 + deriv1) * ideltatime
                  in Inr (x0 + deltatime * (deriv0 + deltatime * (c2 + deltatime * c3)))))))) itdata)
          else if integoffset \<ge> 0 \<and> iioffset \<ge> 0 then
            bindF (rd_at (vdeltainvtime t) (int ipoint + 1)) (\<lambda>ideltatime.
              let ideltatime2 = ideltatime * ideltatime; ideltatime3 = ideltatime2 * ideltatime;
                  ideltatime4 = ideltatime3 * ideltatime; ideltatime5 = ideltatime4 * ideltatime
              in
              each_dof g (\<lambda>i.
                bindF (cell t (off + integoffset + i)) (\<lambda>integ0.
                bindF (cell t (w + off + integoffset + i)) (\<lambda>integ1.
                bindF (cell t (w + off + iioffset + i)) (\<lambda>ii1.
                bindF (cell t (off + iioffset + i)) (\<lambda>ii0.
                bindF (cell_at t (w + off + offset g + i)) (\<lambda>x1.
                bindF (cell t (off + offset g + i)) (\<lambda>x0.
                  let idiff = integ1 - integ0;
                      temp = ii1 - ii0 - integ0 * deltatime;
                      c3 = 10 * (x1 - x0) * ideltatime3 - 60 * idiff * ideltatime4
                             + 120 * temp * ideltatime5;
                      c2 = (18 * x0 - 12 * x1) * ideltatime2 + 84 * idiff * ideltatime3
                             - 180 * temp * ideltatime4;
                      c1 = (- 9 * x0 + 3 * x1) * ideltatime - 24 * idiff * ideltatime2
                             + 60 * temp * ideltatime3
                  in Inr (x0 + deltatime * (c1 + deltatime * (c2 + deltatime * c3)))))))))) itdata)
          else Inl not_all_data)))
      else copy_start E t g ipoint itdata)"

definition InterpolateQuartic_impl ::
  "'r Env \<Rightarrow> 'r Traj \<Rightarrow> Group \<Rightarrow> nat \<Rightarrow> dReal \<Rightarrow> dReal list \<Rightarrow> failure + dReal list" where
  "InterpolateQuartic_impl E t g ipoint deltatime itdata =
     (let off = int ipoint * DOF E t; w = DOF E t in
      if deltatime > g_fEpsilon E then
        bindF (rd (vderivoffsets t) (offset g)) (\<lambda>derivoffset.
        bindF (rd (vddoffsets t) (offset g)) (\<lambda>ddoffset.
        bindF (rd (vintegraloffsets t) (offset g)) (\<lambda>integoffset.
          if derivoffset \<ge> 0 \<and> ddoffset \<ge> 0 then
            bindF (rd_at (vdeltainvtime t) (int ipoint + 1)) (\<lambda>ideltatime.
              let ideltatime2 = ideltatime * ideltatime; ideltatime3 = ideltatime2 * ideltatime in
              each_dof g (\<lambda>i.
                bindF (cell t (off + derivoffset + i)) (\<lambda>deriv0.
                bindF (cell t (w + off + derivoffset + i)) (\<lambda>deriv1.
                bindF (cell t (off + ddoffset + i)) (\<lambda>dd0.
                bindF (cell t (w + off + ddoffset + i)) (\<lambda>dd1.
                bindF (cell t (off + offset g + i)) (\<lambda>x0.
                  let c4 = - 0.5 * (deriv1 - deriv0) * ideltatime3
                             + (dd0 + dd1) * ideltatime2 * 0.25;
                      c3 = (deriv1 - deriv0) * ideltatime2 - (2 * dd0 + dd1) * ideltatime / 3
                  in Inr (x0 + deltatime * (deriv0 + deltatime * (0.5 * dd0
                            + deltatime * (c3 + deltatime * c4)))))))))) itdata)
          else if derivoffset \<ge> 0 \<and> integoffset \<ge> 0 then
            bindF (rd_at (vdeltainvtime t) (int ipoint + 1)) (\<lambda>ideltatime.
              let ideltatime2 = ideltatime * ideltatime; ideltatime3 = ideltatime2 * ideltatime;
                  ideltatime4 = ideltatime3 * ideltatime; ideltatime5 = ideltatime4 * ideltatime
              in
              each_dof g (\<lambda>i.
                bindF (cell t (off + derivoffset + i)) (\<lambda>deriv0.
                bindF (cell t (w + off + derivoffset + i)) (\<lambda>deriv1.
                bindF (cell t (off + offset g + i)) (\<lambda>pos0.
                bindF (cell t (w + off + offset g + i)) (\<lambda>pos1.
                bindF (cell t (w + off + integoffset + i)) (\<lambda>integ1.
                bindF (cell t (off + integoffset + i)) (\<lambda>integ0.
                  let idiff = integ1 - integ0;
                      c4 = 2.5 * (deriv1 - deriv0) * ideltatime3 - 15 * (pos0 + pos1) * ideltatime4
                             + 30 * idiff * ideltatime5;
                      c3 = (6 * deriv0 - 4 * deriv1) * ideltatime2
                             + (32 * pos0 + 28 * pos1) * ideltatime3 - 60 * idiff * ideltatime4;
                      c2 = (- 4.5 * deriv0 + 1.5 * deriv1) * ideltatime
                             - (18 * pos0 + 12 * pos1) * ideltatime2 + 30 * idiff * ideltatime3
                  in Inr (pos0 + deltatime * (deriv0 + deltatime * (c2
                            + deltatime * (c3 + deltatime * c4))))))))))) itdata)
          else Inl not_all_data)))
      else copy_start E t g ipoint itdata)"

definition InterpolateQuintic_impl ::
  "'r Env \<Rightarrow> 'r Traj \<Rightarrow> Group \<Rightarrow> nat \<Rightarrow> dReal \<Rightarrow> dReal list \<Rightarrow> failure + dReal list" where
  "InterpolateQuintic_impl E t g ipoint deltatime itdata =
     (let off = int ipoint * DOF E t; w = DOF E t in
      if deltatime > g_fEpsilon E then
        bindF (rd (vderivoffsets t) (offset g)) (\<lambda>derivoffset.
        bindF (rd (vddoffsets t) (offset g)) (\<lambda>ddoffset.
          if derivoffset \<ge> 0 \<and> ddoffset \<ge> 0 then
            bindF (rd_at (vdeltainvtime t) (int ipoint + 1)) (\<lambda>ideltatime.
              let ideltatime2 = ideltatime * ideltatime; ideltatime3 = ideltatime2 * ideltatime;
                  ideltatime4 = ideltatime2 * ideltatime2; ideltatime5 = ideltatime4 * ideltatime
              in
              each_dof g (\<lambda>i.
                bindF (cell t (off + offset g + i)) (\<lambda>p0.
                bindF (cell t (w + off + offset g + i)) (\<lambda>p1.
                bindF (cell t (off + derivoffset + i)) (\<lambda>deriv0.
                bindF (cell t (w + off + derivoffset + i)) (\<lambda>deriv1.
                bindF (cell t (off + ddoffset + i)) (\<lambda>dd0.
                bindF (cell t (w + off + ddoffset + i)) (\<lambda>dd1.
                  let px = p1 - p0;
                      c5 = (- 0.5 * dd0 + dd1 * 0.5) * ideltatime3
                             - (3 * deriv0 + 3 * deriv1) * ideltatime4 + px * 6 * ideltatime5;
                      c4 = (1.5 * dd0 - dd1) * ideltatime2 + (8 * deriv0 + 7 * deriv1) * ideltatime3
                             - px * 15 * ideltatime4;
                      c3 = (- 1.5 * dd0 + dd1 * 0.5) * ideltatime
                             + (- 6 * deriv0 - 4 * deriv1) * ideltatime2 + px * 10 * ideltatime3
                  in Inr (p0 + deltatime * (deriv0 + deltatime * (0.5 * dd0
                            + deltatime * (c3 + deltatime * (c4 + deltatime * c5))))))))))))
                itdata)
          else Inl not_all_data))
      else copy_start E t g ipoint itdata)"

definition InterpolateSextic_impl ::
  "'r Env \<Rightarrow> 'r Traj \<Rightarrow> Group \<Rightarrow> nat \<Rightarrow> dReal \<Rightarrow> dReal list \<Rightarrow> failure + dReal list" where
  "InterpolateSextic_impl E t g ipoint deltatime itdata =
     (let off = int ipoint * DOF E t; w = DOF E t in
      if deltatime > g_fEpsilon E then
        bindF (rd (vderivoffsets t) (offset g)) (\<lambda>derivoffset.
        bindF (rd (vddoffsets t) (offset g)) (\<lambda>ddoffset.
        bindF (rd (vdddoffsets t) (offset g)) (\<lambda>dddoffset.
          if derivoffset \<ge> 0 \<and> ddoffset \<ge> 0 \<and> dddoffset \<ge> 0 then
            bindF (rd_at (vdeltainvtime t) (int ipoint + 1)) (\<lambda>ideltatime.
              let ideltatime2 = ideltatime * ideltatime; ideltatime3 = ideltatime2 * ideltatime;
                  ideltatime4 = ideltatime2 * ideltatime2; ideltatime5 = ideltatime4 * ideltatime
              in
              each_dof g (\<lambda>i.
                bindF (cell t (off + offset g + i)) (\<lambda>p0.
                bindF (cell t (off + derivoffset + i)) (\<lambda>deriv0.
                bindF (cell t (w + off + derivoffset + i)) (\<lambda>deriv1.
                bindF (cell t (off + ddoffset + i)) (\<lambda>dd0.
                bindF (cell t (w + off + ddoffset + i)) (\<lambda>dd1.
                bindF (cell t (off + dddoffset + i)) (\<lambda>ddd0.
                bindF (cell t (w + off + dddoffset + i)) (\<lambda>ddd1.
                  let c6 = (- dd0 - dd1) * 0.5 * ideltatime4 + (- ddd0 + ddd1) / 12 * ideltatime3
                             + (- deriv0 + deriv1) * ideltatime5;
                      c5 = (1.6 * dd0 + 1.4 * dd1) * ideltatime3
                             + (0.3 * ddd0 - ddd1 * 0.2) * ideltatime2
                             + (3 * deriv0 - 3 * deriv1) * ideltatime4;
                      c4 = (- 1.5 * dd0 - dd1) * ideltatime2
                             + (- 0.375 * ddd0 + ddd1 * 0.125) * ideltatime
                             + (- 2.5 * deriv0 + 2.5 * deriv1) * ideltatime3
                  in Inr (p0 + deltatime * (deriv0 + deltatime * (0.5 * dd0
                            + deltatime * (ddd0 / 6 + deltatime * (c4
                            + deltatime * (c5 + deltatime * c6)))))))))))))) itdata)
          else Inl not_all_data)))
      else copy_start E t g ipoint itdata)"

definition InterpolateMax_impl ::
  "'r Env \<Rightarrow> 'r Traj \<Rightarrow> Group \<Rightarrow> nat \<Rightarrow> dReal \<Rightarrow> dReal list \<Rightarrow> failure + dReal list" where
  "InterpolateMax_impl E t g ipoint deltatime itdata =
     (let off = int ipoint * DOF E t + offset g in
      each_dof g (\<lambda>i.
        bindF (cell t (off + i)) (\<lambda>a.
        bindF (cell t (DOF E t + off + i)) (\<lambda>b. Inr (max a b)))) itdata)"

subsection \<open>Rotation-aware interpolators\<close>

text \<open>\<open>q.Set4(&_vtrajdata[k])\<close> and \<open>v.Set3(&_vtrajdata[k])\<close>, which leaves \<open>w\<close> zero, as does
  the constructor from three components.\<close>

definition read4 :: "'r Traj \<Rightarrow> int \<Rightarrow> failure + Vector" where
  "read4 t k =
     bindF (cell t k) (\<lambda>a. bindF (cell t (k + 1)) (\<lambda>b.
     bindF (cell t (k + 2)) (\<lambda>c. bindF (cell t (k + 3)) (\<lambda>d. Inr (a, b, c, d)))))"

definition read3 :: "'r Traj \<Rightarrow> int \<Rightarrow> failure + Vector" where
  "read3 t k =
     bindF (cell t k) (\<lambda>a. bindF (cell t (k + 1)) (\<lambda>b.
     bindF (cell t (k + 2)) (\<lambda>c. Inr (a, b, c, 0))))"

definition put4 :: "dReal list \<Rightarrow> int \<Rightarrow> Vector \<Rightarrow> failure + dReal list" where
  "put4 itdata k q =
     (case q of (a, b, c, d) \<Rightarrow>
        bindF (wr itdata k a) (\<lambda>d1. bindF (wr d1 (k + 1) b) (\<lambda>d2.
        bindF (wr d2 (k + 2) c) (\<lambda>d3. wr d3 (k + 3) d))))"

definition put3 :: "dReal list \<Rightarrow> int \<Rightarrow> Vector \<Rightarrow> failure + dReal list" where
  "put3 itdata k q =
     (case q of (a, b, c, d) \<Rightarrow>
        bindF (wr itdata k a) (\<lambda>d1. bindF (wr d1 (k + 1) b) (\<lambda>d2. wr d2 (k + 2) c)))"

definition InterpolateLinearIk_impl ::
  "'r Env \<Rightarrow> 'r Traj \<Rightarrow> Group \<Rightarrow> nat \<Rightarrow> dReal \<Rightarrow> dReal list \<Rightarrow> int \<Rightarrow> failure + dReal list" where
  "InterpolateLinearIk_impl E t g ipoint deltatime itdata iktype =
     bindF (InterpolateLinear_impl E t g ipoint deltatime itdata) (\<lambda>d1.
       if deltatime > g_fEpsilon E then
         (let off = int ipoint * DOF E t; w = DOF E t; G = geometry E in
          bindF (rd_at (vdeltainvtime t) (int ipoint + 1)) (\<lambda>inv.
            let f = inv * deltatime in
            if iktype = IKP_Rotation3D G \<or> iktype = IKP_Transform6D G then
              bindF (read4 t (off + offset g)) (\<lambda>q0.
              bindF (read4 t (w + off + offset g)) (\<lambda>q1.
                put4 d1 (offset g) (quatSlerp G q0 q1 f)))
            else if iktype = IKP_TranslationDirection5D G then
              bindF (read3 t (off + offset g)) (\<lambda>dir0.
              bindF (read3 t (w + off + offset g)) (\<lambda>dir1.
                let axisangle = vec_cross G dir0 dir1;
                    fsinangle = RaveSqrt G (vec_lengthsqr3 G axisangle)
                in
                if fsinangle > g_fEpsilon E then
                  let axisangle1 = vec_scale G axisangle
                                     (f * RaveAsin G (min 1 fsinangle) / fsinangle);
                      newdir = quatRotate G (quatFromAxisAngle G axisangle1) dir0
                  in put3 d1 (offset g) newdir
                else Inr d1))
            else Inr d1))
       else Inr d1)"

definition InterpolateQuadraticIk_impl ::
  "'r Env \<Rightarrow> 'r Traj \<Rightarrow> Group \<Rightarrow> nat \<Rightarrow> dReal \<Rightarrow> dReal list \<Rightarrow> int \<Rightarrow> failure + dReal list" where
  "InterpolateQuadraticIk_impl E t g ipoint deltatime itdata iktype =
     bindF (InterpolateQuadratic_impl E t g ipoint deltatime itdata) (\<lambda>d1.
       if deltatime > g_fEpsilon E then
         (let off = int ipoint * DOF E t; w = DOF E t; G = geometry E in
          bindF (rd (vderivoffsets t) (offset g)) (\<lambda>derivoffset.
            if iktype = IKP_Rotation3D G \<or> iktype = IKP_Transform6D G then
              bindF (read4 t (off + offset g)) (\<lambda>q0.
              bindF (read4 t (off + derivoffset)) (\<lambda>q0vel.
              bindF (read4 t (w + off + offset g)) (\<lambda>q1.
              bindF (read4 t (w + off + derivoffset)) (\<lambda>q1vel.
              bindF (rd_at (vdeltainvtime t) (int ipoint + 1)) (\<lambda>inv.
                let angularvelocity0 = vec_scale G (quatMultiply G q0vel (quatInverse G q0)) 2;
                    angularvelocity1 = vec_scale G (quatMultiply G q1vel (quatInverse G q1)) 2;
                    coeff = vec_scale G (vec_sub G angularvelocity1 angularvelocity0) (0.5 * inv);
                    vtotaldelta = vec_add G (vec_scale G angularvelocity0 deltatime)
                                    (vec_scale G coeff (deltatime * deltatime))
                in
                case vtotaldelta of (vx, vy, vz, vw) \<Rightarrow>
                  put4 d1 (offset g)
                    (quatMultiply G (quatFromAxisAngle G (vy, vz, vw, 0)) q0))))))
            else if iktype = IKP_TranslationDirection5D G then
              bindF (read3 t (off + offset g)) (\<lambda>dir0.
              bindF (read3 t (w + off + offset g)) (\<lambda>dir1.
                let axisangle = vec_cross G dir0 dir1 in
                if vec_lengthsqr3 G axisangle > g_fEpsilon E then
                  bindF (read3 t (off + derivoffset)) (\<lambda>angularvelocity0.
                  bindF (read3 t (w + off + derivoffset)) (\<lambda>angularvelocity1.
                  bindF (rd_at (vdeltainvtime t) (int ipoint + 1)) (\<lambda>inv.
                    let coeff = vec_scale G (vec_sub G angularvelocity1 angularvelocity0)
                                  (0.5 * inv);
                        vtotaldelta = vec_add G (vec_scale G angularvelocity0 deltatime)
                                        (vec_scale G coeff (deltatime * deltatime));
                        newdir = quatRotate G (quatFromAxisAngle G vtotaldelta) dir0
                    in put3 d1 (offset g) newdir)))
                else Inr d1))
            else Inr d1))
       else Inr d1)"

definition InterpolateCubicIk_impl ::
  "'r Env \<Rightarrow> 'r Traj \<Rightarrow> Group \<Rightarrow> nat \<Rightarrow> dReal \<Rightarrow> dReal list \<Rightarrow> int \<Rightarrow> failure + dReal list" where
  "InterpolateCubicIk_impl E t g ipoint deltatime itdata iktype =
     bindF (InterpolateCubic_impl E t g ipoint deltatime itdata) (\<lambda>d1.
       if deltatime > g_fEpsilon E then
         bindF (rd (vderivoffsets t) (offset g)) (\<lambda>derivoffset.
         bindF (rd (vddoffsets t) (offset g)) (\<lambda>ddoffset.
         bindF (rd (vintegraloffsets t) (offset g)) (\<lambda>integoffset.
         bindF (rd (viioffsets t) (offset g)) (\<lambda>iioffset.
           if derivoffset \<ge> 0 \<and> ddoffset \<ge> 0 then
             (let off = int ipoint * DOF E t; nextoffset = off + DOF E t; G = geometry E in
              if iktype = IKP_Rotation3D G \<or> iktype = IKP_Transform6D G then
                bindF (read4 t (off + offset g)) (\<lambda>q0.
                bindF (read4 t (off + derivoffset)) (\<lambda>q0vel.
                bindF (read4 t (off + ddoffset)) (\<lambda>q0acc.
                bindF (read4 t (nextoffset + offset g)) (\<lambda>q1.
                bindF (read4 t (nextoffset + derivoffset)) (\<lambda>q1vel.
                bindF (read4 t (nextoffset + ddoffset)) (\<lambda>q1acc.
                bindF (rd_at (vdeltainvtime t) (int ipoint + 1)) (\<lambda>inv.
                  let angularVelocityPrev =
                        vec_scale G (quatMultiply G q0vel (quatInverse G q0)) 2;
                      angularAccelerationPrev =
                        vec_scale G (quatMultiply G q0acc (quatInverse G q0)) 2;
                      angularAcceleration =
                        vec_scale G (quatMultiply G q1acc (quatInverse G q1)) 2;
                      j = vec_scale G (vec_sub G angularAcceleration angularAccelerationPrev) inv;
                      totalDelta =
                        vec_scale G
                          (vec_add G angularVelocityPrev
                             (vec_scale G
                                (vec_add G (vec_scale G angularAccelerationPrev 0.5)
                                   (vec_scale G j (deltatime / 6)))
                                deltatime))
                          deltatime
                  in
                  case totalDelta of (vx, vy, vz, vw) \<Rightarrow>
                    put4 d1 (offset g)
                      (quatMultiply G (quatFromAxisAngle G (vy, vz, vw, 0)) q0))))))))
              else Inr d1)
           else
             Inl (openrave_exception
                    ''derivoffset=%d; ddoffset=%d; integoffset=%d; iioffset=%d not implemented yet.''
                    [ArgInt derivoffset, ArgInt ddoffset, ArgInt integoffset, ArgInt iioffset]
                    ORE_NotImplemented)))))
       else Inr d1)"

subsection \<open>Dispatch\<close>

text \<open>Calling the interpolator bound at position \<open>i\<close>: the bound group is \<open>_spec._vgroups[i]\<close>.\<close>

definition call_interpolator ::
  "'r Env \<Rightarrow> 'r Traj \<Rightarrow> Interpolator \<Rightarrow> Group \<Rightarrow> nat \<Rightarrow> dReal \<Rightarrow> dReal list \<Rightarrow> failure + dReal list" where
  "call_interpolator E t k g ipoint deltatime itdata =
     (case k of
        InterpolatePrevious \<Rightarrow> InterpolatePrevious_impl E t g ipoint deltatime itdata
      | InterpolateNext \<Rightarrow> InterpolateNext_impl E t g ipoint deltatime itdata
      | InterpolateLinear \<Rightarrow> InterpolateLinear_impl E t g ipoint deltatime itdata
      | InterpolateLinearIk iktype \<Rightarrow> InterpolateLinearIk_impl E t g ipoint deltatime itdata iktype
      | InterpolateQuadratic \<Rightarrow> InterpolateQuadratic_impl E t g ipoint deltatime itdata
      | InterpolateQuadraticIk iktype \<Rightarrow>
          InterpolateQuadraticIk_impl E t g ipoint deltatime itdata iktype
      | InterpolateCubic \<Rightarrow> InterpolateCubic_impl E t g ipoint deltatime itdata
      | InterpolateCubicIk iktype \<Rightarrow> InterpolateCubicIk_impl E t g ipoint deltatime itdata iktype
      | InterpolateQuartic \<Rightarrow> InterpolateQuartic_impl E t g ipoint deltatime itdata
      | InterpolateQuintic \<Rightarrow> InterpolateQuintic_impl E t g ipoint deltatime itdata
      | InterpolateSextic \<Rightarrow> InterpolateSextic_impl E t g ipoint deltatime itdata
      | InterpolateMax \<Rightarrow> InterpolateMax_impl E t g ipoint deltatime itdata)"

section \<open>Sampling\<close>

subsection \<open>Validators\<close>

definition g_fEpsilonLinear :: "'r Env \<Rightarrow> dReal" where
  "g_fEpsilonLinear E = RavePow (geometry E) (g_fEpsilon E) 0.9"

text \<open>\<open>for(int i = 0; i < g.dof; ++i) check i\<close>.\<close>

definition each_dof_check :: "Group \<Rightarrow> (int \<Rightarrow> failure + unit) \<Rightarrow> failure + unit" where
  "each_dof_check g chk = forM (upto_int (dof g)) (\<lambda>i u. chk i) ()"

definition ValidateLinear_impl :: "'r Env \<Rightarrow> 'r Traj \<Rightarrow> Group \<Rightarrow> nat \<Rightarrow> dReal \<Rightarrow> failure + unit" where
  "ValidateLinear_impl E t g ipoint deltatime =
     (let off = int ipoint * DOF E t; w = DOF E t; G = geometry E in
      bindF (rd (vderivoffsets t) (offset g)) (\<lambda>derivoffset.
        if derivoffset \<ge> 0 then
          each_dof_check g (\<lambda>i.
            bindF (cell t (w + off + derivoffset + i)) (\<lambda>deriv0.
            bindF (cell t (off + offset g + i)) (\<lambda>x0.
            bindF (cell t (w + off + offset g + i)) (\<lambda>x1.
              let expected = x0 + deltatime * deriv0;
                  err = RaveFabs G (x1 - expected)
              in
              if RaveFabs G (err - 2 * PI G) > g_fEpsilonLinear E \<and> \<not> (err \<le> g_fEpsilonLinear E)
              then Inl (openrave_exception
                     ''trajectory segment for group %s interpolation %s points %d-%d dof %d is invalid''
                     [ArgStr (name g), ArgStr (interpolation g), ArgInt (int ipoint),
                      ArgInt (int ipoint + 1), ArgInt i] ORE_InvalidState)
              else Inr ()))))
        else Inr ()))"

definition ValidateQuadratic_impl :: "'r Env \<Rightarrow> 'r Traj \<Rightarrow> Group \<Rightarrow> nat \<Rightarrow> dReal \<Rightarrow> failure + unit" where
  "ValidateQuadratic_impl E t g ipoint deltatime =
     (let off = int ipoint * DOF E t; w = DOF E t; G = geometry E in
      if deltatime > g_fEpsilon E then
        bindF (rd (vderivoffsets t) (offset g)) (\<lambda>derivoffset.
          if derivoffset \<ge> 0 then
            each_dof_check g (\<lambda>i.
              bindF (cell t (off + derivoffset + i)) (\<lambda>deriv0.
              bindF (rd_at (vdeltainvtime t) (int ipoint + 1)) (\<lambda>inv.
              bindF (cell t (w + off + derivoffset + i)) (\<lambda>deriv1.
              bindF (cell t (off + offset g + i)) (\<lambda>x0.
              bindF (cell_at t (w + off + offset g + i)) (\<lambda>x1.
                let coeff = 0.5 * inv * (deriv1 - deriv0);
                    expected = x0 + deltatime * (deriv0 + deltatime * coeff);
                    err = RaveFabs G (x1 - expected)
                in
                if RaveFabs G (err - 2 * PI G) > 1 / 10 ^ 5 \<and> \<not> (err \<le> 1 / 10 ^ 4)
                then Inl (openrave_exception
                       ''trajectory segment for group %s interpolation %s time %f points %d-%d dof %d is invalid''
                       [ArgStr (name g), ArgStr (interpolation g), ArgReal deltatime,
                        ArgInt (int ipoint), ArgInt (int ipoint + 1), ArgInt i] ORE_InvalidState)
                else Inr ()))))))
          else
            bindF (rd (vintegraloffsets t) (offset g)) (\<lambda>integraloffset.
              if integraloffset \<ge> 0 then Inr ()
              else Inl (boost_assert ''integraloffset>=0'')))
      else Inr ())"

definition call_validator ::
  "'r Env \<Rightarrow> 'r Traj \<Rightarrow> Validator \<Rightarrow> Group \<Rightarrow> nat \<Rightarrow> dReal \<Rightarrow> failure + unit" where
  "call_validator E t k g ipoint deltatime =
     (case k of
        ValidateLinear \<Rightarrow> ValidateLinear_impl E t g ipoint deltatime
      | ValidateQuadratic \<Rightarrow> ValidateQuadratic_impl E t g ipoint deltatime
      | ValidateCubic \<Rightarrow> Inr ()
      | ValidateQuartic \<Rightarrow> Inr ()
      | ValidateQuintic \<Rightarrow> Inr ()
      | ValidateSextic \<Rightarrow> Inr ())"

subsection \<open>Verification\<close>

text \<open>The check of one group in \<open>_VerifySampling()\<close>: no channel may lack both its
  derivative and its integral.\<close>

definition verify_group :: "'r Traj \<Rightarrow> Group \<Rightarrow> failure + unit" where
  "verify_group t g =
     each_dof_check g (\<lambda>j.
       bindF (rd_at (vderivoffsets t) (offset g + j)) (\<lambda>dv.
         if dv < - 2 then
           bindF (rd_at (vintegraloffsets t) (offset g + j)) (\<lambda>iv.
             if iv < - 2
             then Inl (openrave_exception
                    ''%s interpolation group '%s' needs derivatives/integrals for sampling''
                    [ArgStr (interpolation g), ArgStr (name g)] ORE_InvalidArguments)
             else Inr ())
         else Inr ()))"

text \<open>The validators run over all segments.\<close>

definition validate_segments :: "'r Env \<Rightarrow> 'r Traj \<Rightarrow> failure + unit" where
  "validate_segments E t =
     forM [0..<length (vaccumtime t) - 1]
       (\<lambda>ipoint u.
          let deltatime = vaccumtime t ! (ipoint + 1) - vaccumtime t ! ipoint in
          forM [0..<length (vgroupvalidators t)]
            (\<lambda>i u1.
               case vgroupvalidators t ! i of
                 None \<Rightarrow> Inr ()
               | Some k \<Rightarrow>
                   bindF (rd (vgroups (spec t)) (int i)) (\<lambda>g.
                     call_validator E t k g ipoint deltatime))
            ())
       ()"

text \<open>\<open>_VerifySampling()\<close>.  Its first loop only logs, but reads \<open>_spec._vgroups.at(i)\<close> for
  every interpolator position.\<close>

definition VerifySampling :: "'r Env \<Rightarrow> 'r Traj \<Rightarrow> failure + 'r Traj" where
  "VerifySampling E t =
     (if bChanged t then Inl (boost_assert ''!_bChanged'')
      else if \<not> bInit t then Inl (boost_assert ''_bInit'')
      else if bSamplingVerified t then Inr t
      else if length (vgroupinterpolators t) > length (vgroups (spec t)) then Inl std_out_of_range
      else
        bindF (forM (vgroups (spec t)) (\<lambda>g u. verify_group t g) ()) (\<lambda>u.
        bindF (if level_debug_or_verifyplans E then validate_segments E t else Inr ()) (\<lambda>u1.
          Inr (t\<lparr> bSamplingVerified := True \<rparr>))))"

subsection \<open>Sampling at a time\<close>

text \<open>\<open>std::lower_bound\<close> on the whole of \<open>xs\<close>, as the bisection the library performs:
  \<open>first\<close> is the start and \<open>len\<close> the length of the range still searched.\<close>

function lower_bound_from :: "dReal list \<Rightarrow> dReal \<Rightarrow> nat \<Rightarrow> nat \<Rightarrow> nat" where
  "lower_bound_from xs val first len =
     (if len > 0 then
        (let half = len div 2; middle = first + half in
         if xs ! middle < val then lower_bound_from xs val (middle + 1) (len - half - 1)
         else lower_bound_from xs val first half)
      else first)"
  by pat_completeness auto
termination
  by (relation "measure (\<lambda>(xs, val, first, len). len)") auto

definition lower_bound :: "dReal list \<Rightarrow> dReal \<Rightarrow> nat" where
  "lower_bound xs val = lower_bound_from xs val 0 (length xs)"

text \<open>The loop over the interpolators in \<open>Sample\<close>.\<close>

definition run_interpolators :: "'r Env \<Rightarrow> 'r Traj \<Rightarrow> nat \<Rightarrow> dReal \<Rightarrow> dReal list \<Rightarrow> failure + dReal list" where
  "run_interpolators E t ipoint deltatime itdata =
     forM [0..<length (vgroupinterpolators t)]
       (\<lambda>i d.
          case vgroupinterpolators t ! i of
            None \<Rightarrow> Inr d
          | Some k \<Rightarrow>
              bindF (rd (vgroups (spec t)) (int i)) (\<lambda>g.
                call_interpolator E t k g ipoint deltatime d))
       itdata"

text \<open>
  \<open>Sample(data, time)\<close>: the sampled row, and the trajectory with its lazily rebuilt
  members.  A negative row width makes \<open>data.resize\<close> throw.
\<close>

definition Sample :: "'r Env \<Rightarrow> dReal \<Rightarrow> 'r Traj \<Rightarrow> failure + (dReal list \<times> 'r Traj)" where
  "Sample E time t =
     (if \<not> bInit t then Inl (boost_assert ''_bInit'')
      else if \<not> (timeoffset t \<ge> 0) then Inl (boost_assert ''_timeoffset>=0'')
      else if \<not> (time \<ge> 0) then Inl (boost_assert ''time >= 0'')
      else
        bindF (ComputeInternal E t) (\<lambda>t1.
          if \<not> (int (length (vtrajdata t1)) \<ge> DOF E t1)
          then Inl (openrave_exception ''trajectory needs at least one point to sample from'' []
                      ORE_InvalidArguments)
          else
            bindF (if level_verbose_or_verifyplans E then VerifySampling E t1 else Inr t1) (\<lambda>t2.
              if DOF E t2 < 0 then Inl std_length_error
              else
                let w = DOF E t2; data0 = replicate (nat w) (0::dReal) in
                bindF (GetDuration E t2) (\<lambda>(duration, t3).
                  if time \<ge> duration then
                    bindF (copy_range (vtrajdata t3) (int (length (vtrajdata t3)) - w) w data0 0)
                      (\<lambda>data. Inr (data, t3))
                  else
                    let index = lower_bound (vaccumtime t3) time in
                    if index = 0 then
                      bindF (copy_range (vtrajdata t3) 0 w data0 0) (\<lambda>data1.
                      bindF (if 0 \<le> timeoffset t3 \<and> timeoffset t3 < int (length data1)
                             then Inr (data1[nat (timeoffset t3) := time])
                             else Inl std_out_of_range) (\<lambda>data. Inr (data, t3)))
                    else
                      bindF (rd_at (vaccumtime t3) (int index - 1)) (\<lambda>prev.
                      bindF (cell_at t3 (w * int index + timeoffset t3)) (\<lambda>waypointdeltatime.
                        let deltatime0 = time - prev;
                            deltatime = (if deltatime0 < 0 then 0
                                         else if deltatime0 > waypointdeltatime
                                           then waypointdeltatime
                                         else deltatime0)
                        in
                        bindF (run_interpolators E t3 (index - 1) deltatime data0) (\<lambda>data1.
                        bindF (if 0 \<le> timeoffset t3 \<and> timeoffset t3 < int (length data1)
                               then Inr (data1[nat (timeoffset t3) := deltatime])
                               else Inl std_out_of_range) (\<lambda>data. Inr (data, t3)))))))))"

section \<open>Notions used in the proofs\<close>

text \<open>The key that \<open>SortGroups\<close> compares: the rank in \<open>_maporder\<close> for a known
  category, the category itself otherwise.\<close>

definition code_key :: "Group \<Rightarrow> nat \<times> int \<times> string" where
  "code_key g =
     (case maporder (name_prefix g) of Some r \<Rightarrow> (0, r, []) | None \<Rightarrow> (1, 0, name_prefix g))"

text \<open>Two trajectories that differ at most in the buffer, the time index and the flags.\<close>

definition same_setup :: "'r Traj \<Rightarrow> 'r Traj \<Rightarrow> bool" where
  "same_setup t u =
     (spec t = spec u \<and> vgroupinterpolators t = vgroupinterpolators u
      \<and> vgroupvalidators t = vgroupvalidators u \<and> vderivoffsets t = vderivoffsets u
      \<and> vddoffsets t = vddoffsets u \<and> vdddoffsets t = vdddoffsets u
      \<and> vintegraloffsets t = vintegraloffsets u \<and> viioffsets t = viioffsets u
      \<and> timeoffset t = timeoffset u \<and> description t = description u
      \<and> mapReadableInterfaces t = mapReadableInterfaces u)"

definition reset_buffers :: "'r Traj \<Rightarrow> 'r Traj" where
  "reset_buffers t = t\<lparr> vtrajdata := [], vaccumtime := [], vdeltainvtime := [],
                         bChanged := True, bSamplingVerified := False, bInit := True \<rparr>"

text \<open>What initialization of the group functions keeps.\<close>

definition keeps_identity :: "'r Traj \<Rightarrow> 'r Traj \<Rightarrow> bool" where
  "keeps_identity t u =
     (spec u = spec t \<and> timeoffset u = timeoffset t \<and> description u = description t
      \<and> mapReadableInterfaces u = mapReadableInterfaces t)"

text \<open>The trajectory that \<open>Init\<close> hands to \<open>_InitializeGroupFunctions\<close>.\<close>

definition prepared :: "ConfigurationSpecification \<Rightarrow> 'r Traj \<Rightarrow> 'r Traj" where
  "prepared sp t =
     t\<lparr> bInit := False, vgroupinterpolators := [], vgroupvalidators := [],
        vderivoffsets := [], vddoffsets := [], vdddoffsets := [],
        vintegraloffsets := [], viioffsets := [],
        spec := sp\<lparr> vgroups := stable_sort SortGroups (vgroups sp) \<rparr>,
        timeoffset := find_timeoffset (vgroups (sp\<lparr> vgroups := stable_sort SortGroups (vgroups sp) \<rparr>)) \<rparr>"

text \<open>What the loop of \<open>_ComputeInternal\<close> keeps of the trajectory \<open>t\<close> it started from.\<close>

definition time_frame :: "'r Traj \<Rightarrow> nat \<Rightarrow> 'r Traj \<Rightarrow> bool" where
  "time_frame t n u =
     (vtrajdata u = vtrajdata t \<and> spec u = spec t \<and> timeoffset u = timeoffset t
      \<and> length (vaccumtime u) = n)"

text \<open>The stored \<open>deltatime\<close> of waypoint \<open>i\<close>: the cell \<open>DOF * i + _timeoffset\<close>.\<close>

definition deltatime_at :: "'r Env \<Rightarrow> 'r Traj \<Rightarrow> nat \<Rightarrow> dReal" where
  "deltatime_at E t i = vtrajdata t ! nat (DOF E t * int i + timeoffset t)"

text \<open>An initialized trajectory with a \<open>deltatime\<close> group inside its rows: the row width
  is a positive \<open>int\<close> and \<open>0 \<le> _timeoffset < DOF\<close>.\<close>

definition rows_ok :: "'r Env \<Rightarrow> 'r Traj \<Rightarrow> bool" where
  "rows_ok E t = (bInit t \<and> 0 < DOF E t \<and> DOF E t \<le> 2147483647
                  \<and> 0 \<le> timeoffset t \<and> timeoffset t < DOF E t)"

text \<open>Channel \<open>j\<close> of group \<open>g\<close> at waypoint \<open>i\<close>, and channel \<open>j\<close> at offset \<open>r\<close> of waypoint \<open>i\<close>.\<close>

definition channel_at :: "'r Env \<Rightarrow> 'r Traj \<Rightarrow> nat \<Rightarrow> int \<Rightarrow> int \<Rightarrow> dReal" where
  "channel_at E t i r j = vtrajdata t ! nat (int i * DOF E t + r + j)"

definition waypoint_value :: "'r Env \<Rightarrow> 'r Traj \<Rightarrow> nat \<Rightarrow> Group \<Rightarrow> int \<Rightarrow> dReal" where
  "waypoint_value E t i g j = channel_at E t i (offset g) j"

text \<open>A call of an interpolator on segment \<open>[ipoint, ipoint + 1]\<close> whose two waypoints are in
  the buffer, for a group that lies inside a row, with an output row of the row width.\<close>

definition segment_ok :: "'r Env \<Rightarrow> 'r Traj \<Rightarrow> Group \<Rightarrow> nat \<Rightarrow> dReal list \<Rightarrow> bool" where
  "segment_ok E t g ipoint itdata =
     (0 < DOF E t \<and> DOF E t \<le> 2147483647
      \<and> (ipoint + 2) * nat (DOF E t) \<le> length (vtrajdata t)
      \<and> length (vtrajdata t) < size_t_max
      \<and> 0 \<le> offset g \<and> 0 \<le> dof g \<and> offset g + dof g \<le> DOF E t
      \<and> int (length itdata) = DOF E t)"

section \<open>A reference environment and small trajectories\<close>

text \<open>Concrete parameters on which the theorems are instantiated: the row width is the
  largest \<open>offset + dof\<close>, specifications are equal when their group lists are, a
  compatible group has the same name and width, and there are no related groups.\<close>

definition geometry0 :: Geometry where
  "geometry0 = \<lparr> IKP_Rotation3D = 4, IKP_Transform6D = 1, IKP_TranslationDirection5D = 7,
       quatSlerp = (\<lambda>a b f. a), quatMultiply = (\<lambda>a b. a), quatInverse = (\<lambda>a. a),
       quatFromAxisAngle = (\<lambda>a. a), quatRotate = (\<lambda>q v. v),
       vec_cross = (\<lambda>(a, b, c, d) (e, f, g, h). (b * g - c * f, c * e - a * g, a * f - b * e, 0)),
       vec_lengthsqr3 = (\<lambda>(a, b, c, d). a * a + b * b + c * c),
       vec_scale = (\<lambda>(a, b, c, d) k. (a * k, b * k, c * k, d * k)),
       vec_add = (\<lambda>(a, b, c, d) (e, f, g, h). (a + e, b + f, c + g, d + h)),
       vec_sub = (\<lambda>(a, b, c, d) (e, f, g, h). (a - e, b - f, c - g, d - h)),
       RaveSqrt = sqrt, RaveAsin = arcsin, RaveFabs = abs, RavePow = (powr), PI = pi \<rparr>"

definition env0 :: "unit Env" where
  "env0 = \<lparr> g_fEpsilon = 1 / 10 ^ 9,
            GetDOF = (\<lambda>sp. foldl (\<lambda>m g. max m (offset g + dof g)) 0 (vgroups sp)),
            spec_equal = (\<lambda>a b. vgroups a = vgroups b),
            FindCompatibleGroup = (\<lambda>sp g. find (\<lambda>h. name h = name g \<and> dof h = dof g) (vgroups sp)),
            FindTimeDerivativeGroup = (\<lambda>sp g. None),
            FindTimeIntegralGroup = (\<lambda>sp g. None),
            GetInterpolationDerivative = (\<lambda>s. []),
            GetInterpolationIntegral = (\<lambda>s. []),
            ConvertGroupData = (\<lambda>g sg fill src old. src),
            RaveGetAffineDOF = (\<lambda>n. 0),
            AffineDOFValuesOfIdentity = (\<lambda>n. []),
            level_verbose_or_verifyplans = False,
            level_debug_or_verifyplans = False,
            geometry = geometry0,
            TIO_ReserveTimeBasedVectors = 1,
            reserve_granted = (\<lambda>n. n \<le> 2 ^ 32),
            assertion_failed_throws = True \<rparr>"

text \<open>The specification \<open>{joint_values 0 1 next, deltatime 1 1}\<close> in canonical order.\<close>

definition spec_next :: ConfigurationSpecification where
  "spec_next = \<lparr> vgroups =
     [\<lparr> name = ''deltatime'', offset = 1, dof = 1, interpolation = [] \<rparr>,
      \<lparr> name = ''joint_values'', offset = 0, dof = 1, interpolation = ''next'' \<rparr>] \<rparr>"

text \<open>An initialized trajectory over \<open>spec_next\<close> holding the waypoints \<open>data\<close>.\<close>

definition traj_next :: "dReal list \<Rightarrow> unit Traj" where
  "traj_next data =
     \<lparr> spec = spec_next,
       vgroupinterpolators = [Some InterpolateNext, Some InterpolateNext],
       vgroupvalidators = [None, None],
       vderivoffsets = [- 1, - 1], vddoffsets = [- 1, - 1], vdddoffsets = [- 1, - 1],
       vintegraloffsets = [- 1, - 1], viioffsets = [- 1, - 1],
       timeoffset = 1,
       vtrajdata = data, vaccumtime = [], vdeltainvtime = [],
       bInit = True, bChanged = True, bSamplingVerified = False,
       description = [], mapReadableInterfaces = [] \<rparr>"

text \<open>The same two groups at exchanged offsets, and a sequence of mutations.\<close>

definition spec_swapped :: ConfigurationSpecification where
  "spec_swapped = \<lparr> vgroups =
     [\<lparr> name = ''deltatime'', offset = 0, dof = 1, interpolation = [] \<rparr>,
      \<lparr> name = ''joint_values'', offset = 1, dof = 1, interpolation = ''next'' \<rparr>] \<rparr>"

definition mutations_example :: "mutation list" where
  "mutations_example =
     [MInsert 0 [0, 0, 1, 1] False, MInsert 1 [5, 1 / 2] True,
      MInsertSpec 1 [1 / 4, 7] spec_swapped False, MRemove 0 1, MClear]"

text \<open>The groups of \<open>spec_next\<close> in another order.\<close>

definition spec_unsorted :: ConfigurationSpecification where
  "spec_unsorted = \<lparr> vgroups =
     [\<lparr> name = ''joint_values'', offset = 0, dof = 1, interpolation = ''next'' \<rparr>,
      \<lparr> name = ''deltatime'', offset = 1, dof = 1, interpolation = [] \<rparr>] \<rparr>"

text \<open>The \<open>joint_values\<close> group of \<open>spec_next\<close>, and a trajectory over \<open>spec_next\<close> whose
  time index has been built.\<close>

definition group_joint_values :: Group where
  "group_joint_values =
     \<lparr> name = ''joint_values'', offset = 0, dof = 1, interpolation = ''next'' \<rparr>"

definition traj_next_indexed :: "dReal list \<Rightarrow> dReal list \<Rightarrow> dReal list \<Rightarrow> unit Traj" where
  "traj_next_indexed data accum invd =
     (traj_next data)\<lparr> vaccumtime := accum, vdeltainvtime := invd, bChanged := False \<rparr>"

text \<open>
  The groups that \<open>_InitializeGroupFunctions\<close> hands to \<open>_InterpolateLinearIk\<close> when their
  label is \<open>linear\<close>, the tag it reads from their name, and the kernel it binds.  A group is
  scalar unless it goes to the rotation-aware kernel with the tag of a rotation, a
  6D transform or a 5D direction.
\<close>

definition linear_ik_name :: "Group \<Rightarrow> bool" where
  "linear_ik_name g =
     ((length (name g) \<ge> 14 \<and> take 14 (name g) = ''ikparam_values'')
      \<or> (length (name g) \<ge> 18 \<and> take 14 (name g) = ''ikparam_velocities'')
      \<or> (length (name g) \<ge> 21 \<and> take 21 (name g) = ''ikparam_accelerations''))"

definition ik_tag :: "Group \<Rightarrow> int" where
  "ik_tag g = fst (extract_int (drop 14 (name g)))"

definition scalar_group :: "'r Env \<Rightarrow> Group \<Rightarrow> bool" where
  "scalar_group E g =
     (\<not> (linear_ik_name g
          \<and> (ik_tag g = IKP_Rotation3D (geometry E) \<or> ik_tag g = IKP_Transform6D (geometry E)
               \<or> ik_tag g = IKP_TranslationDirection5D (geometry E))))"

definition linear_kernel :: "Group \<Rightarrow> Interpolator" where
  "linear_kernel g = (if linear_ik_name g then InterpolateLinearIk (ik_tag g) else InterpolateLinear)"

text \<open>
  A trajectory of two waypoints over \<open>deltatime\<close>, \<open>joint_velocities\<close> and a \<open>linear\<close> group
  of the given name, with the derivative offset of that group's channel left open.
\<close>

definition group_linear :: "string \<Rightarrow> Group" where
  "group_linear nm = \<lparr> name = nm, offset = 0, dof = 1, interpolation = ''linear'' \<rparr>"

definition spec_linear :: "string \<Rightarrow> ConfigurationSpecification" where
  "spec_linear nm = \<lparr> vgroups =
     [\<lparr> name = ''deltatime'', offset = 2, dof = 1, interpolation = [] \<rparr>,
      \<lparr> name = ''joint_velocities'', offset = 1, dof = 1, interpolation = ''next'' \<rparr>,
      group_linear nm] \<rparr>"

definition traj_linear :: "string \<Rightarrow> int \<Rightarrow> unit Traj" where
  "traj_linear nm derivoffset =
     \<lparr> spec = spec_linear nm,
       vgroupinterpolators = [Some InterpolateNext, Some InterpolateNext,
                              fst (group_functions (group_linear nm))],
       vgroupvalidators = [None, None, fst (snd (group_functions (group_linear nm)))],
       vderivoffsets = [derivoffset, - 1, - 1], vddoffsets = [- 1, - 1, - 1],
       vdddoffsets = [- 1, - 1, - 1],
       vintegraloffsets = [- 2, - 1, - 1], viioffsets = [- 1, - 1, - 1],
       timeoffset = 2,
       vtrajdata = [0, 0, 0, 1, 2, 1 / 2], vaccumtime = [0, 1 / 2], vdeltainvtime = [0, 2],
       bInit = True, bChanged = False, bSamplingVerified = False,
       description = [], mapReadableInterfaces = [] \<rparr>"







section \<open>Verified properties\<close>

text \<open>
  C10.  On an initialized trajectory, \<open>Insert\<close> with an empty data array returns at once for
  every index, also one beyond the waypoint count: no error is raised and the trajectory
  (waypoint buffer, dirty flag and all other members) is unchanged.  This holds for both
  overloads, with and without a source specification.
\<close>

theorem insert_empty_data_is_noop:
  "bInit t \<Longrightarrow>
     Insert E index [] bOverwrite t = Inr t \<and> Insert_spec E index [] sp bOverwrite t = Inr t"
  by (simp add: Insert_def Insert_spec_def)

text \<open>
  On a trajectory of two waypoints whose time index is built (\<open>_bChanged\<close> is unset), with
  index 7 beyond the waypoint count: both calls return the trajectory as it was, with its
  two waypoints, its time index, and \<open>_bChanged\<close> still unset.
\<close>

theorem insert_empty_data_is_noop_witness:
  "bInit (traj_next_indexed [3, 0, 8, 1] [0, 1] [0, 1])
   \<and> \<not> bChanged (traj_next_indexed [3, 0, 8, 1] [0, 1] [0, 1])
   \<and> vtrajdata (traj_next_indexed [3, 0, 8, 1] [0, 1] [0, 1]) = [3, 0, 8, 1]
   \<and> vaccumtime (traj_next_indexed [3, 0, 8, 1] [0, 1] [0, 1]) = [0, 1]
   \<and> GetNumWaypoints env0 (traj_next_indexed [3, 0, 8, 1] [0, 1] [0, 1]) = Inr 2
   \<and> Insert env0 7 [] False (traj_next_indexed [3, 0, 8, 1] [0, 1] [0, 1])
       = Inr (traj_next_indexed [3, 0, 8, 1] [0, 1] [0, 1])
   \<and> Insert_spec env0 7 [] spec_swapped True (traj_next_indexed [3, 0, 8, 1] [0, 1] [0, 1])
       = Inr (traj_next_indexed [3, 0, 8, 1] [0, 1] [0, 1])"
proof -
  have init: "bInit (traj_next_indexed [3, 0, 8, 1] [0, 1] [0, 1])"
    by (simp add: traj_next_indexed_def traj_next_def)
  have state: "\<not> bChanged (traj_next_indexed [3, 0, 8, 1] [0, 1] [0, 1])"
    "vtrajdata (traj_next_indexed [3, 0, 8, 1] [0, 1] [0, 1]) = [3, 0, 8, 1]"
    "vaccumtime (traj_next_indexed [3, 0, 8, 1] [0, 1] [0, 1]) = [0, 1]"
    by (simp_all add: traj_next_indexed_def traj_next_def)
  have n: "GetNumWaypoints env0 (traj_next_indexed [3, 0, 8, 1] [0, 1] [0, 1]) = Inr 2"
    by (simp add: GetNumWaypoints_def traj_next_indexed_def traj_next_def env0_def DOF_def
        spec_next_def to_size_t_def size_t_max_def)
  show ?thesis
    using insert_empty_data_is_noop [OF init, of env0 7 False spec_swapped]
          insert_empty_data_is_noop [OF init, of env0 7 True spec_swapped]
          init state n
    by simp
qed

subsection \<open>Index arithmetic\<close>

lemma to_size_t_pos: "0 \<le> i \<Longrightarrow> i < 2 ^ 64 \<Longrightarrow> to_size_t i = nat i"
  by (simp add: to_size_t_def size_t_max_def)

lemma mul_size_t_small: "a * b < size_t_max \<Longrightarrow> mul_size_t a b = a * b"
  by (simp add: mul_size_t_def)

lemma beyond_count: "0 < d \<Longrightarrow> sz div d < index \<Longrightarrow> sz < index * (d::nat)"
  by (simp add: div_less_iff_less_mult)

subsection \<open>Out-of-bound indices\<close>

text \<open>
  C7 as stated fails.  On a trajectory with one waypoint, \<open>Insert\<close> at index 7 with an empty
  data array and \<open>Remove(7, 7)\<close> both return normally and leave the trajectory as it was:
  the early returns for empty data and for \<open>startindex == endindex\<close> come before the bound
  checks.
\<close>

theorem out_of_bounds_silent_counterexample:
  "GetNumWaypoints env0 (traj_next [0, 0]) = Inr 1 \<and>
   Insert env0 7 [] False (traj_next [0, 0]) = Inr (traj_next [0, 0]) \<and>
   Remove env0 7 7 (traj_next [0, 0]) = Inr (traj_next [0, 0])"
  by (simp add: GetNumWaypoints_def Insert_def Remove_def traj_next_def env0_def DOF_def
      spec_next_def to_size_t_def size_t_max_def)

text \<open>
  C7, amended.  On an initialized trajectory of positive row width, with the index products
  inside \<open>size_t\<close>, and with an index beyond the waypoint count.  \<open>Insert\<close> without a source
  specification and with non-empty data raises a structured error.  \<open>Insert\<close> with a source
  specification and non-empty data fails; the failure is a structured error when the source
  specification has a positive number of channels, and otherwise it is the assertion on that
  number, which comes before the index check.  \<open>Remove\<close> with \<open>startindex \<noteq> endindex\<close> fails its
  bounds assertion.  A failed assertion is a structured error exactly when the handler it
  calls throws one.  Nothing is said about empty data or \<open>startindex = endindex\<close>: there the
  operations return.
\<close>

theorem out_of_bounds_index_fails:
  assumes init: "bInit t" and dpos: "0 < DOF E t" and dint: "DOF E t \<le> 2147483647"
  shows "(pdata \<noteq> [] \<and> length (vtrajdata t) div nat (DOF E t) < index
            \<and> index * nat (DOF E t) < size_t_max
          \<longrightarrow> (\<exists>e. Insert E index pdata bOverwrite t = Inl e \<and> is_structured_error E e))
       \<and> (pdata \<noteq> [] \<and> length (vtrajdata t) div nat (DOF E t) < index
            \<and> index * nat (DOF E t) < size_t_max
          \<longrightarrow> (\<exists>e. Insert_spec E index pdata sp bOverwrite t = Inl e
                   \<and> (0 < GetDOF E sp \<or> assertion_failed_throws E \<longrightarrow> is_structured_error E e)
                   \<and> (\<not> 0 < GetDOF E sp \<longrightarrow> e = boost_assert ''spec.GetDOF()>0'')))
       \<and> (startindex \<noteq> endindex
            \<and> (length (vtrajdata t) div nat (DOF E t) < startindex
                 \<or> length (vtrajdata t) div nat (DOF E t) < endindex)
            \<and> startindex * nat (DOF E t) < size_t_max \<and> endindex * nat (DOF E t) < size_t_max
          \<longrightarrow> (\<exists>m. Remove E startindex endindex t = Inl (boost_assert m)
                   \<and> is_structured_error E (boost_assert m) = assertion_failed_throws E))"
proof -
  have d: "to_size_t (DOF E t) = nat (DOF E t)"
    using dpos dint by (intro to_size_t_pos) auto
  have npos: "0 < nat (DOF E t)" using dpos by simp
  have ins: "\<exists>e. Insert E index pdata bOverwrite t = Inl e \<and> is_structured_error E e"
    if "pdata \<noteq> []" "length (vtrajdata t) div nat (DOF E t) < index"
       "index * nat (DOF E t) < size_t_max"
  proof -
    have "length (vtrajdata t) < index * nat (DOF E t)"
      using beyond_count [OF npos that(2)] .
    then show ?thesis
      using that init dpos by (simp add: Insert_def Let_def d mul_size_t_small)
  qed
  have insp: "\<exists>e. Insert_spec E index pdata sp bOverwrite t = Inl e
                \<and> (0 < GetDOF E sp \<or> assertion_failed_throws E \<longrightarrow> is_structured_error E e)
                \<and> (\<not> 0 < GetDOF E sp \<longrightarrow> e = boost_assert ''spec.GetDOF()>0'')"
    if "pdata \<noteq> []" "length (vtrajdata t) div nat (DOF E t) < index"
       "index * nat (DOF E t) < size_t_max"
  proof (cases "0 < GetDOF E sp")
    case True
    have "length (vtrajdata t) < index * nat (DOF E t)"
      using beyond_count [OF npos that(2)] .
    then show ?thesis
      using that init dpos True by (simp add: Insert_spec_def Let_def d mul_size_t_small)
  next
    case False
    then have "Insert_spec E index pdata sp bOverwrite t = Inl (boost_assert ''spec.GetDOF()>0'')"
      using that init by (simp add: Insert_spec_def Let_def)
    then show ?thesis using False by simp
  qed
  have rem: "\<exists>m. Remove E startindex endindex t = Inl (boost_assert m)
               \<and> is_structured_error E (boost_assert m) = assertion_failed_throws E"
    if "startindex \<noteq> endindex"
       "length (vtrajdata t) div nat (DOF E t) < startindex
          \<or> length (vtrajdata t) div nat (DOF E t) < endindex"
       "startindex * nat (DOF E t) < size_t_max" "endindex * nat (DOF E t) < size_t_max"
  proof -
    have "length (vtrajdata t) < startindex * nat (DOF E t)
            \<or> length (vtrajdata t) < endindex * nat (DOF E t)"
      using that(2) beyond_count [OF npos] by blast
    then show ?thesis
      using that init by (auto simp add: Remove_def Let_def d mul_size_t_small)
  qed
  show ?thesis using ins insp rem by blast
qed

text \<open>
  With one waypoint stored and a handler that throws: \<open>Insert\<close> at index 2, with the
  trajectory's own specification and with a specification without channels, and
  \<open>Remove(2, 3)\<close> all raise structured errors.
\<close>

theorem out_of_bounds_index_fails_witness:
  "bInit (traj_next [0, 0]) \<and> 0 < DOF env0 (traj_next [0, 0])
   \<and> DOF env0 (traj_next [0, 0]) \<le> 2147483647
   \<and> [5, 1] \<noteq> ([]::dReal list)
   \<and> length (vtrajdata (traj_next [0, 0])) div nat (DOF env0 (traj_next [0, 0])) < 2
   \<and> 2 * nat (DOF env0 (traj_next [0, 0])) < size_t_max
   \<and> 3 * nat (DOF env0 (traj_next [0, 0])) < size_t_max
   \<and> 0 < GetDOF env0 spec_next \<and> \<not> 0 < GetDOF env0 \<lparr> vgroups = [] \<rparr>
   \<and> assertion_failed_throws env0
   \<and> (\<exists>e. Insert env0 2 [5, 1] False (traj_next [0, 0]) = Inl e \<and> is_structured_error env0 e)
   \<and> (\<exists>e. Insert_spec env0 2 [5, 1] spec_next False (traj_next [0, 0]) = Inl e
            \<and> is_structured_error env0 e)
   \<and> Insert_spec env0 2 [5, 1] \<lparr> vgroups = [] \<rparr> False (traj_next [0, 0])
        = Inl (boost_assert ''spec.GetDOF()>0'')
   \<and> is_structured_error env0 (boost_assert ''spec.GetDOF()>0'')
   \<and> (\<exists>m. Remove env0 2 3 (traj_next [0, 0]) = Inl (boost_assert m)
            \<and> is_structured_error env0 (boost_assert m))"
proof -
  have dof2: "DOF env0 (traj_next [0, 0]) = 2"
    by (simp add: traj_next_def env0_def DOF_def spec_next_def)
  have sdof: "GetDOF env0 spec_next = 2" "GetDOF env0 \<lparr> vgroups = [] \<rparr> = 0"
    by (simp_all add: env0_def spec_next_def)
  have h: "assertion_failed_throws env0" by (simp add: env0_def)
  have len: "length (vtrajdata (traj_next [0, 0])) = 2" and init: "bInit (traj_next [0, 0])"
    by (simp_all add: traj_next_def)
  have a: "(\<exists>e. Insert env0 2 [5, 1] False (traj_next [0, 0]) = Inl e \<and> is_structured_error env0 e)
     \<and> (\<exists>e. Insert_spec env0 2 [5, 1] spec_next False (traj_next [0, 0]) = Inl e
            \<and> is_structured_error env0 e)
     \<and> (\<exists>m. Remove env0 2 3 (traj_next [0, 0]) = Inl (boost_assert m)
            \<and> is_structured_error env0 (boost_assert m))"
    using out_of_bounds_index_fails
      [of "traj_next [0, 0]" env0 "[5, 1]" 2 False spec_next 2 3]
    by (simp add: dof2 sdof len init size_t_max_def h)
  have b: "Insert_spec env0 2 [5, 1] \<lparr> vgroups = [] \<rparr> False (traj_next [0, 0])
             = Inl (boost_assert ''spec.GetDOF()>0'')"
    using out_of_bounds_index_fails
      [of "traj_next [0, 0]" env0 "[5, 1]" 2 False "\<lparr> vgroups = [] \<rparr>" 2 3]
    by (simp add: dof2 sdof len init size_t_max_def h)
  show ?thesis using a b h by (simp add: dof2 sdof len init size_t_max_def)
qed

subsection \<open>The buffer holds whole rows\<close>

lemma forM_length:
  "(\<And>x s s'. x \<in> set xs \<Longrightarrow> f x s = Inr s' \<Longrightarrow> length s' = length s) \<Longrightarrow>
   forM xs f s = Inr s' \<Longrightarrow> length s' = length (s::'a list)"
proof (induction xs arbitrary: s)
  case Nil
  then show ?case by simp
next
  case (Cons x xs)
  from Cons.prems(2) obtain s1 where s1: "f x s = Inr s1" and r: "forM xs f s1 = Inr s'"
    by (auto split: sum.splits)
  have a: "length s1 = length s" using Cons.prems(1) [of x s s1] s1 by simp
  have b: "length s' = length s1"
  proof (rule Cons.IH [OF _ r])
    fix y u u' assume "y \<in> set xs" "f y u = Inr u'"
    then show "length u' = length u" using Cons.prems(1) [of y u u'] by simp
  qed
  show ?case using a b by simp
qed

lemma wr_length: "wr xs i v = Inr ys \<Longrightarrow> length ys = length xs"
  by (auto simp: wr_def split: if_splits)

lemma put_slice_length: "put_slice xs from n vs = Inr ys \<Longrightarrow> length ys = length xs"
  by (auto simp: put_slice_def split: if_splits)

lemma ConvertGroupRows_length:
  "ConvertGroupRows E ts g src ss sg n fill tgt base = Inr ys \<Longrightarrow> length ys = length tgt"
  unfolding ConvertGroupRows_def
  by (erule forM_length [rotated])
     (auto simp: bindF_def split: sum.splits dest: put_slice_length)

lemma fill_rows_length:
  "forM [0..<n] (\<lambda>ielement d1. forM (upto_int k)
       (\<lambda>j d2. wr d2 (b + int ielement * w + j) (vs ! nat j)) d1) tgt = Inr ys
   \<Longrightarrow> length ys = length tgt"
  by (erule forM_length [rotated], erule forM_length [rotated], erule wr_length)

lemma ConvertData_length:
  "ConvertData E t tgt base src cg sp n fill = Inr ys \<Longrightarrow> length ys = length tgt"
  unfolding ConvertData_def
  by (erule forM_length [rotated])
     (auto simp: bindF_def Let_def split: sum.splits if_splits option.splits
        dest: ConvertGroupRows_length fill_rows_length)

lemma to_size_t_dof: "0 < i \<Longrightarrow> i \<le> 2147483647 \<Longrightarrow> to_size_t i = nat i"
  by (rule to_size_t_pos) auto

lemma index_in_bounds:
  "sz < size_t_max \<Longrightarrow> index \<le> sz div d \<Longrightarrow> mul_size_t index d = index * d \<and> index * d \<le> sz"
proof -
  assume a: "sz < size_t_max" and b: "index \<le> sz div d"
  have "index * d \<le> (sz div d) * d" using b by simp
  also have "\<dots> \<le> sz" by simp
  finally have c: "index * d \<le> sz" .
  then show ?thesis using a by (simp add: mul_size_t_def)
qed

lemma Insert_invariant:
  assumes dpos: "0 < DOF E t" and dint: "DOF E t \<le> 2147483647"
    and inv: "buffer_invariant E t"
    and pre: "mutation_pre E (MInsert index pdata bOverwrite) t"
    and res: "Insert E index pdata bOverwrite t = Inr t'"
  shows "buffer_invariant E t' \<and> spec t' = spec t \<and> bInit t'"
proof -
  define d where "d = nat (DOF E t)"
  have d: "to_size_t (DOF E t) = d" unfolding d_def using dpos dint by (rule to_size_t_dof)
  have dvd_sz: "d dvd length (vtrajdata t)"
    using inv by (simp add: buffer_invariant_def d_def dvd_eq_mod_eq_0)
  have dvd_n: "d dvd length pdata" using pre by (simp add: d_def dvd_eq_mod_eq_0)
  have pos: "mul_size_t index d = index * d" and le: "index * d \<le> length (vtrajdata t)"
    using index_in_bounds [of "length (vtrajdata t)" index d] pre by (simp_all add: d_def)
  have init: "bInit t" using res by (auto simp: Insert_def Let_def split: if_splits)
  show ?thesis
  proof (cases "pdata = []")
    case True
    then show ?thesis using res inv init by (simp add: Insert_def)
  next
    case False
    have sp: "spec t' = spec t" and init': "bInit t'"
      using res init by (auto simp: Insert_def Let_def split: if_splits)
    have len: "length (vtrajdata t') = length (vtrajdata t) + length pdata
               \<or> length (vtrajdata t') = length (vtrajdata t)
               \<or> length (vtrajdata t') = index * d + length pdata"
      using res False le
      by (auto simp: Insert_def Let_def d pos min_def split: if_splits)
    have "d dvd length (vtrajdata t')"
      using len dvd_sz dvd_n by (auto simp: dvd_add)
    then show ?thesis using sp init' by (simp add: buffer_invariant_def DOF_def d_def dvd_eq_mod_eq_0)
  qed
qed

lemma Remove_invariant:
  assumes dpos: "0 < DOF E t" and dint: "DOF E t \<le> 2147483647"
    and inv: "buffer_invariant E t"
    and pre: "mutation_pre E (MRemove startindex endindex) t"
    and res: "Remove E startindex endindex t = Inr t'"
  shows "buffer_invariant E t' \<and> spec t' = spec t \<and> bInit t'"
proof -
  define d where "d = nat (DOF E t)"
  have d: "to_size_t (DOF E t) = d" unfolding d_def using dpos dint by (rule to_size_t_dof)
  have dvd_sz: "d dvd length (vtrajdata t)"
    using inv by (simp add: buffer_invariant_def d_def dvd_eq_mod_eq_0)
  have e: "mul_size_t endindex d = endindex * d" and ele: "endindex * d \<le> length (vtrajdata t)"
    using index_in_bounds [of "length (vtrajdata t)" endindex d] pre by (simp_all add: d_def)
  have sle: "startindex \<le> length (vtrajdata t) div d" using pre by (simp add: d_def)
  have s: "mul_size_t startindex d = startindex * d"
    using index_in_bounds [of "length (vtrajdata t)" startindex d] pre sle by (simp add: d_def)
  have init: "bInit t" using res by (auto simp: Remove_def Let_def split: if_splits)
  show ?thesis
  proof (cases "startindex = endindex")
    case True
    then show ?thesis using res inv init by (simp add: Remove_def)
  next
    case False
    have sp: "spec t' = spec t" and init': "bInit t'"
      using res init by (auto simp: Remove_def Let_def split: if_splits)
    have se: "startindex * d \<le> endindex * d" using pre by simp
    have len: "length (vtrajdata t') = startindex * d + (length (vtrajdata t) - endindex * d)"
      using res False ele se
      by (auto simp: Remove_def Let_def d s e min_def split: if_splits)
    have "d dvd length (vtrajdata t) - endindex * d"
      using dvd_sz by (simp add: dvd_diff_nat)
    then have "d dvd length (vtrajdata t')"
      using len by (simp add: dvd_add)
    then show ?thesis using sp init' by (simp add: buffer_invariant_def DOF_def d_def dvd_eq_mod_eq_0)
  qed
qed

lemma Clear_invariant:
  "buffer_invariant E t \<Longrightarrow> buffer_invariant E (ClearWaypoints t) \<and> spec (ClearWaypoints t) = spec t
     \<and> bInit (ClearWaypoints t) = bInit t"
  by (simp add: buffer_invariant_def ClearWaypoints_def DOF_def)

lemma bindF_InrE:
  assumes "bindF m f = Inr y"
  obtains x where "m = Inr x" "f x = Inr y"
  using assms by (auto simp: bindF_def split: sum.splits)

lemma Insert_rows:
  assumes dpos: "0 < DOF E t" and dint: "DOF E t \<le> 2147483647"
    and res: "Insert E index pdata bOverwrite t = Inr t'"
  shows "length pdata mod nat (DOF E t) = 0"
proof (cases "pdata = []")
  case True
  then show ?thesis by simp
next
  case False
  have "to_size_t (DOF E t) = nat (DOF E t)" using dpos dint by (rule to_size_t_dof)
  then show ?thesis using res False
    by (auto simp: Insert_def Let_def split: if_splits)
qed

lemma Insert_spec_overwrite_length:
  "Insert_spec_overwrite E index pdata sp bOverwrite cg t = Inr (data1, si, i1)
   \<Longrightarrow> length data1 = length (vtrajdata t)"
  by (auto simp: Insert_spec_overwrite_def Let_def bindF_def
      split: if_splits sum.splits dest: ConvertData_length)

lemma Insert_spec_rest_length:
  assumes small: "length pdata * to_size_t (DOF E t) < size_t_max"
    and r: "Insert_spec_rest E pdata sp cg t (data1, si, i1) = Inr data2"
  shows "\<exists>k. length data2 = length data1 + k * to_size_t (DOF E t)"
proof (cases "si < length pdata")
  case False
  then have "data2 = data1" using r by (simp add: Insert_spec_rest_def Let_def)
  then show ?thesis by (intro exI [of _ 0]) simp
next
  case True
  define d where "d = to_size_t (DOF E t)"
  define numelements where "numelements = (length pdata - si) div to_size_t (GetDOF E sp)"
  have "numelements \<le> length pdata"
    unfolding numelements_def by (meson diff_le_self div_le_dividend le_trans)
  then have "numelements * d \<le> length pdata * d" by (rule mult_le_mono1)
  then have sm: "numelements * d < size_t_max" using small unfolding d_def by (rule le_less_trans)
  obtain vtemp where
    cv: "ConvertData E t (replicate (mul_size_t numelements d) 0) 0
           (drop si pdata) cg sp numelements True = Inr vtemp"
    and d2: "data2 = take (mul_size_t i1 d) data1 @ vtemp @ drop (mul_size_t i1 d) data1"
    using r True
    by (auto simp: Insert_spec_rest_def Let_def bindF_def numelements_def d_def
        split: sum.splits if_splits)
  have "length vtemp = numelements * d"
    using ConvertData_length [OF cv] sm by (simp add: mul_size_t_small)
  then have "length data2 = length data1 + numelements * d"
    using d2 by simp
  then show ?thesis unfolding d_def by blast
qed

lemma Insert_spec_invariant:
  assumes dpos: "0 < DOF E t" and dint: "DOF E t \<le> 2147483647"
    and inv: "buffer_invariant E t"
    and pre: "mutation_pre E (MInsertSpec index pdata sp bOverwrite) t"
    and res: "Insert_spec E index pdata sp bOverwrite t = Inr t'"
  shows "buffer_invariant E t' \<and> spec t' = spec t \<and> bInit t'"
proof -
  define d where "d = nat (DOF E t)"
  have d: "to_size_t (DOF E t) = d" unfolding d_def using dpos dint by (rule to_size_t_dof)
  have dvd_sz: "d dvd length (vtrajdata t)"
    using inv by (simp add: buffer_invariant_def d_def dvd_eq_mod_eq_0)
  have init: "bInit t" using res by (auto simp: Insert_spec_def Let_def split: if_splits)
  show ?thesis
  proof (cases "pdata = []")
    case True
    then show ?thesis using res inv init by (simp add: Insert_spec_def)
  next
    case ne: False
    show ?thesis
    proof (cases "spec_equal E (spec t) sp")
      case True
      have r: "Insert E index pdata bOverwrite t = Inr t'"
        using res ne True by (auto simp: Insert_spec_def Let_def split: if_splits)
      have "mutation_pre E (MInsert index pdata bOverwrite) t"
        using pre Insert_rows [OF dpos dint r] by simp
      then show ?thesis using Insert_invariant [OF dpos dint inv _ r] by simp
    next
      case False
      define cg where "cg = map (FindCompatibleGroup E sp) (vgroups (spec t))"
      have "bindF (Insert_spec_overwrite E index pdata sp bOverwrite cg t) (\<lambda>st.
              bindF (Insert_spec_rest E pdata sp cg t st) (\<lambda>data2.
                Inr (t\<lparr> vtrajdata := data2, bChanged := True \<rparr>))) = Inr t'"
        using res ne False init by (auto simp: Insert_spec_def Let_def cg_def split: if_splits)
      then obtain st data2 where
        s1: "Insert_spec_overwrite E index pdata sp bOverwrite cg t = Inr st"
        and s2: "Insert_spec_rest E pdata sp cg t st = Inr data2"
        and t': "t' = t\<lparr> vtrajdata := data2, bChanged := True \<rparr>"
        by (auto elim!: bindF_InrE)
      obtain data1 si i1 where st: "st = (data1, si, i1)" by (cases st) auto
      have len1: "length data1 = length (vtrajdata t)"
        using Insert_spec_overwrite_length s1 st by blast
      have "length pdata * to_size_t (DOF E t) < size_t_max" using pre by (simp add: d d_def)
      from Insert_spec_rest_length [OF this s2 [unfolded st]]
      obtain k where "length data2 = length data1 + k * d" by (auto simp: d)
      then have "d dvd length data2" using len1 dvd_sz by (simp add: dvd_add)
      then show ?thesis using t' init
        by (simp add: buffer_invariant_def DOF_def d_def dvd_eq_mod_eq_0)
    qed
  qed
qed

lemma apply_mutation_invariant:
  assumes dpos: "0 < DOF E t" and dint: "DOF E t \<le> 2147483647"
    and inv: "buffer_invariant E t"
    and pre: "mutation_pre E m t"
    and res: "apply_mutation E m t = Inr t'"
  shows "buffer_invariant E t' \<and> spec t' = spec t"
proof (cases m)
  case (MInsert index pdata bOverwrite)
  have r: "Insert E index pdata bOverwrite t = Inr t'" using res unfolding MInsert by simp
  show ?thesis using Insert_invariant [OF dpos dint inv pre [unfolded MInsert] r] by blast
next
  case (MInsertSpec index pdata sp bOverwrite)
  have r: "Insert_spec E index pdata sp bOverwrite t = Inr t'"
    using res unfolding MInsertSpec by simp
  show ?thesis using Insert_spec_invariant [OF dpos dint inv pre [unfolded MInsertSpec] r] by blast
next
  case (MRemove startindex endindex)
  have r: "Remove E startindex endindex t = Inr t'" using res unfolding MRemove by simp
  show ?thesis using Remove_invariant [OF dpos dint inv pre [unfolded MRemove] r] by blast
next
  case MClear
  have r: "t' = ClearWaypoints t" using res unfolding MClear by simp
  show ?thesis using Clear_invariant [OF inv] unfolding r by blast
qed

lemma run_mutations_invariant:
  "0 < DOF E t \<Longrightarrow> DOF E t \<le> 2147483647 \<Longrightarrow> buffer_invariant E t \<Longrightarrow>
   preconditions_hold E ms t \<Longrightarrow> run_mutations E ms t = Inr t' \<Longrightarrow>
   buffer_invariant E t' \<and> spec t' = spec t"
proof (induction ms arbitrary: t)
  case Nil
  then show ?case by simp
next
  case (Cons m ms)
  from Cons.prems(5) obtain t1 where
    a: "apply_mutation E m t = Inr t1" and r: "run_mutations E ms t1 = Inr t'"
    by (auto split: sum.splits)
  have pre: "mutation_pre E m t" and pres: "preconditions_hold E ms t1"
    using Cons.prems(4) a by simp_all
  have i1: "buffer_invariant E t1" and s1: "spec t1 = spec t"
    using apply_mutation_invariant [OF Cons.prems(1,2,3) pre a] by simp_all
  have d1: "DOF E t1 = DOF E t" using s1 by (simp add: DOF_def)
  have "buffer_invariant E t' \<and> spec t' = spec t1"
    using Cons.IH [of t1] Cons.prems(1,2) i1 pres r d1 by simp
  then show ?case using s1 by simp
qed

lemma preconditions_hold_take:
  "preconditions_hold E ms t \<Longrightarrow> preconditions_hold E (take k ms) t"
proof (induction ms arbitrary: t k)
  case Nil
  then show ?case by simp
next
  case (Cons m ms)
  show ?case
  proof (cases k)
    case 0
    then show ?thesis by simp
  next
    case (Suc j)
    then show ?thesis using Cons.prems Cons.IH by (auto split: sum.splits)
  qed
qed

text \<open>
  C9.  Let the row width be positive (and an \<open>int\<close>) and the buffer length a multiple of
  it.  Run any sequence of mutations (\<open>Insert\<close> with or without overwrite, \<open>Insert\<close> with a
  foreign specification, \<open>Remove\<close>, \<open>ClearWaypoints\<close>) each of whose preconditions holds in
  the state it is applied to.  Then after every mutation of the sequence that returns, the
  buffer length is again a multiple of the row width, which stays the same.
\<close>

theorem buffer_length_multiple_of_dof:
  assumes "0 < DOF E t" and "DOF E t \<le> 2147483647" and "buffer_invariant E t"
    and "preconditions_hold E ms t"
  shows "\<forall>k tk. run_mutations E (take k ms) t = Inr tk \<longrightarrow>
           length (vtrajdata tk) mod nat (DOF E tk) = 0 \<and> DOF E tk = DOF E t"
proof (intro allI impI)
  fix k tk assume r: "run_mutations E (take k ms) t = Inr tk"
  have "buffer_invariant E tk \<and> spec tk = spec t"
    using run_mutations_invariant [OF assms(1,2,3) preconditions_hold_take [OF assms(4)] r] .
  then show "length (vtrajdata tk) mod nat (DOF E tk) = 0 \<and> DOF E tk = DOF E t"
    by (auto simp: buffer_invariant_def DOF_def)
qed

lemmas env0_simps = env0_def DOF_def spec_next_def to_size_t_def size_t_max_def mul_size_t_def
  add_size_t_def sub_size_t_def

lemma example_step1:
  "Insert env0 0 [0, 0, 1, 1] False (traj_next []) = Inr (traj_next [0, 0, 1, 1])"
  by (simp add: Insert_def traj_next_def env0_simps)

lemma example_step2:
  "Insert env0 1 [5, 1 / 2] True (traj_next [0, 0, 1, 1]) = Inr (traj_next [0, 0, 5, 1 / 2])"
  by (simp add: Insert_def traj_next_def env0_simps)

lemma example_step3:
  "Insert_spec env0 1 [1 / 4, 7] spec_swapped False (traj_next [0, 0, 5, 1 / 2])
     = Inr (traj_next [0, 0, 7, 1 / 4, 5, 1 / 2])"
  by (simp add: Insert_spec_def Insert_spec_overwrite_def Insert_spec_rest_def ConvertData_def
      ConvertGroupRows_def slice_def put_slice_def bindF_def traj_next_def env0_simps
      spec_swapped_def upt_rec [of 0 1] upt_rec [of 0 2] upt_rec [of 1 2] upt_rec [of 1 1]
      upt_rec [of 2 2] Let_def)

lemma example_step4:
  "Remove env0 0 1 (traj_next [0, 0, 7, 1 / 4, 5, 1 / 2]) = Inr (traj_next [7, 1 / 4, 5, 1 / 2])"
  by (simp add: Remove_def traj_next_def env0_simps)

lemma example_step5: "ClearWaypoints (traj_next [7, 1 / 4, 5, 1 / 2]) = traj_next []"
  by (simp add: ClearWaypoints_def traj_next_def)

lemma DOF_traj_next: "DOF env0 (traj_next xs) = 2"
  by (simp add: traj_next_def env0_def DOF_def spec_next_def)

lemma GetDOF_spec_swapped: "GetDOF env0 spec_swapped = 2"
  by (simp add: env0_def spec_swapped_def)

lemmas example_steps = example_step1 example_step2 example_step3 example_step4 example_step5

theorem buffer_length_multiple_of_dof_witness:
  "0 < DOF env0 (traj_next []) \<and> DOF env0 (traj_next []) \<le> 2147483647
   \<and> buffer_invariant env0 (traj_next [])
   \<and> preconditions_hold env0 mutations_example (traj_next [])
   \<and> run_mutations env0 (take 3 mutations_example) (traj_next [])
        = Inr (traj_next [0, 0, 7, 1 / 4, 5, 1 / 2])
   \<and> length (vtrajdata (traj_next [0, 0, 7, 1 / 4, 5, 1 / 2]))
        mod nat (DOF env0 (traj_next [0, 0, 7, 1 / 4, 5, 1 / 2])) = 0
   \<and> DOF env0 (traj_next [0, 0, 7, 1 / 4, 5, 1 / 2]) = DOF env0 (traj_next [])"
proof -
  have len: "length (vtrajdata (traj_next xs)) = length xs" for xs
    by (simp add: traj_next_def)
  have inv: "buffer_invariant env0 (traj_next [])"
    by (simp add: buffer_invariant_def len)
  have pre: "preconditions_hold env0 mutations_example (traj_next [])"
    by (simp add: mutations_example_def example_steps DOF_traj_next GetDOF_spec_swapped len
        size_t_max_def del: One_nat_def)
  have run: "run_mutations env0 (take 3 mutations_example) (traj_next [])
               = Inr (traj_next [0, 0, 7, 1 / 4, 5, 1 / 2])"
    by (simp add: mutations_example_def example_steps del: One_nat_def)
  have dpos: "0 < DOF env0 (traj_next [])" and dint: "DOF env0 (traj_next []) \<le> 2147483647"
    by (simp_all add: DOF_traj_next)
  have "length (vtrajdata (traj_next [0, 0, 7, 1 / 4, 5, 1 / 2]))
          mod nat (DOF env0 (traj_next [0, 0, 7, 1 / 4, 5, 1 / 2])) = 0
        \<and> DOF env0 (traj_next [0, 0, 7, 1 / 4, 5, 1 / 2]) = DOF env0 (traj_next [])"
    using buffer_length_multiple_of_dof [OF dpos dint inv pre] run by blast
  then show ?thesis using dpos dint inv pre run by blast
qed

subsection \<open>Initialization: canonical order, and what a second \<open>Init\<close> does\<close>

lemma SortGroups_code_key: "SortGroups a b = (code_key a < code_key b)"
  by (auto simp: SortGroups_def code_key_def Let_def split: option.splits)

lemma stable_insert_sorted:
  fixes k :: "'a \<Rightarrow> 'k::linorder"
  assumes lt: "\<And>a b. lt a b = (k a < k b)"
  shows "sorted (map k ys) \<Longrightarrow> sorted (map k (stable_insert lt x ys))"
    and "set (stable_insert lt x ys) = insert x (set ys)"
proof (induction ys)
  case Nil
  { case 1 show ?case by simp }
  { case 2 show ?case by simp }
next
  case (Cons y ys)
  { case 1
    then show ?case using Cons lt by (auto simp: not_less) }
  { case 2 show ?case using Cons by auto }
qed

lemma stable_sort_sorted:
  fixes k :: "'a \<Rightarrow> 'k::linorder"
  assumes lt: "\<And>a b. lt a b = (k a < k b)"
  shows "sorted (map k (stable_sort lt xs))"
  unfolding stable_sort_def
  by (induction xs) (simp_all add: stable_insert_sorted(1) [OF lt])

lemma mset_stable_insert: "mset (stable_insert lt x ys) = add_mset x (mset ys)"
  by (induction ys) auto

lemma mset_stable_sort: "mset (stable_sort lt xs) = mset xs"
  unfolding stable_sort_def by (induction xs) (simp_all add: mset_stable_insert)

lemma stable_insert_front:
  fixes k :: "'a \<Rightarrow> 'k::linorder"
  assumes lt: "\<And>a b. lt a b = (k a < k b)"
  shows "\<forall>y \<in> set ys. k x \<le> k y \<Longrightarrow> stable_insert lt x ys = x # ys"
  by (cases ys) (auto simp: lt)

lemma stable_sort_id:
  fixes k :: "'a \<Rightarrow> 'k::linorder"
  assumes lt: "\<And>a b. lt a b = (k a < k b)"
  shows "sorted (map k xs) \<Longrightarrow> stable_sort lt xs = xs"
proof (induction xs)
  case Nil
  then show ?case by (simp add: stable_sort_def)
next
  case (Cons x xs)
  then have "stable_sort lt xs = xs" and "\<forall>y \<in> set xs. k x \<le> k y" by auto
  then show ?case
    using stable_insert_front [OF lt, where ys = xs and x = x] by (simp add: stable_sort_def)
qed

lemma precedence_of_rank:
  "category_precedence p = map_option (\<lambda>r. nat ((r + 1) div 2)) (maporder p)"
  by (simp add: category_precedence_def maporder_def)

lemma maporder_nonneg: "maporder p = Some r \<Longrightarrow> 0 \<le> r"
  by (auto simp: maporder_def split: if_splits)

lemma canonical_key_mono: "code_key a \<le> code_key b \<Longrightarrow> canonical_key a \<le> canonical_key b"
  by (auto simp: code_key_def canonical_key_def precedence_of_rank less_eq_prod_def
      split: option.splits dest!: maporder_nonneg intro!: nat_mono zdiv_mono1)

lemma sorted_code_key_canonical:
  "sorted (map code_key gs) \<Longrightarrow> canonically_ordered gs"
  unfolding canonically_ordered_def sorted_map
  by (erule sorted_wrt_mono_rel [rotated]) (rule canonical_key_mono)

lemma forM_invariant:
  "(\<And>x s s'. x \<in> set xs \<Longrightarrow> P s \<Longrightarrow> f x s = Inr s' \<Longrightarrow> P s') \<Longrightarrow>
   P s \<Longrightarrow> forM xs f s = Inr s' \<Longrightarrow> P s'"
proof (induction xs arbitrary: s)
  case Nil
  then show ?case by simp
next
  case (Cons x xs)
  from Cons.prems(3) obtain s1 where s1: "f x s = Inr s1" and r: "forM xs f s1 = Inr s'"
    by (auto split: sum.splits)
  have a: "P s1" using Cons.prems(1) [of x s s1] Cons.prems(2) s1 by simp
  show ?case
  proof (rule Cons.IH [OF _ a r])
    fix y u u' assume "y \<in> set xs" "P u" "f y u = Inr u'"
    then show "P u'" using Cons.prems(1) [of y u u'] by simp
  qed
qed

lemma forM_rel:
  "(\<And>x s u. x \<in> set xs \<Longrightarrow> R s u \<Longrightarrow> rel_sum (=) R (f x s) (f x u)) \<Longrightarrow>
   R s u \<Longrightarrow> rel_sum (=) R (forM xs f s) (forM xs f u)"
proof (induction xs arbitrary: s u)
  case Nil
  then show ?case by simp
next
  case (Cons x xs)
  have rel: "rel_sum (=) R (f x s) (f x u)" using Cons.prems by simp
  show ?case
  proof (cases "f x s")
    case (Inl e)
    then have "f x u = Inl e" using rel by (cases "f x u") auto
    then show ?thesis using Inl by simp
  next
    case (Inr s1)
    then obtain u1 where u1: "f x u = Inr u1" and r1: "R s1 u1"
      using rel by (cases "f x u") auto
    have "rel_sum (=) R (forM xs f s1) (forM xs f u1)"
      using Cons.IH [of s1 u1] Cons.prems(1) r1 by simp
    then show ?thesis using Inr u1 by simp
  qed
qed

lemma same_setup_reset: "same_setup t u \<Longrightarrow> reset_buffers t = reset_buffers u"
  by (cases t, cases u) (simp add: same_setup_def reset_buffers_def)

lemma same_setup_refl: "same_setup t t"
  by (simp add: same_setup_def)

lemma resolve_derivatives_rel:
  "same_setup t u \<Longrightarrow>
   rel_sum (=) same_setup (resolve_derivatives E g n t) (resolve_derivatives E g n u)"
  by (auto simp: resolve_derivatives_def same_setup_def bindF_def Let_def
      split: option.splits sum.splits)

lemma resolve_integrals_rel:
  "same_setup t u \<Longrightarrow>
   rel_sum (=) same_setup (resolve_integrals E g n t) (resolve_integrals E g n u)"
  by (auto simp: resolve_integrals_def same_setup_def bindF_def Let_def
      split: option.splits sum.splits)

lemma bindF_rel:
  "rel_sum (=) R m m' \<Longrightarrow> (\<And>x y. R x y \<Longrightarrow> rel_sum (=) Q (f x) (f' y)) \<Longrightarrow>
   rel_sum (=) Q (bindF m f) (bindF m' f')"
  by (auto simp: bindF_def elim!: rel_sum.cases)

lemma initialize_group_rel:
  assumes r: "same_setup t u"
  shows "rel_sum (=) same_setup (initialize_group E i t) (initialize_group E i u)"
proof -
  have sp: "spec t = spec u" using r by (simp add: same_setup_def)
  obtain f va n where gf: "group_functions (vgroups (spec u) ! i) = (f, va, n)"
    by (cases "group_functions (vgroups (spec u) ! i)") auto
  have r2: "same_setup
        (t\<lparr>vgroupinterpolators := (vgroupinterpolators t)[i := f],
           vgroupvalidators := (vgroupvalidators t)[i := va]\<rparr>)
        (u\<lparr>vgroupinterpolators := (vgroupinterpolators u)[i := f],
           vgroupvalidators := (vgroupvalidators u)[i := va]\<rparr>)"
    using r by (simp add: same_setup_def)
  show ?thesis
    unfolding initialize_group_def sp Let_def gf
    by (auto intro!: bindF_rel resolve_derivatives_rel resolve_integrals_rel r2)
qed

lemma InitializeGroupFunctions_rel:
  assumes r: "same_setup t u"
  shows "rel_sum (=) same_setup (InitializeGroupFunctions E t) (InitializeGroupFunctions E u)"
proof -
  have dof: "DOF E t = DOF E u" and sp: "spec t = spec u"
    using r by (simp_all add: same_setup_def DOF_def)
  have r0: "same_setup (sized_group_vectors E t) (sized_group_vectors E u)"
    using r by (simp add: same_setup_def sized_group_vectors_def Let_def DOF_def)
  show ?thesis
    unfolding InitializeGroupFunctions_def dof sp
    by (auto intro!: forM_rel initialize_group_rel r0)
qed

lemma set_offsets_cases:
  "bindF (set_offsets g f v) k = Inr u \<Longrightarrow> \<exists>v'. k v' = Inr u"
  by (auto simp: bindF_def split: sum.splits)

lemma resolve_derivatives_keeps:
  "resolve_derivatives E g n t = Inr u \<Longrightarrow> keeps_identity t u"
  by (auto simp: resolve_derivatives_def keeps_identity_def bindF_def Let_def
      split: option.splits sum.splits)

lemma resolve_integrals_keeps:
  "resolve_integrals E g n t = Inr u \<Longrightarrow> keeps_identity t u"
  by (auto simp: resolve_integrals_def keeps_identity_def bindF_def Let_def
      split: option.splits sum.splits)

lemma initialize_group_keeps:
  "initialize_group E i t = Inr u \<Longrightarrow> keeps_identity t u"
  by (auto simp: initialize_group_def Let_def bindF_def keeps_identity_def
      split: prod.splits if_splits sum.splits
      dest!: resolve_derivatives_keeps resolve_integrals_keeps)

lemma InitializeGroupFunctions_keeps:
  assumes "InitializeGroupFunctions E t = Inr u"
  shows "keeps_identity t u"
proof -
  have f: "forM [0..<length (vgroups (spec t))] (initialize_group E) (sized_group_vectors E t) = Inr u"
    using assms by (auto simp: InitializeGroupFunctions_def split: if_splits)
  have "keeps_identity t (sized_group_vectors E t)"
    by (simp add: keeps_identity_def sized_group_vectors_def Let_def)
  moreover have "keeps_identity t s'"
    if "keeps_identity t s" "initialize_group E x s = Inr s'" for x s s'
    using that initialize_group_keeps [OF that(2)] by (simp add: keeps_identity_def)
  ultimately show ?thesis
    using forM_invariant [where P = "keeps_identity t", OF _ _ f] by blast
qed

lemma Insert_frame: "Insert E index pdata ow t = Inr u \<Longrightarrow> same_setup t u \<and> bInit u = bInit t"
  by (auto simp: Insert_def Let_def same_setup_def split: if_splits)

lemma Remove_frame: "Remove E a b t = Inr u \<Longrightarrow> same_setup t u \<and> bInit u = bInit t"
  by (auto simp: Remove_def Let_def same_setup_def split: if_splits)

lemma Clear_frame: "same_setup t (ClearWaypoints t) \<and> bInit (ClearWaypoints t) = bInit t"
  by (simp add: ClearWaypoints_def same_setup_def)

lemma Insert_spec_frame:
  "Insert_spec E index pdata sp ow t = Inr u \<Longrightarrow> same_setup t u \<and> bInit u = bInit t"
  by (auto simp: Insert_spec_def Let_def bindF_def same_setup_def
      split: if_splits sum.splits dest!: Insert_frame)

lemma apply_mutation_frame:
  "apply_mutation E m t = Inr u \<Longrightarrow> same_setup t u \<and> bInit u = bInit t"
  by (cases m) (auto dest: Insert_frame Insert_spec_frame Remove_frame simp: Clear_frame)

lemma same_setup_trans: "same_setup t u \<Longrightarrow> same_setup u v \<Longrightarrow> same_setup t v"
  by (simp add: same_setup_def)

lemma same_setup_sym: "same_setup t u \<Longrightarrow> same_setup u t"
  by (simp add: same_setup_def)

lemma run_mutations_frame:
  "run_mutations E ms t = Inr u \<Longrightarrow> same_setup t u \<and> bInit u = bInit t"
proof (induction ms arbitrary: t)
  case Nil
  then show ?case by (simp add: same_setup_refl)
next
  case (Cons m ms)
  from Cons.prems obtain t1 where
    a: "apply_mutation E m t = Inr t1" and r: "run_mutations E ms t1 = Inr u"
    by (auto split: sum.splits)
  show ?case
    using apply_mutation_frame [OF a] Cons.IH [OF r] same_setup_trans by auto
qed

lemma reserve_waypoints_spec:
  "spec u = spec t \<Longrightarrow> reserve_waypoints E n opts u = reserve_waypoints E n opts t"
  by (simp add: reserve_waypoints_def DOF_def)

lemma reset_buffers_idem: "reset_buffers (reset_buffers t) = reset_buffers t"
  by (simp add: reset_buffers_def)

lemma reset_buffers_setup: "same_setup t (reset_buffers t)"
  by (simp add: reset_buffers_def same_setup_def)

lemma reset_buffers_fields:
  "spec (reset_buffers t) = spec t" "bInit (reset_buffers t)" "vtrajdata (reset_buffers t) = []"
  by (simp_all add: reset_buffers_def)

text \<open>\<open>Init\<close> is the preparation of the members followed by the reserve calls.\<close>

lemma Init_alt:
  "Init E sp n opts t =
     bindF (if bInit t \<and> spec_equal E (spec t) sp then Inr (reset_buffers t)
            else bindF (InitializeGroupFunctions E (prepared sp t)) (\<lambda>t1. Inr (reset_buffers t1)))
       (\<lambda>u. bindF (reserve_waypoints E n opts u) (\<lambda>x. Inr u))"
proof -
  have r: "reserve_waypoints E n opts
             (v\<lparr> vtrajdata := [], vaccumtime := [], vdeltainvtime := [],
                 bChanged := True, bSamplingVerified := False \<rparr>)
           = reserve_waypoints E n opts (reset_buffers v)" for v :: "'a Traj"
    by (rule reserve_waypoints_spec) (simp add: reset_buffers_def)
  have e: "v\<lparr> vtrajdata := [], vaccumtime := [], vdeltainvtime := [],
              bChanged := True, bSamplingVerified := False, bInit := True \<rparr> = reset_buffers v"
    for v :: "'a Traj"
    by (simp add: reset_buffers_def)
  show ?thesis
    unfolding Init_def Let_def r
    by (simp add: bindF_def prepared_def e split: sum.splits)
qed

lemma Init_InrE:
  assumes "Init E sp n opts t = Inr t1"
  obtains u where
    "(if bInit t \<and> spec_equal E (spec t) sp then Inr (reset_buffers t)
      else bindF (InitializeGroupFunctions E (prepared sp t)) (\<lambda>t1. Inr (reset_buffers t1))) = Inr u"
    "reserve_waypoints E n opts u = Inr ()" "t1 = u"
  using assms unfolding Init_alt by (auto elim!: bindF_InrE)

lemma prepared_setup:
  "description t = description u \<Longrightarrow> mapReadableInterfaces t = mapReadableInterfaces u \<Longrightarrow>
   same_setup (prepared sp t) (prepared sp u)"
  by (simp add: prepared_def same_setup_def)

lemma prepared_ordered: "canonically_ordered (vgroups (spec (prepared sp t)))"
  by (simp add: prepared_def sorted_code_key_canonical stable_sort_sorted [OF SortGroups_code_key])

text \<open>
  After an \<open>Init\<close> that returned \<open>t1\<close>, and any mutations, \<open>Init\<close> with the same specification
  returns \<open>t1\<close> again if its reserve calls succeed.
\<close>

lemma Init_again:
  assumes i1: "Init E sp n1 o1 t = Inr t1"
    and ms: "run_mutations E ms t1 = Inr t2"
    and rs: "reserve_waypoints E n2 o2 t1 = Inr ()"
  shows "Init E sp n2 o2 t2 = Inr t1"
proof -
  have fr: "same_setup t1 t2" and b2: "bInit t2 = bInit t1"
    using run_mutations_frame [OF ms] by simp_all
  have r21: "reset_buffers t2 = reset_buffers t1"
    using same_setup_reset [OF same_setup_sym [OF fr]] .
  have fin: "Init E sp n2 o2 t2 = Inr t1"
    if "(if bInit t2 \<and> spec_equal E (spec t2) sp then Inr (reset_buffers t2)
         else bindF (InitializeGroupFunctions E (prepared sp t2)) (\<lambda>t1. Inr (reset_buffers t1)))
        = Inr t1"
    unfolding Init_alt that using rs by (simp add: bindF_def)
  show ?thesis
  proof (cases "bInit t \<and> spec_equal E (spec t) sp")
    case True
    then have t1: "t1 = reset_buffers t" using i1 by (auto elim!: Init_InrE)
    have sp2: "spec t2 = spec t" using fr t1 by (simp add: same_setup_def reset_buffers_fields)
    have "bInit t2" using b2 t1 by (simp add: reset_buffers_fields)
    then show ?thesis
      using True sp2 r21 t1 by (intro fin) (simp add: reset_buffers_idem)
  next
    case False
    then obtain s1 where s1: "InitializeGroupFunctions E (prepared sp t) = Inr s1"
      and t1: "t1 = reset_buffers s1"
      using i1 by (auto elim!: Init_InrE bindF_InrE)
    have k1: "keeps_identity (prepared sp t) s1" using InitializeGroupFunctions_keeps [OF s1] .
    show ?thesis
    proof (cases "bInit t2 \<and> spec_equal E (spec t2) sp")
      case True
      then show ?thesis using r21 t1 by (intro fin) (simp add: reset_buffers_idem)
    next
      case F2: False
      have d: "description t = description t2"
        and m: "mapReadableInterfaces t = mapReadableInterfaces t2"
        using k1 fr t1 by (simp_all add: keeps_identity_def same_setup_def reset_buffers_def prepared_def)
      have "rel_sum (=) same_setup (InitializeGroupFunctions E (prepared sp t))
              (InitializeGroupFunctions E (prepared sp t2))"
        using InitializeGroupFunctions_rel [OF prepared_setup [OF d m]] .
      then obtain s2 where s2: "InitializeGroupFunctions E (prepared sp t2) = Inr s2"
        and r12: "same_setup s1 s2"
        using s1 by (cases "InitializeGroupFunctions E (prepared sp t2)") auto
      show ?thesis
        using F2 s2 same_setup_reset [OF r12] t1 by (intro fin) (auto simp add: bindF_def)
    qed
  qed
qed

text \<open>
  C6.  Let the groups of the trajectory be in canonical order if it is initialized (every
  \<open>Init\<close> establishes this).  After an \<open>Init\<close> that returns, the groups are in canonical
  order: known categories by precedence (\<open>deltatime\<close>, snaps, jerks, accelerations,
  velocities, values and transform, torques), unknown categories after all known ones in
  lexicographic order; they are the groups of the specification unless the trajectory
  already had an equal one; and the waypoint buffer is empty.  Calling \<open>Init\<close> again with
  the same arguments returns the very trajectory the first call produced: directly after
  the first call it changes nothing.  After mutations in between it gives back that same
  state, so specification, order, time offset and group functions are unchanged and the
  waypoints stored since are dropped; this also holds for other reserve arguments whose
  reserve calls succeed.
\<close>

theorem init_orders_groups_and_resets:
  assumes inv: "bInit t \<longrightarrow> canonically_ordered (vgroups (spec t))"
    and i1: "Init E sp n1 o1 t = Inr t1"
    and ms: "run_mutations E ms t1 = Inr t2"
  shows "canonically_ordered (vgroups (spec t1)) \<and> vtrajdata t1 = []
         \<and> (\<not> (bInit t \<and> spec_equal E (spec t) sp) \<longrightarrow> mset (vgroups (spec t1)) = mset (vgroups sp))
         \<and> Init E sp n1 o1 t1 = Inr t1
         \<and> Init E sp n1 o1 t2 = Inr t1
         \<and> (reserve_waypoints E n2 o2 t1 = Inr () \<longrightarrow> Init E sp n2 o2 t2 = Inr t1)"
proof -
  have rs1: "reserve_waypoints E n1 o1 t1 = Inr ()" using i1 by (auto elim!: Init_InrE)
  have none: "run_mutations E [] t1 = Inr t1" by simp
  have again: "Init E sp n1 o1 t1 = Inr t1" "Init E sp n1 o1 t2 = Inr t1"
    using Init_again [OF i1 none rs1] Init_again [OF i1 ms rs1] by simp_all
  have other: "reserve_waypoints E n2 o2 t1 = Inr () \<longrightarrow> Init E sp n2 o2 t2 = Inr t1"
    using Init_again [OF i1 ms] by simp
  have first: "canonically_ordered (vgroups (spec t1)) \<and> vtrajdata t1 = []
         \<and> (\<not> (bInit t \<and> spec_equal E (spec t) sp) \<longrightarrow> mset (vgroups (spec t1)) = mset (vgroups sp))"
  proof (cases "bInit t \<and> spec_equal E (spec t) sp")
    case True
    then have t1: "t1 = reset_buffers t" using i1 by (auto elim!: Init_InrE)
    then show ?thesis using True inv by (simp add: reset_buffers_fields)
  next
    case False
    then obtain s1 where s1: "InitializeGroupFunctions E (prepared sp t) = Inr s1"
      and t1: "t1 = reset_buffers s1"
      using i1 by (auto elim!: Init_InrE bindF_InrE)
    have k1: "keeps_identity (prepared sp t) s1" using InitializeGroupFunctions_keeps [OF s1] .
    then have sp1: "spec t1 = spec (prepared sp t)"
      using t1 by (simp add: keeps_identity_def reset_buffers_fields)
    have ord: "canonically_ordered (vgroups (spec t1))" using sp1 prepared_ordered by metis
    have ms1: "mset (vgroups (spec t1)) = mset (vgroups sp)"
      using sp1 by (simp add: prepared_def mset_stable_sort)
    show ?thesis using ord ms1 t1 by (simp add: reset_buffers_fields)
  qed
  show ?thesis using first again other by blast
qed

lemma sort_unsorted: "stable_sort SortGroups (vgroups spec_unsorted) = vgroups spec_next"
  by (simp add: stable_sort_def spec_unsorted_def spec_next_def SortGroups_def name_prefix_def
      maporder_def)

lemma group_functions_deltatime:
  "group_functions \<lparr> name = ''deltatime'', offset = 1, dof = 1, interpolation = [] \<rparr>
     = (Some InterpolateNext, None, 0)"
  by (simp add: group_functions_def Let_def)

lemma group_functions_joint_values:
  "group_functions \<lparr> name = ''joint_values'', offset = 0, dof = 1, interpolation = ''next'' \<rparr>
     = (Some InterpolateNext, None, 0)"
  by (simp add: group_functions_def Let_def)

lemma InitializeGroupFunctions_spec_next:
  "spec t = spec_next \<Longrightarrow> InitializeGroupFunctions env0 t =
     Inr (t\<lparr> vgroupinterpolators := [Some InterpolateNext, Some InterpolateNext],
             vgroupvalidators := [None, None],
             vderivoffsets := [- 1, - 1], vddoffsets := [- 1, - 1], vdddoffsets := [- 1, - 1],
             vintegraloffsets := [- 1, - 1], viioffsets := [- 1, - 1] \<rparr>)"
  by (simp add: InitializeGroupFunctions_def sized_group_vectors_def initialize_group_def
      env0_def DOF_def spec_next_def group_functions_deltatime group_functions_joint_values
      upt_rec [of 0 2] upt_rec [of 1 2] upt_rec [of 2 2] numeral_2_eq_2)

text \<open>The reserve calls for 5 waypoints with the time vectors, and for \<open>2 ^ 30\<close> waypoints,
  whose request wraps to a negative \<open>int\<close>.\<close>

lemma reserve_next_5: "reserve_waypoints env0 5 1 (traj_next xs) = Inr ()"
  by (simp add: reserve_waypoints_def reserve_def DOF_traj_next mul_int_def to_size_t_def
      size_t_max_def vector_max_size_def bindF_def)
     (simp add: env0_def)

lemma reserve_next_7: "reserve_waypoints env0 7 0 (traj_next xs) = Inr ()"
  by (simp add: reserve_waypoints_def reserve_def DOF_traj_next mul_int_def to_size_t_def
      size_t_max_def vector_max_size_def bindF_def)
     (simp add: env0_def)

lemma reserve_next_overflow:
  "reserve_waypoints env0 1073741824 0 (traj_next xs) = Inl std_length_error"
  by (simp add: reserve_waypoints_def reserve_def DOF_traj_next mul_int_def to_size_t_def
      size_t_max_def vector_max_size_def bindF_def)

lemma Init_unsorted_fresh:
  "Init env0 spec_unsorted 5 1 (GenericTrajectory False) = Inr (traj_next [])"
proof -
  have "bindF (InitializeGroupFunctions env0 (prepared spec_unsorted (GenericTrajectory False)))
          (\<lambda>t1. Inr (reset_buffers t1)) = Inr (traj_next [])"
    by (simp add: prepared_def GenericTrajectory_def sort_unsorted
          InitializeGroupFunctions_spec_next bindF_def reset_buffers_def traj_next_def
          find_timeoffset_def spec_next_def [symmetric])
       (simp add: spec_next_def spec_unsorted_def)
  then show ?thesis
    unfolding Init_alt by (simp add: GenericTrajectory_def bindF_def reserve_next_5)
qed

text \<open>
  A request that wraps: \<open>Init\<close> for \<open>2 ^ 30\<close> waypoints of two channels fails with
  \<open>std::length_error\<close>.
\<close>

lemma Init_reserve_overflow:
  "Init env0 spec_next 1073741824 0 (traj_next xs) = Inl std_length_error"
  unfolding Init_alt
  by (simp add: bindF_def reserve_waypoints_spec [of "reset_buffers (traj_next xs)" "traj_next xs"]
        reset_buffers_fields reserve_next_overflow)
     (simp add: traj_next_def env0_def)

text \<open>
  \<open>Init\<close> on a fresh trajectory with the groups of \<open>spec_next\<close> given out of order, reserving
  5 waypoints and the time vectors: the groups come out in canonical order.  The same call
  again returns the same trajectory; after a waypoint is inserted, that call and a call
  reserving 7 waypoints return it too, without the waypoint.
\<close>

theorem init_orders_groups_and_resets_witness:
  "\<not> bInit (GenericTrajectory False :: unit Traj)
   \<and> Init env0 spec_unsorted 5 1 (GenericTrajectory False) = Inr (traj_next [])
   \<and> run_mutations env0 [MInsert 0 [0, 0] False] (traj_next []) = Inr (traj_next [0, 0])
   \<and> \<not> (bInit (GenericTrajectory False :: unit Traj)
          \<and> spec_equal env0 (spec (GenericTrajectory False :: unit Traj)) spec_unsorted)
   \<and> reserve_waypoints env0 7 0 (traj_next []) = Inr ()
   \<and> canonically_ordered (vgroups (spec (traj_next [] :: unit Traj)))
   \<and> vtrajdata (traj_next [] :: unit Traj) = []
   \<and> mset (vgroups (spec (traj_next [] :: unit Traj))) = mset (vgroups spec_unsorted)
   \<and> Init env0 spec_unsorted 5 1 (traj_next []) = Inr (traj_next [])
   \<and> Init env0 spec_unsorted 5 1 (traj_next [0, 0]) = Inr (traj_next [])
   \<and> Init env0 spec_unsorted 7 0 (traj_next [0, 0]) = Inr (traj_next [])"
proof -
  have fresh: "\<not> bInit (GenericTrajectory False :: unit Traj)"
    by (simp add: GenericTrajectory_def)
  then have inv: "bInit (GenericTrajectory False :: unit Traj)
                    \<longrightarrow> canonically_ordered (vgroups (spec (GenericTrajectory False :: unit Traj)))"
    by simp
  have run: "run_mutations env0 [MInsert 0 [0, 0] False] (traj_next []) = Inr (traj_next [0, 0])"
    by (simp add: Insert_def traj_next_def env0_simps)
  show ?thesis
    using init_orders_groups_and_resets [OF inv Init_unsorted_fresh run, of 7 0] fresh run
      Init_unsorted_fresh reserve_next_7 [of "[]"]
    by blast
qed

subsection \<open>The time index rejects a negative \<open>deltatime\<close>\<close>

lemma forM_append: "forM (xs @ ys) f s = bindF (forM xs f s) (forM ys f)"
  by (induction xs arbitrary: s) (auto simp: bindF_def split: sum.splits)

text \<open>The loop runs through a range on which every step succeeds.\<close>

lemma forM_succeeds:
  "(\<And>x s. x \<in> set xs \<Longrightarrow> P s \<Longrightarrow> \<exists>s'. f x s = Inr s' \<and> P s') \<Longrightarrow> P s \<Longrightarrow>
   \<exists>s'. forM xs f s = Inr s' \<and> P s'"
proof (induction xs arbitrary: s)
  case Nil
  then show ?case by simp
next
  case (Cons x xs)
  obtain s1 where s1: "f x s = Inr s1" and p1: "P s1"
    using Cons.prems(1) [of x s] Cons.prems(2) by auto
  have "\<exists>s'. forM xs f s1 = Inr s' \<and> P s'"
  proof (rule Cons.IH [OF _ p1])
    fix y u assume "y \<in> set xs" "P u"
    then show "\<exists>s'. f y u = Inr s' \<and> P s'" using Cons.prems(1) [of y u] by simp
  qed
  then show ?case using s1 by simp
qed

lemma row_index_in_range:
  assumes "0 < d" "0 \<le> toff" "toff < d" "i < sz div nat d"
  shows "0 \<le> d * int i + toff \<and> d * int i + toff < int sz"
proof -
  have "int i + 1 \<le> int (sz div nat d)" using assms(4) by simp
  then have "d * (int i + 1) \<le> d * int (sz div nat d)"
    using assms(1) by (simp add: mult_left_mono)
  also have "\<dots> = int (nat d * (sz div nat d))" using assms(1) by simp
  also have "\<dots> \<le> int sz" by (simp del: of_nat_mult)
  finally have "d * int i + d \<le> int sz" by (simp add: algebra_simps)
  then show ?thesis using assms by simp
qed

lemma ComputeInternal_step_ok:
  assumes ok: "rows_ok E t" and fr: "time_frame t n u"
    and i: "i < length (vtrajdata t) div nat (DOF E t)"
    and nonneg: "0 \<le> deltatime_at E t i"
  shows "\<exists>u'. ComputeInternal_step E i u = Inr u' \<and> time_frame t n u'"
proof -
  have d: "DOF E u = DOF E t" using fr by (simp add: time_frame_def DOF_def)
  have r: "0 \<le> DOF E t * int i + timeoffset t \<and> DOF E t * int i + timeoffset t < int (length (vtrajdata t))"
    using row_index_in_range [of "DOF E t" "timeoffset t" i "length (vtrajdata t)"] ok i
    by (simp add: rows_ok_def)
  show ?thesis
    using r nonneg fr
    by (simp add: ComputeInternal_step_def d rd_def bindF_def time_frame_def deltatime_at_def)
qed

lemma ComputeInternal_step_negative:
  assumes ok: "rows_ok E t" and fr: "time_frame t n u"
    and i: "i < length (vtrajdata t) div nat (DOF E t)"
    and neg: "deltatime_at E t i < 0"
  shows "ComputeInternal_step E i u =
           Inl (openrave_exception ''deltatime (%.15e) is < 0 at point %d/%d''
                  [ArgReal (deltatime_at E t i), ArgInt (int i), ArgInt (int n)] ORE_InvalidState)"
proof -
  have d: "DOF E u = DOF E t" using fr by (simp add: time_frame_def DOF_def)
  have r: "0 \<le> DOF E t * int i + timeoffset t \<and> DOF E t * int i + timeoffset t < int (length (vtrajdata t))"
    using row_index_in_range [of "DOF E t" "timeoffset t" i "length (vtrajdata t)"] ok i
    by (simp add: rows_ok_def)
  show ?thesis
    using r neg fr
    by (simp add: ComputeInternal_step_def d rd_def bindF_def time_frame_def deltatime_at_def)
qed

lemma ComputeInternal_unfold:
  "bChanged t \<Longrightarrow> 0 \<le> timeoffset t \<Longrightarrow> GetNumWaypoints E t = Inr n \<Longrightarrow> 0 < n \<Longrightarrow>
   rd_at (vtrajdata t) (timeoffset t) = Inr d0 \<Longrightarrow>
   ComputeInternal E t =
     bindF (forM [1..<n] (ComputeInternal_step E)
              (t\<lparr> vaccumtime := (resize n (vaccumtime t))[0 := d0],
                  vdeltainvtime := (resize n (vdeltainvtime t))[0 := 1 / d0] \<rparr>))
       (\<lambda>t3. Inr (t3\<lparr> bChanged := False, bSamplingVerified := False \<rparr>))"
  by (simp add: ComputeInternal_def bindF_def Let_def)

lemma rows_ok_count:
  assumes ok: "rows_ok E t"
  shows "GetNumWaypoints E t = Inr (length (vtrajdata t) div nat (DOF E t))"
proof -
  have "to_size_t (DOF E t) = nat (DOF E t)" and "0 < nat (DOF E t)"
    using ok by (simp_all add: rows_ok_def to_size_t_pos)
  then show ?thesis using ok by (simp add: GetNumWaypoints_def rows_ok_def)
qed

lemma first_deltatime:
  assumes ok: "rows_ok E t" and n: "0 < length (vtrajdata t) div nat (DOF E t)"
  shows "rd_at (vtrajdata t) (timeoffset t) = Inr (deltatime_at E t 0)"
proof -
  have "0 \<le> timeoffset t \<and> timeoffset t < int (length (vtrajdata t))"
    using row_index_in_range [of "DOF E t" "timeoffset t" 0 "length (vtrajdata t)"] ok n
    by (simp add: rows_ok_def)
  then show ?thesis by (simp add: rd_at_def deltatime_at_def)
qed

text \<open>
  C4 as stated fails for waypoint 0: its \<open>deltatime\<close> is never checked.  With the single
  waypoint \<open>[0, -1]\<close> the time index is rebuilt without error and the duration is \<open>-1\<close>.
\<close>

theorem first_deltatime_unchecked_counterexample:
  "deltatime_at env0 (traj_next [0, - 1]) 0 < 0
   \<and> map_sum id fst (GetDuration env0 (traj_next [0, - 1])) = Inr (- 1)"
  by (simp add: deltatime_at_def GetDuration_def ComputeInternal_def GetNumWaypoints_def
      rd_at_def resize_def bindF_def traj_next_def env0_simps)

text \<open>
  C4, amended.  On an initialized, changed trajectory with a \<open>deltatime\<close> group inside its
  rows: if some waypoint with index \<open>i \<ge> 1\<close> stores a negative \<open>deltatime\<close>, then the lazy
  rebuild of the time index, and with it the duration query, fails with an
  \<open>ORE_InvalidState\<close> exception whose arguments are the value and the index of the first such
  waypoint \<open>j\<close> and the waypoint count.
\<close>

theorem negative_deltatime_fails:
  assumes ok: "rows_ok E t" and ch: "bChanged t"
    and j: "1 \<le> j" "j < length (vtrajdata t) div nat (DOF E t)"
    and neg: "deltatime_at E t j < 0"
    and least: "\<forall>i. 1 \<le> i \<and> i < j \<longrightarrow> 0 \<le> deltatime_at E t i"
  shows "ComputeInternal E t =
           Inl (openrave_exception ''deltatime (%.15e) is < 0 at point %d/%d''
                  [ArgReal (deltatime_at E t j), ArgInt (int j),
                   ArgInt (int (length (vtrajdata t) div nat (DOF E t)))] ORE_InvalidState)
         \<and> GetDuration E t = Inl (openrave_exception ''deltatime (%.15e) is < 0 at point %d/%d''
                  [ArgReal (deltatime_at E t j), ArgInt (int j),
                   ArgInt (int (length (vtrajdata t) div nat (DOF E t)))] ORE_InvalidState)"
proof -
  define n where "n = length (vtrajdata t) div nat (DOF E t)"
  define e where "e = openrave_exception ''deltatime (%.15e) is < 0 at point %d/%d''
                  [ArgReal (deltatime_at E t j), ArgInt (int j), ArgInt (int n)] ORE_InvalidState"
  have npos: "0 < n" and jn: "j < n" using j by (simp_all add: n_def)
  define t2 where "t2 = t\<lparr> vaccumtime := (resize n (vaccumtime t))[0 := deltatime_at E t 0],
                  vdeltainvtime := (resize n (vdeltainvtime t))[0 := 1 / deltatime_at E t 0] \<rparr>"
  have toff: "0 \<le> timeoffset t" using ok by (simp add: rows_ok_def)
  have unf: "ComputeInternal E t =
     bindF (forM [1..<n] (ComputeInternal_step E) t2)
       (\<lambda>t3. Inr (t3\<lparr> bChanged := False, bSamplingVerified := False \<rparr>))"
    unfolding t2_def
    by (rule ComputeInternal_unfold [OF ch toff _ npos])
       (use ok npos in \<open>simp_all add: rows_ok_count first_deltatime n_def\<close>)
  have fr2: "time_frame t n t2"
    by (simp add: time_frame_def t2_def resize_def)
  have "[1..<j + (n - j)] = [1..<j] @ [j..<j + (n - j)]"
    using j(1) by (rule upt_add_eq_append)
  then have "[1..<n] = [1..<j] @ [j..<n]" using jn by simp
  also have "[j..<n] = j # [Suc j..<n]" using jn by (rule upt_conv_Cons)
  finally have split: "[1..<n] = [1..<j] @ j # [Suc j..<n]" .
  have first: "\<exists>u. forM [1..<j] (ComputeInternal_step E) t2 = Inr u \<and> time_frame t n u"
  proof (rule forM_succeeds [where P = "time_frame t n", OF _ fr2])
    fix x u assume x: "x \<in> set [1..<j]" and u: "time_frame t n u"
    have "x < length (vtrajdata t) div nat (DOF E t)" using x j by simp
    moreover have "0 \<le> deltatime_at E t x" using x least by simp
    ultimately show "\<exists>u'. ComputeInternal_step E x u = Inr u' \<and> time_frame t n u'"
      using ComputeInternal_step_ok [OF ok u] by blast
  qed
  then obtain u where u: "forM [1..<j] (ComputeInternal_step E) t2 = Inr u"
    and fu: "time_frame t n u" by blast
  have "ComputeInternal_step E j u = Inl e"
    unfolding e_def using ComputeInternal_step_negative [OF ok fu j(2) neg] .
  then have loop: "forM [1..<n] (ComputeInternal_step E) t2 = Inl e"
    unfolding split forM_append u by (simp add: bindF_def)
  have ci: "ComputeInternal E t = Inl e"
    unfolding unf loop by (simp add: bindF_def)
  have "GetDuration E t = Inl e"
    using ok unfolding GetDuration_def ci by (simp add: rows_ok_def bindF_def)
  then show ?thesis using ci unfolding e_def n_def by blast
qed

theorem negative_deltatime_fails_witness:
  "rows_ok env0 (traj_next [0, 0, 1, 1, 2, - 1 / 2, 3, - 1]) \<and> bChanged (traj_next [0, 0, 1, 1, 2, - 1 / 2, 3, - 1])
   \<and> (1::nat) \<le> 2
   \<and> 2 < length (vtrajdata (traj_next [0, 0, 1, 1, 2, - 1 / 2, 3, - 1]))
           div nat (DOF env0 (traj_next [0, 0, 1, 1, 2, - 1 / 2, 3, - 1]))
   \<and> deltatime_at env0 (traj_next [0, 0, 1, 1, 2, - 1 / 2, 3, - 1]) 2 < 0
   \<and> 0 \<le> deltatime_at env0 (traj_next [0, 0, 1, 1, 2, - 1 / 2, 3, - 1]) 1
   \<and> ComputeInternal env0 (traj_next [0, 0, 1, 1, 2, - 1 / 2, 3, - 1]) =
        Inl (openrave_exception ''deltatime (%.15e) is < 0 at point %d/%d''
               [ArgReal (- 1 / 2), ArgInt 2, ArgInt 4] ORE_InvalidState)
   \<and> GetDuration env0 (traj_next [0, 0, 1, 1, 2, - 1 / 2, 3, - 1]) =
        Inl (openrave_exception ''deltatime (%.15e) is < 0 at point %d/%d''
               [ArgReal (- 1 / 2), ArgInt 2, ArgInt 4] ORE_InvalidState)"
proof -
  define t :: "unit Traj" where "t = traj_next [0, 0, 1, 1, 2, - 1 / 2, 3, - 1]"
  have ok: "rows_ok env0 t" and ch: "bChanged t"
    by (simp_all add: t_def rows_ok_def DOF_traj_next) (simp_all add: traj_next_def)
  have n: "length (vtrajdata t) div nat (DOF env0 t) = 4"
    by (simp add: t_def DOF_traj_next) (simp add: traj_next_def)
  have d2: "deltatime_at env0 t 2 = - 1 / 2" and d1: "deltatime_at env0 t 1 = 1"
    by (simp_all add: t_def deltatime_at_def DOF_traj_next) (simp_all add: traj_next_def)
  have least: "\<forall>i. 1 \<le> i \<and> i < 2 \<longrightarrow> 0 \<le> deltatime_at env0 t i"
  proof (intro allI impI)
    fix i :: nat assume "1 \<le> i \<and> i < 2"
    then have "i = 1" by simp
    then show "0 \<le> deltatime_at env0 t i" using d1 by simp
  qed
  have "ComputeInternal env0 t =
          Inl (openrave_exception ''deltatime (%.15e) is < 0 at point %d/%d''
                 [ArgReal (deltatime_at env0 t 2), ArgInt (int 2),
                  ArgInt (int (length (vtrajdata t) div nat (DOF env0 t)))] ORE_InvalidState)
        \<and> GetDuration env0 t =
          Inl (openrave_exception ''deltatime (%.15e) is < 0 at point %d/%d''
                 [ArgReal (deltatime_at env0 t 2), ArgInt (int 2),
                  ArgInt (int (length (vtrajdata t) div nat (DOF env0 t)))] ORE_InvalidState)"
    by (rule negative_deltatime_fails [OF ok ch _ _ _ least]) (simp_all add: n d2)
  then show ?thesis
    using ok ch d1 n d2 unfolding t_def [symmetric] by simp
qed

subsection \<open>The interpolators \<open>next\<close> and \<open>linear\<close>\<close>

lemma upto_int_Suc: "upto_int (int (Suc n)) = upto_int (int n) @ [int n]"
  unfolding upto_int_def nat_int by simp

lemma forM_snoc: "forM (xs @ [x]) f s = bindF (forM xs f s) (f x)"
  by (simp add: forM_append bindF_def split: sum.splits)

text \<open>A loop that writes the slots \<open>b, \<dots>, b + n - 1\<close> of a row.\<close>

lemma write_slots_nat:
  assumes val: "\<And>i. i < n \<Longrightarrow> val (int i) = Inr (v i)"
    and b: "0 \<le> b" and fit: "b + int n \<le> int (length d)"
  shows "\<exists>d'. forM (upto_int (int n)) (\<lambda>i d. bindF (val i) (\<lambda>x. wr d (b + i) x)) d = Inr d'
           \<and> length d' = length d
           \<and> (\<forall>k < length d. d' ! k = (if nat b \<le> k \<and> k < nat b + n then v (k - nat b) else d ! k))"
  using val fit
proof (induction n)
  case 0
  then show ?case by (auto simp add: upto_int_def)
next
  case (Suc n)
  have "\<exists>d'. forM (upto_int (int n)) (\<lambda>i d. bindF (val i) (\<lambda>x. wr d (b + i) x)) d = Inr d'
           \<and> length d' = length d
           \<and> (\<forall>k < length d. d' ! k = (if nat b \<le> k \<and> k < nat b + n then v (k - nat b) else d ! k))"
    using Suc.IH Suc.prems by simp
  then obtain d1 where
    d1: "forM (upto_int (int n)) (\<lambda>i d. bindF (val i) (\<lambda>x. wr d (b + i) x)) d = Inr d1"
    and l1: "length d1 = length d"
    and c1: "\<forall>k < length d. d1 ! k = (if nat b \<le> k \<and> k < nat b + n then v (k - nat b) else d ! k)"
    by blast
  have vn: "val (int n) = Inr (v n)" using Suc.prems(1) by simp
  have inr: "0 \<le> b + int n \<and> b + int n < int (length d1)" using b Suc.prems(2) l1 by simp
  have nb: "nat (b + int n) = nat b + n" using b by simp
  have step: "bindF (val (int n)) (\<lambda>x. wr d1 (b + int n) x) = Inr (d1[nat b + n := v n])"
    using vn inr by (simp add: bindF_def wr_def nb)
  have "forM (upto_int (int (Suc n))) (\<lambda>i d. bindF (val i) (\<lambda>x. wr d (b + i) x)) d
          = Inr (d1[nat b + n := v n])"
    unfolding upto_int_Suc forM_snoc d1 using step by (simp add: bindF_def)
  moreover have "\<forall>k < length d. (d1[nat b + n := v n]) ! k
                   = (if nat b \<le> k \<and> k < nat b + Suc n then v (k - nat b) else d ! k)"
    using c1 l1 by (auto simp: nth_list_update less_Suc_eq)
  ultimately show ?case using l1 by simp
qed

lemma write_slots:
  assumes val: "\<And>i. 0 \<le> i \<Longrightarrow> i < n \<Longrightarrow> val i = Inr (v i)"
    and n: "0 \<le> n" and b: "0 \<le> b" and fit: "b + n \<le> int (length d)"
  shows "\<exists>d'. forM (upto_int n) (\<lambda>i d. bindF (val i) (\<lambda>x. wr d (b + i) x)) d = Inr d'
           \<and> length d' = length d
           \<and> (\<forall>j. 0 \<le> j \<and> j < n \<longrightarrow> d' ! nat (b + j) = v j)
           \<and> (\<forall>k < length d. (int k < b \<or> b + n \<le> int k) \<longrightarrow> d' ! k = d ! k)"
proof -
  have v': "\<And>i. i < nat n \<Longrightarrow> val (int i) = Inr ((\<lambda>i. v (int i)) i)"
    using val by simp
  have fit': "b + int (nat n) \<le> int (length d)" using n fit by simp
  obtain d' where r: "forM (upto_int (int (nat n))) (\<lambda>i d. bindF (val i) (\<lambda>x. wr d (b + i) x)) d = Inr d'"
    and l: "length d' = length d"
    and c: "\<forall>k < length d. d' ! k = (if nat b \<le> k \<and> k < nat b + nat n then v (int (k - nat b)) else d ! k)"
    using write_slots_nat [of "nat n" val "\<lambda>i. v (int i)" b d, OF v' b fit'] by blast
  have a: "\<forall>j. 0 \<le> j \<and> j < n \<longrightarrow> d' ! nat (b + j) = v j"
  proof (intro allI impI)
    fix j assume j: "0 \<le> j \<and> j < n"
    have k: "nat (b + j) < length d" using j b fit by linarith
    have inside: "nat b \<le> nat (b + j) \<and> nat (b + j) < nat b + nat n" using j b by linarith
    have idx: "int (nat (b + j) - nat b) = j" using j b by linarith
    have "d' ! nat (b + j) = (if nat b \<le> nat (b + j) \<and> nat (b + j) < nat b + nat n
                               then v (int (nat (b + j) - nat b)) else d ! nat (b + j))"
      using c k by blast
    also have "\<dots> = v (int (nat (b + j) - nat b))" using inside by (rule if_P)
    finally show "d' ! nat (b + j) = v j" unfolding idx .
  qed
  have o: "\<forall>k < length d. (int k < b \<or> b + n \<le> int k) \<longrightarrow> d' ! k = d ! k"
  proof (intro allI impI)
    fix k assume k: "k < length d" and out: "int k < b \<or> b + n \<le> int k"
    have outside: "\<not> (nat b \<le> k \<and> k < nat b + nat n)" using out b n by linarith
    have "d' ! k = (if nat b \<le> k \<and> k < nat b + nat n then v (int (k - nat b)) else d ! k)"
      using c k by blast
    also have "\<dots> = d ! k" using outside by (rule if_not_P)
    finally show "d' ! k = d ! k" .
  qed
  show ?thesis using r l a o n by auto
qed

lemma row_cell_in_range:
  assumes "0 < w" "0 \<le> c" "c < w" "(i + 1) * nat w \<le> sz"
  shows "0 \<le> int i * w + c \<and> int i * w + c < int sz"
proof -
  have "int i * w + c < int i * w + w" using assms(3) by simp
  also have "\<dots> = int ((i + 1) * nat w)" using assms(1) by (simp add: algebra_simps)
  also have "\<dots> \<le> int sz" using assms(4) by (simp del: of_nat_mult of_nat_add)
  finally have "int i * w + c < int sz" .
  moreover have "0 \<le> int i * w" using assms(1) by simp
  ultimately show ?thesis using assms(2) by simp
qed

lemma cell_in_range:
  "0 \<le> k \<and> k < int (length (vtrajdata t)) \<Longrightarrow> cell t k = Inr (vtrajdata t ! nat k)"
  by (simp add: cell_def rd_def)

lemma segment_cells:
  assumes ok: "segment_ok E t g ipoint itdata"
    and c: "0 \<le> c" "c < DOF E t" and i: "i = ipoint \<or> i = ipoint + 1"
  shows "cell t (int i * DOF E t + c) = Inr (vtrajdata t ! nat (int i * DOF E t + c))"
proof -
  have "(i + 1) * nat (DOF E t) \<le> (ipoint + 2) * nat (DOF E t)"
    using i by (intro mult_le_mono1) auto
  then have "(i + 1) * nat (DOF E t) \<le> length (vtrajdata t)"
    using ok by (simp add: segment_ok_def)
  then show ?thesis
    using row_cell_in_range [of "DOF E t" c i "length (vtrajdata t)"] ok c
    by (intro cell_in_range) (simp add: segment_ok_def)
qed

lemma segment_has_next_row:
  assumes ok: "segment_ok E t g ipoint itdata"
  shows "has_next_row E t ipoint"
proof -
  have w: "0 < nat (DOF E t)" and d: "to_size_t (DOF E t) = nat (DOF E t)"
    using ok by (simp_all add: segment_ok_def to_size_t_pos)
  have le: "(ipoint + 2) * nat (DOF E t) \<le> length (vtrajdata t)"
    and sz: "length (vtrajdata t) < size_t_max"
    using ok by (simp_all add: segment_ok_def)
  have "(ipoint + 1) * nat (DOF E t) < (ipoint + 2) * nat (DOF E t)"
    using w by simp
  then have lt: "(ipoint + 1) * nat (DOF E t) < length (vtrajdata t)"
    using le by (rule less_le_trans)
  then have "(ipoint + 1) * nat (DOF E t) < size_t_max"
    using sz by (rule less_trans)
  then show ?thesis using lt by (simp add: has_next_row_def d mul_size_t_small)
qed

lemma copy_range_slots:
  assumes rd: "\<And>j. 0 \<le> j \<Longrightarrow> j < n \<Longrightarrow> rd src (from + j) = Inr (v j)"
    and n: "0 \<le> n" and b: "0 \<le> b" and fit: "b + n \<le> int (length d)"
  shows "\<exists>d'. copy_range src from n d b = Inr d' \<and> length d' = length d
           \<and> (\<forall>j. 0 \<le> j \<and> j < n \<longrightarrow> d' ! nat (b + j) = v j)
           \<and> (\<forall>k < length d. (int k < b \<or> b + n \<le> int k) \<longrightarrow> d' ! k = d ! k)"
  using write_slots [of n "\<lambda>j. rd src (from + j)" v b d, OF rd n b fit] n
  by (simp add: copy_range_def)

text \<open>
  C5 as stated fails on the first segment.  With the waypoints \<open>[3, 0]\<close> and \<open>[8, 1]\<close>, on
  segment \<open>[0, 1]\<close> at \<open>deltatime = 0\<close> the interpolator writes the value 3 of waypoint 0,
  not the value 8 of waypoint 1, although \<open>i > 0\<close> does not hold; sampling the trajectory at
  time \<open>1 / 10 ^ 10\<close>, below \<open>g_fEpsilon = 1 / 10 ^ 9\<close>, returns that value.
\<close>

theorem next_first_segment_counterexample:
  "InterpolateNext_impl env0 (traj_next [3, 0, 8, 1]) group_joint_values 0 0 [0, 0] = Inr [3, 0]
   \<and> waypoint_value env0 (traj_next [3, 0, 8, 1]) 1 group_joint_values 0 = 8
   \<and> map_sum id fst (Sample env0 (1 / 10000000000) (traj_next [3, 0, 8, 1]))
        = Inr [3, 1 / 10000000000]"
proof -
  have k: "InterpolateNext_impl env0 (traj_next [3, 0, 8, 1]) group_joint_values 0 0 [0, 0]
             = Inr [3, 0]"
    by (simp add: InterpolateNext_impl_def has_next_row_def copy_range_def upto_int_def rd_def
        wr_def bindF_def group_joint_values_def traj_next_def env0_simps Let_def)
  have v: "waypoint_value env0 (traj_next [3, 0, 8, 1]) 1 group_joint_values 0 = 8"
    by (simp add: waypoint_value_def channel_at_def group_joint_values_def DOF_traj_next)
       (simp add: traj_next_def)
  have ci: "ComputeInternal env0 (traj_next [3, 0, 8, 1])
              = Inr (traj_next_indexed [3, 0, 8, 1] [0, 1] [0, 1])"
    by (simp add: ComputeInternal_def ComputeInternal_step_def GetNumWaypoints_def resize_def
        rd_at_def rd_def bindF_def traj_next_def traj_next_indexed_def env0_simps Let_def
        upt_rec [of 1 2] upt_rec [of 2 2])
  have dur: "GetDuration env0 (traj_next_indexed [3, 0, 8, 1] [0, 1] [0, 1])
               = Inr (1, traj_next_indexed [3, 0, 8, 1] [0, 1] [0, 1])"
    by (simp add: GetDuration_def ComputeInternal_def bindF_def traj_next_indexed_def
        traj_next_def)
  have run: "run_interpolators env0 (traj_next_indexed [3, 0, 8, 1] [0, 1] [0, 1]) 0
               (1 / 10000000000) [0, 0] = Inr [3, 0]"
    by (simp add: run_interpolators_def call_interpolator_def InterpolateNext_impl_def
        has_next_row_def copy_range_def upto_int_def rd_def wr_def bindF_def
        traj_next_indexed_def traj_next_def env0_simps Let_def upt_rec [of 0 2]
        upt_rec [of 1 2] upt_rec [of 2 2])
  have lb: "lower_bound [0, 1] (1 / 10000000000) = 1"
    by (simp add: lower_bound_def)
  have a: "bInit (traj_next [3, 0, 8, 1])" "timeoffset (traj_next [3, 0, 8, 1]) = 1"
    by (simp_all add: traj_next_def)
  have b: "DOF env0 (traj_next_indexed [3, 0, 8, 1] [0, 1] [0, 1]) = 2"
    "vtrajdata (traj_next_indexed [3, 0, 8, 1] [0, 1] [0, 1]) = [3, 0, 8, 1]"
    "vaccumtime (traj_next_indexed [3, 0, 8, 1] [0, 1] [0, 1]) = [0, 1]"
    "timeoffset (traj_next_indexed [3, 0, 8, 1] [0, 1] [0, 1]) = 1"
    "\<not> level_verbose_or_verifyplans env0"
    by (simp_all add: traj_next_indexed_def traj_next_def env0_def DOF_def spec_next_def)
  have "Sample env0 (1 / 10000000000) (traj_next [3, 0, 8, 1])
          = Inr ([3, 1 / 10000000000], traj_next_indexed [3, 0, 8, 1] [0, 1] [0, 1])"
    unfolding Sample_def
    by (simp add: a b ci dur run lb bindF_def rd_at_def cell_at_def Let_def numeral_2_eq_2)
  then show ?thesis using k v by simp
qed

text \<open>
  C5, amended.  For a group with interpolation label \<open>next\<close> the bound interpolator is
  \<open>_InterpolateNext\<close>, and on a segment \<open>[i, i + 1]\<close> whose waypoints are in the buffer it
  writes, for each channel of the group, the value at waypoint \<open>i + 1\<close>, unless
  \<open>deltatime \<le> g_fEpsilon\<close>, in which case it writes the value at waypoint \<open>i\<close> (for
  every \<open>i\<close>, also \<open>i = 0\<close>).  All other slots of the output row are left as they were.
\<close>

theorem next_outputs_next_unless_close:
  assumes ok: "segment_ok E t g ipoint itdata" and lab: "interpolation g = ''next''"
  shows "fst (group_functions g) = Some InterpolateNext
         \<and> (\<exists>d'. InterpolateNext_impl E t g ipoint deltatime itdata = Inr d'
               \<and> length d' = length itdata
               \<and> (\<forall>j. 0 \<le> j \<and> j < dof g \<longrightarrow>
                     d' ! nat (offset g + j)
                       = waypoint_value E t (if deltatime \<le> g_fEpsilon E then ipoint else ipoint + 1) g j)
               \<and> (\<forall>k < length itdata. (int k < offset g \<or> offset g + dof g \<le> int k)
                     \<longrightarrow> d' ! k = itdata ! k))"
proof -
  define i where "i = (if deltatime \<le> g_fEpsilon E then ipoint else ipoint + 1)"
  have i: "i = ipoint \<or> i = ipoint + 1" by (simp add: i_def)
  have unfold: "InterpolateNext_impl E t g ipoint deltatime itdata
                  = copy_range (vtrajdata t) (int i * DOF E t + offset g) (dof g) itdata (offset g)"
    using segment_has_next_row [OF ok]
    by (simp add: InterpolateNext_impl_def Let_def i_def algebra_simps)
  have rdj: "rd (vtrajdata t) (int i * DOF E t + offset g + j) = Inr (waypoint_value E t i g j)"
    if "0 \<le> j" "j < dof g" for j
  proof -
    have "0 \<le> offset g + j" "offset g + j < DOF E t"
      using that ok by (simp_all add: segment_ok_def)
    from segment_cells [OF ok this i]
    show ?thesis by (simp add: cell_def waypoint_value_def channel_at_def add.assoc)
  qed
  have "\<exists>d'. copy_range (vtrajdata t) (int i * DOF E t + offset g) (dof g) itdata (offset g) = Inr d'
          \<and> length d' = length itdata
          \<and> (\<forall>j. 0 \<le> j \<and> j < dof g \<longrightarrow> d' ! nat (offset g + j) = waypoint_value E t i g j)
          \<and> (\<forall>k < length itdata. (int k < offset g \<or> offset g + dof g \<le> int k) \<longrightarrow> d' ! k = itdata ! k)"
    using ok by (intro copy_range_slots rdj) (simp_all add: segment_ok_def)
  moreover have "fst (group_functions g) = Some InterpolateNext"
    using lab by (simp add: group_functions_def Let_def)
  ultimately show ?thesis unfolding unfold i_def by blast
qed

theorem next_outputs_next_unless_close_witness:
  "segment_ok env0 (traj_next [3, 0, 8, 1]) group_joint_values 0 [0, 0]
   \<and> interpolation group_joint_values = ''next''
   \<and> fst (group_functions group_joint_values) = Some InterpolateNext
   \<and> (\<exists>d'. InterpolateNext_impl env0 (traj_next [3, 0, 8, 1]) group_joint_values 0 (1 / 2) [0, 0]
               = Inr d'
            \<and> length d' = 2 \<and> d' ! 0 = 8)"
proof -
  have ok: "segment_ok env0 (traj_next [3, 0, 8, 1]) group_joint_values 0 [0, 0]"
    by (simp add: segment_ok_def DOF_traj_next group_joint_values_def size_t_max_def)
       (simp add: traj_next_def)
  have lab: "interpolation group_joint_values = ''next''"
    by (simp add: group_joint_values_def)
  have v: "waypoint_value env0 (traj_next [3, 0, 8, 1]) (0 + 1) group_joint_values 0 = 8"
    by (simp add: waypoint_value_def channel_at_def group_joint_values_def DOF_traj_next)
       (simp add: traj_next_def)
  have far: "\<not> (1 / 2 \<le> g_fEpsilon env0)" by (simp add: env0_def)
  from next_outputs_next_unless_close [OF ok lab, of "1 / 2"]
  obtain d' where
    f: "fst (group_functions group_joint_values) = Some InterpolateNext"
    and r: "InterpolateNext_impl env0 (traj_next [3, 0, 8, 1]) group_joint_values 0 (1 / 2) [0, 0]
              = Inr d'"
    and l: "length d' = length [0::dReal, 0]"
    and c: "\<forall>j. 0 \<le> j \<and> j < dof group_joint_values \<longrightarrow>
              d' ! nat (offset group_joint_values + j)
                = waypoint_value env0 (traj_next [3, 0, 8, 1])
                    (if 1 / 2 \<le> g_fEpsilon env0 then 0 else 0 + 1) group_joint_values j"
    by blast
  have "d' ! nat (offset group_joint_values + 0)
          = waypoint_value env0 (traj_next [3, 0, 8, 1])
              (if 1 / 2 \<le> g_fEpsilon env0 then 0 else 0 + 1) group_joint_values 0"
    using c by (simp add: group_joint_values_def)
  then have "d' ! 0 = 8" using v far by (simp add: group_joint_values_def)
  then show ?thesis using ok lab f r l by auto
qed

lemma bindF_simps: "bindF (Inr x) f = f x" "bindF (Inl e) f = Inl e"
  by (simp_all add: bindF_def)

lemma each_dof_slots:
  assumes val: "\<And>i. 0 \<le> i \<Longrightarrow> i < dof g \<Longrightarrow> val i = Inr (v i)"
    and n: "0 \<le> dof g" and b: "0 \<le> offset g" and fit: "offset g + dof g \<le> int (length d)"
  shows "\<exists>d'. each_dof g val d = Inr d' \<and> length d' = length d
           \<and> (\<forall>j. 0 \<le> j \<and> j < dof g \<longrightarrow> d' ! nat (offset g + j) = v j)
           \<and> (\<forall>k < length d. (int k < offset g \<or> offset g + dof g \<le> int k) \<longrightarrow> d' ! k = d ! k)"
  using write_slots [of "dof g" val v "offset g" d, OF val n b fit]
  by (simp add: each_dof_def)

lemma segment_row_cell:
  assumes ok: "segment_ok E t g ipoint itdata" and c: "0 \<le> c" "c < DOF E t"
  shows "cell t (int ipoint * DOF E t + c) = Inr (channel_at E t ipoint c 0)"
    and "cell t (DOF E t + int ipoint * DOF E t + c) = Inr (channel_at E t (ipoint + 1) c 0)"
proof -
  show "cell t (int ipoint * DOF E t + c) = Inr (channel_at E t ipoint c 0)"
    using segment_cells [OF ok c, of ipoint] by (simp add: channel_at_def)
  have e: "DOF E t + int ipoint * DOF E t + c = int (ipoint + 1) * DOF E t + c"
    by (simp add: algebra_simps)
  show "cell t (DOF E t + int ipoint * DOF E t + c) = Inr (channel_at E t (ipoint + 1) c 0)"
    unfolding e using segment_cells [OF ok c, of "ipoint + 1"] by (simp add: channel_at_def)
qed

lemma channel_at_shift: "channel_at E t i (r + j) 0 = channel_at E t i r j"
  by (simp add: channel_at_def add.assoc)

subsection \<open>Linear interpolation of scalar groups\<close>

text \<open>What \<open>_InterpolateLinear\<close> writes, with and without a resolved derivative.\<close>

lemma InterpolateLinear_slots:
  assumes ok: "segment_ok E t g ipoint itdata"
    and ro: "offset g < int (length (vderivoffsets t))"
  shows "(0 \<le> vderivoffsets t ! nat (offset g)
          \<and> vderivoffsets t ! nat (offset g) + dof g \<le> DOF E t
        \<longrightarrow> (\<exists>d'. InterpolateLinear_impl E t g ipoint deltatime itdata = Inr d'
               \<and> length d' = length itdata
               \<and> (\<forall>j. 0 \<le> j \<and> j < dof g \<longrightarrow>
                     d' ! nat (offset g + j)
                       = waypoint_value E t ipoint g j
                         + deltatime * channel_at E t (ipoint + 1) (vderivoffsets t ! nat (offset g)) j)))
     \<and> (vderivoffsets t ! nat (offset g) < 0
          \<and> ipoint + 1 < length (vdeltainvtime t)
          \<and> 0 < deltatime_at E t (ipoint + 1)
          \<and> vdeltainvtime t ! (ipoint + 1) = 1 / deltatime_at E t (ipoint + 1)
        \<longrightarrow> (\<exists>d'. InterpolateLinear_impl E t g ipoint deltatime itdata = Inr d'
               \<and> length d' = length itdata
               \<and> (\<forall>j. 0 \<le> j \<and> j < dof g \<longrightarrow>
                     d' ! nat (offset g + j)
                       = (1 - deltatime / deltatime_at E t (ipoint + 1)) * waypoint_value E t ipoint g j
                         + deltatime / deltatime_at E t (ipoint + 1)
                             * waypoint_value E t (ipoint + 1) g j)))"
proof -
  define r where "r = vderivoffsets t ! nat (offset g)"
  have g0: "0 \<le> offset g" "0 \<le> dof g" "offset g + dof g \<le> DOF E t"
    and len: "int (length itdata) = DOF E t"
    using ok by (simp_all add: segment_ok_def)
  have rdr: "rd (vderivoffsets t) (offset g) = Inr r"
    using g0 ro by (simp add: rd_def r_def)
  have fit: "offset g + dof g \<le> int (length itdata)" using g0 len by simp
  have own: "cell t (int ipoint * DOF E t + offset g + j) = Inr (waypoint_value E t ipoint g j)"
       "cell t (DOF E t + int ipoint * DOF E t + offset g + j)
          = Inr (waypoint_value E t (ipoint + 1) g j)"
    if "0 \<le> j" "j < dof g" for j
  proof -
    have c: "0 \<le> offset g + j" "offset g + j < DOF E t" using that g0 by simp_all
    show "cell t (int ipoint * DOF E t + offset g + j) = Inr (waypoint_value E t ipoint g j)"
      using segment_row_cell(1) [OF ok c]
      by (simp add: waypoint_value_def channel_at_shift add.assoc)
    show "cell t (DOF E t + int ipoint * DOF E t + offset g + j)
            = Inr (waypoint_value E t (ipoint + 1) g j)"
      using segment_row_cell(2) [OF ok c]
      by (simp add: waypoint_value_def channel_at_shift add.assoc)
  qed
  have with_deriv: "\<exists>d'. InterpolateLinear_impl E t g ipoint deltatime itdata = Inr d'
               \<and> length d' = length itdata
               \<and> (\<forall>j. 0 \<le> j \<and> j < dof g \<longrightarrow>
                     d' ! nat (offset g + j)
                       = waypoint_value E t ipoint g j + deltatime * channel_at E t (ipoint + 1) r j)"
    if rpos: "0 \<le> r" and rfit: "r + dof g \<le> DOF E t"
  proof -
    define val where "val = (\<lambda>i.
             bindF (cell t (DOF E t + int ipoint * DOF E t + r + i)) (\<lambda>deriv0.
             bindF (cell t (int ipoint * DOF E t + offset g + i)) (\<lambda>x0.
               Inr (x0 + deltatime * deriv0))))"
    define v where "v = (\<lambda>i. waypoint_value E t ipoint g i
                              + deltatime * channel_at E t (ipoint + 1) r i)"
    have unf: "InterpolateLinear_impl E t g ipoint deltatime itdata = each_dof g val itdata"
      using rpos by (simp add: InterpolateLinear_impl_def Let_def rdr bindF_simps val_def)
    have val: "val i = Inr (v i)" if "0 \<le> i" "i < dof g" for i
    proof -
      have c: "0 \<le> r + i" "r + i < DOF E t" using that rpos rfit by simp_all
      have "cell t (DOF E t + int ipoint * DOF E t + r + i) = Inr (channel_at E t (ipoint + 1) r i)"
        using segment_row_cell(2) [OF ok c] by (simp add: channel_at_shift add.assoc)
      then show ?thesis using own(1) [OF that] by (simp add: bindF_def val_def v_def)
    qed
    show ?thesis
      unfolding unf using each_dof_slots [of g val v itdata, OF val g0(2) g0(1) fit]
      unfolding v_def by blast
  qed
  have without: "\<exists>d'. InterpolateLinear_impl E t g ipoint deltatime itdata = Inr d'
               \<and> length d' = length itdata
               \<and> (\<forall>j. 0 \<le> j \<and> j < dof g \<longrightarrow>
                     d' ! nat (offset g + j)
                       = (1 - deltatime / deltatime_at E t (ipoint + 1)) * waypoint_value E t ipoint g j
                         + deltatime / deltatime_at E t (ipoint + 1)
                             * waypoint_value E t (ipoint + 1) g j)"
    if rneg: "r < 0" and il: "ipoint + 1 < length (vdeltainvtime t)"
      and iv: "vdeltainvtime t ! (ipoint + 1) = 1 / deltatime_at E t (ipoint + 1)"
  proof -
    define f where "f = 1 / deltatime_at E t (ipoint + 1) * deltatime"
    have fe: "f = deltatime / deltatime_at E t (ipoint + 1)" by (simp add: f_def)
    have rdi: "rd_at (vdeltainvtime t) (int ipoint + 1) = Inr (1 / deltatime_at E t (ipoint + 1))"
      using il iv by (simp add: rd_at_def nat_add_distrib)
    define val where "val = (\<lambda>i.
             bindF (cell t (int ipoint * DOF E t + offset g + i)) (\<lambda>x0.
             bindF (cell t (DOF E t + int ipoint * DOF E t + offset g + i)) (\<lambda>x1.
               Inr (x0 * (1 - f) + f * x1))))"
    define v where "v = (\<lambda>i. (1 - f) * waypoint_value E t ipoint g i
                              + f * waypoint_value E t (ipoint + 1) g i)"
    have "InterpolateLinear_impl E t g ipoint deltatime itdata
         = each_dof g (\<lambda>i.
             bindF (cell t (int ipoint * DOF E t + offset g + i)) (\<lambda>x0.
             bindF (cell t (DOF E t + int ipoint * DOF E t + offset g + i)) (\<lambda>x1.
               Inr (x0 * (1 - 1 / deltatime_at E t (ipoint + 1) * deltatime)
                    + 1 / deltatime_at E t (ipoint + 1) * deltatime * x1)))) itdata"
      using rneg by (simp add: InterpolateLinear_impl_def Let_def rdr rdi bindF_simps)
    then have unf: "InterpolateLinear_impl E t g ipoint deltatime itdata = each_dof g val itdata"
      unfolding val_def f_def .
    have val: "val i = Inr (v i)" if "0 \<le> i" "i < dof g" for i
      using own [OF that] by (simp add: bindF_def mult.commute val_def v_def)
    show ?thesis
      unfolding unf using each_dof_slots [of g val v itdata, OF val g0(2) g0(1) fit]
      unfolding v_def fe by blast
  qed
  show ?thesis using with_deriv without unfolding r_def by blast
qed

lemma linear_binding:
  "interpolation g = ''linear'' \<Longrightarrow> fst (group_functions g) = Some (linear_kernel g)"
  by (simp add: group_functions_def linear_kernel_def linear_ik_name_def ik_tag_def Let_def)

text \<open>Off the three rotation and direction tags \<open>_InterpolateLinearIk\<close> adds nothing to
  \<open>_InterpolateLinear\<close>, but above \<open>g_fEpsilon\<close> it reads the time index.\<close>

lemma InterpolateLinearIk_scalar:
  assumes r: "InterpolateLinear_impl E t g ipoint deltatime itdata = Inr d'"
    and tag: "tag \<noteq> IKP_Rotation3D (geometry E)" "tag \<noteq> IKP_Transform6D (geometry E)"
      "tag \<noteq> IKP_TranslationDirection5D (geometry E)"
    and ix: "deltatime > g_fEpsilon E \<longrightarrow> ipoint + 1 < length (vdeltainvtime t)"
  shows "InterpolateLinearIk_impl E t g ipoint deltatime itdata tag = Inr d'"
proof (cases "deltatime > g_fEpsilon E")
  case False
  then show ?thesis by (simp add: InterpolateLinearIk_impl_def r bindF_simps)
next
  case True
  then have "rd_at (vdeltainvtime t) (int ipoint + 1) = Inr (vdeltainvtime t ! (ipoint + 1))"
    using ix by (simp add: rd_at_def nat_add_distrib)
  then show ?thesis
    using True tag by (simp add: InterpolateLinearIk_impl_def r bindF_simps Let_def)
qed

lemma scalar_call:
  assumes sc: "scalar_group E g"
    and ix: "linear_ik_name g \<and> deltatime > g_fEpsilon E \<longrightarrow> ipoint + 1 < length (vdeltainvtime t)"
    and r: "InterpolateLinear_impl E t g ipoint deltatime itdata = Inr d'"
  shows "call_interpolator E t (linear_kernel g) g ipoint deltatime itdata = Inr d'"
proof (cases "linear_ik_name g")
  case False
  then show ?thesis using r by (simp add: linear_kernel_def call_interpolator_def)
next
  case True
  have "InterpolateLinearIk_impl E t g ipoint deltatime itdata (ik_tag g) = Inr d'"
    using sc True ix by (intro InterpolateLinearIk_scalar [OF r]) (auto simp: scalar_group_def)
  then show ?thesis using True by (simp add: linear_kernel_def call_interpolator_def)
qed

text \<open>
  C3.  Every scalar group labelled \<open>linear\<close> is bound to \<open>_InterpolateLinear\<close>, or, when its
  name is one of \<open>ikparam_values\<close>, \<open>ikparam_accelerations\<close>, to \<open>_InterpolateLinearIk\<close> with
  the tag read from the name.  Inside the segment between waypoints \<open>ipoint\<close> and
  \<open>ipoint + 1\<close>, at intra-segment time \<open>deltatime\<close>, the bound kernel writes every channel of
  the group: when the derivative offset of the group is resolved, with
  \<open>x_i + deltatime * v_(i+1)\<close>, the derivative being read from the row of waypoint
  \<open>ipoint + 1\<close>; when it is not resolved, with the convex combination
  \<open>(1 - f) * x_i + f * x_(i+1)\<close> with \<open>f = deltatime / d\<close>, where \<open>d\<close> is the positive deltatime
  of waypoint \<open>ipoint + 1\<close> whose inverse the time index holds.  The rotation-aware kernel
  reads the time index whenever \<open>deltatime\<close> exceeds \<open>g_fEpsilon\<close>, so for its groups the index
  has to cover the segment.
\<close>

theorem linear_interpolation:
  assumes ok: "segment_ok E t g ipoint itdata"
    and lab: "interpolation g = ''linear''"
    and scalar: "scalar_group E g"
    and ro: "offset g < int (length (vderivoffsets t))"
    and ix: "linear_ik_name g \<and> deltatime > g_fEpsilon E \<longrightarrow> ipoint + 1 < length (vdeltainvtime t)"
  shows "fst (group_functions g) = Some (linear_kernel g)
     \<and> (0 \<le> vderivoffsets t ! nat (offset g)
          \<and> vderivoffsets t ! nat (offset g) + dof g \<le> DOF E t
        \<longrightarrow> (\<exists>d'. call_interpolator E t (linear_kernel g) g ipoint deltatime itdata = Inr d'
               \<and> length d' = length itdata
               \<and> (\<forall>j. 0 \<le> j \<and> j < dof g \<longrightarrow>
                     d' ! nat (offset g + j)
                       = waypoint_value E t ipoint g j
                         + deltatime * channel_at E t (ipoint + 1) (vderivoffsets t ! nat (offset g)) j)))
     \<and> (vderivoffsets t ! nat (offset g) < 0
          \<and> ipoint + 1 < length (vdeltainvtime t)
          \<and> 0 < deltatime_at E t (ipoint + 1)
          \<and> vdeltainvtime t ! (ipoint + 1) = 1 / deltatime_at E t (ipoint + 1)
        \<longrightarrow> (\<exists>d'. call_interpolator E t (linear_kernel g) g ipoint deltatime itdata = Inr d'
               \<and> length d' = length itdata
               \<and> (\<forall>j. 0 \<le> j \<and> j < dof g \<longrightarrow>
                     d' ! nat (offset g + j)
                       = (1 - deltatime / deltatime_at E t (ipoint + 1)) * waypoint_value E t ipoint g j
                         + deltatime / deltatime_at E t (ipoint + 1)
                             * waypoint_value E t (ipoint + 1) g j)))"
proof -
  note slots = InterpolateLinear_slots [OF ok ro, of deltatime]
  have call: "InterpolateLinear_impl E t g ipoint deltatime itdata = Inr d' \<Longrightarrow>
              call_interpolator E t (linear_kernel g) g ipoint deltatime itdata = Inr d'" for d'
    by (rule scalar_call [OF scalar ix])
  show ?thesis
    using linear_binding [OF lab] slots call by (elim conjE) (intro conjI impI; blast)
qed

lemma DOF_traj_linear: "DOF env0 (traj_linear nm r) = 3"
  by (simp add: traj_linear_def env0_def DOF_def spec_linear_def group_linear_def)

lemma linear_kernel_joint_values:
  "\<not> linear_ik_name (group_linear ''joint_values'')"
  "linear_kernel (group_linear ''joint_values'') = InterpolateLinear"
  "scalar_group env0 (group_linear ''joint_values'')"
  by (simp_all add: linear_kernel_def linear_ik_name_def scalar_group_def group_linear_def)

lemma ik_tag_9: "ik_tag (group_linear ''ikparam_values 9'') = 9"
  by (simp add: ik_tag_def group_linear_def extract_int_def isspace_def isdigit_def
      digit_value_def Let_def)

lemma linear_kernel_ikparam:
  "linear_ik_name (group_linear ''ikparam_values 9'')"
  "linear_kernel (group_linear ''ikparam_values 9'') = InterpolateLinearIk 9"
  "scalar_group env0 (group_linear ''ikparam_values 9'')"
  by (simp_all add: linear_kernel_def scalar_group_def ik_tag_9)
     (simp_all add: linear_ik_name_def group_linear_def env0_def geometry0_def)

text \<open>
  The segment from \<open>(0, 0)\<close> to \<open>(1, 2)\<close> of duration \<open>1 / 2\<close>, sampled at \<open>1 / 4\<close>: for
  \<open>joint_values\<close> with the velocity group resolved the result is \<open>0 + 1 / 4 * 2\<close>, without it
  \<open>1 / 2 * 0 + 1 / 2 * 1\<close>; and the same for the scalar group \<open>ikparam_values 9\<close>, which goes
  through \<open>_InterpolateLinearIk\<close>.
\<close>

theorem linear_interpolation_witness:
  "segment_ok env0 (traj_linear ''joint_values'' 1) (group_linear ''joint_values'') 0 [0, 0, 0]
   \<and> interpolation (group_linear ''joint_values'') = ''linear''
   \<and> scalar_group env0 (group_linear ''joint_values'')
   \<and> \<not> linear_ik_name (group_linear ''joint_values'')
   \<and> vderivoffsets (traj_linear ''joint_values'' 1) ! nat (offset (group_linear ''joint_values'')) = 1
   \<and> fst (group_functions (group_linear ''joint_values'')) = Some InterpolateLinear
   \<and> (\<exists>d'. call_interpolator env0 (traj_linear ''joint_values'' 1) InterpolateLinear
              (group_linear ''joint_values'') 0 (1 / 4) [0, 0, 0] = Inr d'
            \<and> d' ! 0 = 1 / 2)
   \<and> segment_ok env0 (traj_linear ''joint_values'' (- 2)) (group_linear ''joint_values'') 0 [0, 0, 0]
   \<and> vderivoffsets (traj_linear ''joint_values'' (- 2)) ! nat (offset (group_linear ''joint_values'')) = - 2
   \<and> 0 + 1 < length (vdeltainvtime (traj_linear ''joint_values'' (- 2)))
   \<and> 0 < deltatime_at env0 (traj_linear ''joint_values'' (- 2)) (0 + 1)
   \<and> vdeltainvtime (traj_linear ''joint_values'' (- 2)) ! (0 + 1)
        = 1 / deltatime_at env0 (traj_linear ''joint_values'' (- 2)) (0 + 1)
   \<and> (\<exists>d'. call_interpolator env0 (traj_linear ''joint_values'' (- 2)) InterpolateLinear
              (group_linear ''joint_values'') 0 (1 / 4) [0, 0, 0] = Inr d'
            \<and> d' ! 0 = 1 / 2)
   \<and> segment_ok env0 (traj_linear ''ikparam_values 9'' (- 2)) (group_linear ''ikparam_values 9'') 0 [0, 0, 0]
   \<and> interpolation (group_linear ''ikparam_values 9'') = ''linear''
   \<and> scalar_group env0 (group_linear ''ikparam_values 9'')
   \<and> linear_ik_name (group_linear ''ikparam_values 9'')
   \<and> g_fEpsilon env0 < 1 / 4
   \<and> 0 + 1 < length (vdeltainvtime (traj_linear ''ikparam_values 9'' (- 2)))
   \<and> fst (group_functions (group_linear ''ikparam_values 9'')) = Some (InterpolateLinearIk 9)
   \<and> (\<exists>d'. call_interpolator env0 (traj_linear ''ikparam_values 9'' (- 2)) (InterpolateLinearIk 9)
              (group_linear ''ikparam_values 9'') 0 (1 / 4) [0, 0, 0] = Inr d'
            \<and> d' ! 0 = 1 / 2)"
proof -
  have ok: "segment_ok env0 (traj_linear nm r) (group_linear nm) 0 [0, 0, 0]" for nm r
    by (simp add: segment_ok_def DOF_traj_linear group_linear_def size_t_max_def)
       (simp add: traj_linear_def)
  have g: "interpolation (group_linear nm) = ''linear''"
    "offset (group_linear nm) = 0" "dof (group_linear nm) = 1" for nm
    by (simp_all add: group_linear_def)
  have ro: "offset (group_linear nm) < int (length (vderivoffsets (traj_linear nm r)))" for nm r
    by (simp add: g traj_linear_def)
  have dv: "vderivoffsets (traj_linear nm r) ! nat (offset (group_linear nm)) = r" for nm r
    by (simp add: g traj_linear_def)
  have inv: "0 + 1 < length (vdeltainvtime (traj_linear nm r))"
    "vdeltainvtime (traj_linear nm r) ! (0 + 1) = 2"
    "deltatime_at env0 (traj_linear nm r) (0 + 1) = 1 / 2" for nm r
    by (simp_all add: deltatime_at_def DOF_traj_linear) (simp_all add: traj_linear_def)
  have vals: "waypoint_value env0 (traj_linear nm r) 0 (group_linear nm) 0 = 0"
    "waypoint_value env0 (traj_linear nm r) (0 + 1) (group_linear nm) 0 = 1"
    "channel_at env0 (traj_linear nm r) (0 + 1) 1 0 = 2" for nm r
    by (simp_all add: waypoint_value_def channel_at_def DOF_traj_linear g)
       (simp_all add: traj_linear_def)
  have eps: "g_fEpsilon env0 < 1 / 4" by (simp add: env0_def)
  have j0: "0 \<le> (0::int) \<and> 0 < dof (group_linear nm)" for nm by (simp add: g)
  have ix: "linear_ik_name (group_linear nm) \<and> 1 / 4 > g_fEpsilon env0
              \<longrightarrow> 0 + 1 < length (vdeltainvtime (traj_linear nm r))" for nm r
    using inv(1) by simp
  note th1 = linear_interpolation [OF ok [of "''joint_values''" 1] g(1)
      linear_kernel_joint_values(3) ro ix]
  note th2 = linear_interpolation [OF ok [of "''joint_values''" "- 2"] g(1)
      linear_kernel_joint_values(3) ro ix]
  note th3 = linear_interpolation [OF ok [of "''ikparam_values 9''" "- 2"] g(1)
      linear_kernel_ikparam(3) ro ix]
  have k1: "fst (group_functions (group_linear ''joint_values'')) = Some InterpolateLinear"
    using th1 unfolding linear_kernel_joint_values(2) by blast
  have k3: "fst (group_functions (group_linear ''ikparam_values 9'')) = Some (InterpolateLinearIk 9)"
    using th3 unfolding linear_kernel_ikparam(2) by blast
  have a1: "0 \<le> vderivoffsets (traj_linear ''joint_values'' 1) ! nat (offset (group_linear ''joint_values''))
      \<and> vderivoffsets (traj_linear ''joint_values'' 1) ! nat (offset (group_linear ''joint_values''))
          + dof (group_linear ''joint_values'')
          \<le> DOF env0 (traj_linear ''joint_values'' 1)"
    unfolding dv DOF_traj_linear by (simp add: g)
  from th1 a1 obtain d1 where d1:
    "call_interpolator env0 (traj_linear ''joint_values'' 1) InterpolateLinear
       (group_linear ''joint_values'') 0 (1 / 4) [0, 0, 0] = Inr d1"
    "\<forall>j. 0 \<le> j \<and> j < dof (group_linear ''joint_values'') \<longrightarrow>
        d1 ! nat (offset (group_linear ''joint_values'') + j)
          = waypoint_value env0 (traj_linear ''joint_values'' 1) 0 (group_linear ''joint_values'') j
            + 1 / 4 * channel_at env0 (traj_linear ''joint_values'' 1) (0 + 1)
                       (vderivoffsets (traj_linear ''joint_values'' 1)
                          ! nat (offset (group_linear ''joint_values''))) j"
    unfolding linear_kernel_joint_values(2) by blast
  from d1(2) j0 have "d1 ! nat (offset (group_linear ''joint_values'') + 0)
          = waypoint_value env0 (traj_linear ''joint_values'' 1) 0 (group_linear ''joint_values'') 0
            + 1 / 4 * channel_at env0 (traj_linear ''joint_values'' 1) (0 + 1)
                       (vderivoffsets (traj_linear ''joint_values'' 1)
                          ! nat (offset (group_linear ''joint_values''))) 0"
    by blast
  then have "d1 ! 0 = 1 / 2" unfolding dv vals by (simp add: g)
  with d1(1) have w1: "\<exists>d'. call_interpolator env0 (traj_linear ''joint_values'' 1) InterpolateLinear
              (group_linear ''joint_values'') 0 (1 / 4) [0, 0, 0] = Inr d' \<and> d' ! 0 = 1 / 2"
    by blast
  have a2: "vderivoffsets (traj_linear nm (- 2)) ! nat (offset (group_linear nm)) < 0
      \<and> 0 + 1 < length (vdeltainvtime (traj_linear nm (- 2)))
      \<and> 0 < deltatime_at env0 (traj_linear nm (- 2)) (0 + 1)
      \<and> vdeltainvtime (traj_linear nm (- 2)) ! (0 + 1)
          = 1 / deltatime_at env0 (traj_linear nm (- 2)) (0 + 1)" for nm
    by (simp only: inv dv) simp
  have conv: "d ! 0 = 1 / 2"
    if "\<forall>j. 0 \<le> j \<and> j < dof (group_linear nm) \<longrightarrow>
        d ! nat (offset (group_linear nm) + j)
          = (1 - 1 / 4 / deltatime_at env0 (traj_linear nm (- 2)) (0 + 1))
              * waypoint_value env0 (traj_linear nm (- 2)) 0 (group_linear nm) j
            + 1 / 4 / deltatime_at env0 (traj_linear nm (- 2)) (0 + 1)
              * waypoint_value env0 (traj_linear nm (- 2)) (0 + 1) (group_linear nm) j" for d nm
  proof -
    from that j0 have "d ! nat (offset (group_linear nm) + 0)
          = (1 - 1 / 4 / deltatime_at env0 (traj_linear nm (- 2)) (0 + 1))
              * waypoint_value env0 (traj_linear nm (- 2)) 0 (group_linear nm) 0
            + 1 / 4 / deltatime_at env0 (traj_linear nm (- 2)) (0 + 1)
              * waypoint_value env0 (traj_linear nm (- 2)) (0 + 1) (group_linear nm) 0"
      by blast
    then show ?thesis unfolding inv vals by (simp add: g)
  qed
  have w2: "\<exists>d'. call_interpolator env0 (traj_linear ''joint_values'' (- 2)) InterpolateLinear
              (group_linear ''joint_values'') 0 (1 / 4) [0, 0, 0] = Inr d' \<and> d' ! 0 = 1 / 2"
    using th2 a2 [of "''joint_values''"] conv [of "''joint_values''"]
    unfolding linear_kernel_joint_values(2) by blast
  have w3: "\<exists>d'. call_interpolator env0 (traj_linear ''ikparam_values 9'' (- 2)) (InterpolateLinearIk 9)
              (group_linear ''ikparam_values 9'') 0 (1 / 4) [0, 0, 0] = Inr d' \<and> d' ! 0 = 1 / 2"
    using th3 a2 [of "''ikparam_values 9''"] conv [of "''ikparam_values 9''"]
    unfolding linear_kernel_ikparam(2) by blast
  show ?thesis
    using ok g(1) linear_kernel_joint_values linear_kernel_ikparam(1,3) dv k1 k3 w1 w2 w3 a2 eps
    by blast
qed

subsection \<open>Sampling at the boundaries\<close>















end
